theory Spec2Isabelle
  imports Complex_Main "HOL-Library.Multiset"
begin

section \<open>Mesh diagnostics of the GLB analyzer\<close>

text \<open>
  A shallow embedding of \<^verbatim>\<open>mesh-diagnostics.ts\<close> and \<^verbatim>\<open>problem-geometry.ts\<close>.

  Conventions of the embedding.
  \<^item> \<^verbatim>\<open>positions\<close> is a \<open>real list\<close> and \<^verbatim>\<open>indices\<close> a \<open>nat list\<close>. Floating-point
    numbers are read as exact reals (no rounding, no NaN); every statement about a
    field computed from coordinates is made for indices that are in range, where the
    source never reads past the end of \<^verbatim>\<open>positions\<close>.
  \<^item> Array lengths are multiples of three (data model), so that
    \<^verbatim>\<open>positions.length / 3\<close> and \<^verbatim>\<open>indices.length / 3\<close> are \<open>length _ div 3\<close>.
  \<^item> A JavaScript \<^verbatim>\<open>Map\<close> is an association list in insertion order and a
    \<^verbatim>\<open>Set\<close> a duplicate-free list in insertion order, because the source iterates
    over them.
  \<^item> Counters are natural numbers inside a pass; the fields of the diagnostics
    record are integers, since the capacity-limited result stores \<open>-1\<close>.
\<close>

subsection \<open>JavaScript containers\<close>

text \<open>\<^verbatim>\<open>map.get(k)\<close>\<close>

definition Map_get :: "('k \<times> 'v) list \<Rightarrow> 'k \<Rightarrow> 'v option" where
  "Map_get m k = map_of m k"

text \<open>\<^verbatim>\<open>map.has(k)\<close>\<close>

definition Map_has :: "('k \<times> 'v) list \<Rightarrow> 'k \<Rightarrow> bool" where
  "Map_has m k = (k \<in> fst ` set m)"

text \<open>\<^verbatim>\<open>map.set(k, v)\<close>: an existing key keeps its place, a new key goes last.\<close>

fun Map_set :: "('k \<times> 'v) list \<Rightarrow> 'k \<Rightarrow> 'v \<Rightarrow> ('k \<times> 'v) list" where
  "Map_set [] k v = [(k, v)]"
| "Map_set ((k', v') # m) k v =
     (if k' = k then (k, v) # m else (k', v') # Map_set m k v)"

text \<open>\<^verbatim>\<open>set.add(x)\<close>\<close>

definition Set_add :: "'a list \<Rightarrow> 'a \<Rightarrow> 'a list" where
  "Set_add s x = (if x \<in> set s then s else s @ [x])"

text \<open>\<^verbatim>\<open>for (const x of xs) set.add(x)\<close>\<close>

fun Set_addAll :: "'a list \<Rightarrow> 'a list \<Rightarrow> 'a list" where
  "Set_addAll s [] = s"
| "Set_addAll s (x # xs) = Set_addAll (Set_add s x) xs"

text \<open>
  \<^verbatim>\<open>if (!map.has(k)) map.set(k, [])\<close> (or \<^verbatim>\<open>new Set()\<close>)
\<close>

definition Map_ensure :: "('k \<times> 'v list) list \<Rightarrow> 'k \<Rightarrow> ('k \<times> 'v list) list" where
  "Map_ensure m k = (if \<not> Map_has m k then Map_set m k [] else m)"

text \<open>\<^verbatim>\<open>map.get(k).push(x)\<close>\<close>

definition Map_append :: "('k \<times> 'v list) list \<Rightarrow> 'k \<Rightarrow> 'v \<Rightarrow> ('k \<times> 'v list) list" where
  "Map_append m k x = Map_set m k (the (Map_get m k) @ [x])"

text \<open>\<^verbatim>\<open>map.get(k).add(x)\<close> for a map of sets\<close>

definition Map_add :: "('k \<times> 'v list) list \<Rightarrow> 'k \<Rightarrow> 'v \<Rightarrow> ('k \<times> 'v list) list" where
  "Map_add m k x = Map_set m k (Set_add (the (Map_get m k)) x)"

text \<open>
  Three guarded initialisations followed by three pushes of the same value: the
  way the source files a triangle under its three edges or its three vertices.
\<close>

definition Map_push3 :: "('k \<times> 'v list) list \<Rightarrow> 'k \<Rightarrow> 'k \<Rightarrow> 'k \<Rightarrow> 'v \<Rightarrow> ('k \<times> 'v list) list" where
  "Map_push3 m k0 k1 k2 x =
     Map_append (Map_append (Map_append
       (Map_ensure (Map_ensure (Map_ensure m k0) k1) k2) k0 x) k1 x) k2 x"

definition Map_add3 :: "('k \<times> 'v list) list \<Rightarrow> 'k \<Rightarrow> 'k \<Rightarrow> 'k \<Rightarrow> 'v \<Rightarrow> ('k \<times> 'v list) list" where
  "Map_add3 m k0 k1 k2 x =
     Map_add (Map_add (Map_add
       (Map_ensure (Map_ensure (Map_ensure m k0) k1) k2) k0 x) k1 x) k2 x"

subsection \<open>Edge keys\<close>

definition MAX_VERTEX_FOR_NUMERIC_KEY :: nat where
  "MAX_VERTEX_FOR_NUMERIC_KEY = 67108864"

definition numericEdgeKey :: "nat \<Rightarrow> nat \<Rightarrow> nat" where
  "numericEdgeKey a b =
     (let mn = (if a < b then a else b);
          mx = (if a < b then b else a)
      in mn * MAX_VERTEX_FOR_NUMERIC_KEY + mx)"

definition numericDirectedEdgeKey :: "nat \<Rightarrow> nat \<Rightarrow> nat" where
  "numericDirectedEdgeKey from to = from * MAX_VERTEX_FOR_NUMERIC_KEY + to"

definition decodeEdgeKey :: "nat \<Rightarrow> nat \<times> nat" where
  "decodeEdgeKey key =
     (key div MAX_VERTEX_FOR_NUMERIC_KEY, key mod MAX_VERTEX_FOR_NUMERIC_KEY)"

subsection \<open>Capacity cap\<close>

definition MAP_SIZE_LIMIT :: nat where
  "MAP_SIZE_LIMIT = 16777216"

definition MAX_SAFE_TRIANGLES :: nat where
  "MAX_SAFE_TRIANGLES = MAP_SIZE_LIMIT div 3"

subsection \<open>Winding consistency\<close>

record WindingResult =
  inconsistentEdgeCount :: nat
  consistencyPercent :: real
  skipped :: "bool option"

text \<open>\<^verbatim>\<open>m.set(k, (m.get(k) ?? 0) + 1)\<close>\<close>

definition Map_incr :: "(nat \<times> nat) list \<Rightarrow> nat \<Rightarrow> (nat \<times> nat) list" where
  "Map_incr m k = Map_set m k ((case Map_get m k of None \<Rightarrow> 0 | Some c \<Rightarrow> c) + 1)"

text \<open>The body of the first loop: the three directed edges of triangle \<open>t\<close>.\<close>

definition countTriangleEdges :: "nat list \<Rightarrow> nat \<Rightarrow> (nat \<times> nat) list \<Rightarrow> (nat \<times> nat) list" where
  "countTriangleEdges indices t m =
     (let i = t * 3;
          v0 = indices ! i;
          v1 = indices ! (i + 1);
          v2 = indices ! (i + 2);
          e01 = numericDirectedEdgeKey v0 v1;
          e12 = numericDirectedEdgeKey v1 v2;
          e20 = numericDirectedEdgeKey v2 v0
      in Map_incr (Map_incr (Map_incr m e01) e12) e20)"

definition directedEdgeCounts :: "nat list \<Rightarrow> (nat \<times> nat) list" where
  "directedEdgeCounts indices =
     fold (countTriangleEdges indices) [0..<length indices div 3] []"

text \<open>
  The body of the second loop, over the entries of the directed-edge map. The state
  is \<open>(manifoldEdgeCount, inconsistentEdgeCount, checkedEdges)\<close>.
\<close>

definition windingStep ::
  "(nat \<times> nat) list \<Rightarrow> nat \<times> nat \<Rightarrow> nat \<times> nat \<times> nat set \<Rightarrow> nat \<times> nat \<times> nat set" where
  "windingStep counts entry st =
     (case (entry, st) of ((directedEdgeKey, forwardCount), (manifoldEdgeCount, inconsistent, checkedEdges)) \<Rightarrow>
       let from = directedEdgeKey div MAX_VERTEX_FOR_NUMERIC_KEY;
           to = directedEdgeKey mod MAX_VERTEX_FOR_NUMERIC_KEY;
           undirectedKey = numericEdgeKey from to
       in if undirectedKey \<in> checkedEdges then st
          else
            let checked = insert undirectedKey checkedEdges;
                oppositeEdgeKey = numericDirectedEdgeKey to from;
                backwardCount = (case Map_get counts oppositeEdgeKey of None \<Rightarrow> 0 | Some c \<Rightarrow> c);
                totalTriangles = forwardCount + backwardCount
            in if totalTriangles < 2 then (manifoldEdgeCount, inconsistent, checked)
               else if totalTriangles > 2 then (manifoldEdgeCount, inconsistent, checked)
               else (manifoldEdgeCount + 1,
                     (if forwardCount \<noteq> 1 \<or> backwardCount \<noteq> 1 then inconsistent + 1 else inconsistent),
                     checked))"

definition windingCounts :: "nat list \<Rightarrow> nat \<times> nat \<times> nat set" where
  "windingCounts indices =
     (let counts = directedEdgeCounts indices
      in fold (windingStep counts) counts (0, 0, {}))"

definition detectWindingConsistency :: "nat list \<Rightarrow> WindingResult" where
  "detectWindingConsistency indices =
     (let triangleCount = length indices div 3
      in if triangleCount > MAX_SAFE_TRIANGLES
         then \<lparr>inconsistentEdgeCount = 0, consistencyPercent = -1, skipped = Some True\<rparr>
         else
           (case windingCounts indices of (manifoldEdgeCount, inconsistent, checkedEdges) \<Rightarrow>
              \<lparr>inconsistentEdgeCount = inconsistent,
               consistencyPercent =
                 (if manifoldEdgeCount > 0
                  then ((real manifoldEdgeCount - real inconsistent) / real manifoldEdgeCount) * 100
                  else 100),
               skipped = None\<rparr>))"


subsection \<open>Bounding box and distribution statistics\<close>

record BoundingBox =
  bbMin :: "real \<times> real \<times> real"
  bbMax :: "real \<times> real \<times> real"
  bbSize :: "real \<times> real \<times> real"
  diagonal :: real

record DistributionStats =
  statMin :: real
  statMax :: real
  mean :: real
  median :: real
  stdDev :: real

text \<open>
  The running minimum and maximum start at \<^verbatim>\<open>Infinity\<close> and \<^verbatim>\<open>-Infinity\<close>;
  \<open>None\<close> stands for that initial value, which every \<open>x\<close> replaces.
\<close>

definition lowerTo :: "real \<Rightarrow> real option \<Rightarrow> real option" where
  "lowerTo x acc = (case acc of None \<Rightarrow> Some x | Some m \<Rightarrow> if x < m then Some x else Some m)"

definition raiseTo :: "real \<Rightarrow> real option \<Rightarrow> real option" where
  "raiseTo x acc = (case acc of None \<Rightarrow> Some x | Some m \<Rightarrow> if x > m then Some x else Some m)"

definition boundsStep ::
  "real list \<Rightarrow> nat \<Rightarrow> (real option \<times> real option \<times> real option) \<times> (real option \<times> real option \<times> real option)
     \<Rightarrow> (real option \<times> real option \<times> real option) \<times> (real option \<times> real option \<times> real option)" where
  "boundsStep positions i acc =
     (case acc of ((minX, minY, minZ), (maxX, maxY, maxZ)) \<Rightarrow>
        let x = positions ! (i * 3);
            y = positions ! (i * 3 + 1);
            z = positions ! (i * 3 + 2)
        in ((lowerTo x minX, lowerTo y minY, lowerTo z minZ),
            (raiseTo x maxX, raiseTo y maxY, raiseTo z maxZ)))"

definition computeBoundingBox :: "real list \<Rightarrow> BoundingBox" where
  "computeBoundingBox positions =
     (let vertexCount = length positions div 3
      in if vertexCount = 0
         then \<lparr>bbMin = (0, 0, 0), bbMax = (0, 0, 0), bbSize = (0, 0, 0), diagonal = 0\<rparr>
         else
           (case fold (boundsStep positions) [0..<vertexCount] ((None, None, None), (None, None, None)) of
              ((minX, minY, minZ), (maxX, maxY, maxZ)) \<Rightarrow>
                let sizeX = the maxX - the minX;
                    sizeY = the maxY - the minY;
                    sizeZ = the maxZ - the minZ
                in \<lparr>bbMin = (the minX, the minY, the minZ),
                    bbMax = (the maxX, the maxY, the maxZ),
                    bbSize = (sizeX, sizeY, sizeZ),
                    diagonal = sqrt (sizeX * sizeX + sizeY * sizeY + sizeZ * sizeZ)\<rparr>))"

text \<open>
  \<^verbatim>\<open>estimateCellSize\<close> of the overlay module repeats the loop of the bounding box
  and derives a grid cell size from the diagonal and the triangle count.
\<close>

definition estimateCellSize :: "real list \<Rightarrow> nat \<Rightarrow> real" where
  "estimateCellSize positions nTriangles =
     (let vertexCount = length positions div 3
      in if vertexCount = 0 then 1
         else
           (case fold (boundsStep positions) [0..<vertexCount] ((None, None, None), (None, None, None)) of
              ((minX, minY, minZ), (maxX, maxY, maxZ)) \<Rightarrow>
                let sizeX = the maxX - the minX;
                    sizeY = the maxY - the minY;
                    sizeZ = the maxZ - the minZ;
                    diag = sqrt (sizeX * sizeX + sizeY * sizeY + sizeZ * sizeZ);
                    avgEdgeLength = diag / sqrt (real nTriangles / 2)
                in max (avgEdgeLength * 2) (1 / 10 ^ 6)))"

text \<open>\<^verbatim>\<open>[...values].sort((a, b) => a - b)\<close> is the ascending sort.\<close>

definition computeStats :: "real list \<Rightarrow> DistributionStats option" where
  "computeStats values =
     (if length values = 0 then None
      else
        let sorted = sort values;
            total = foldl (+) 0 values;
            mean = total / real (length values);
            median =
              (if length values mod 2 = 0
               then (sorted ! (length values div 2 - 1) + sorted ! (length values div 2)) / 2
               else sorted ! (length values div 2));
            variance = foldl (\<lambda>acc val. acc + (val - mean)\<^sup>2) 0 values / real (length values)
        in Some \<lparr>statMin = sorted ! 0, statMax = sorted ! (length sorted - 1),
                 mean = mean, median = median, stdDev = sqrt variance\<rparr>)"

subsection \<open>Triangle geometry\<close>

text \<open>The nine coordinates of triangle \<open>(i0, i1, i2)\<close>, as every pass reads them.\<close>

definition vx :: "real list \<Rightarrow> nat \<Rightarrow> real" where "vx positions i = positions ! (i * 3)"
definition vy :: "real list \<Rightarrow> nat \<Rightarrow> real" where "vy positions i = positions ! (i * 3 + 1)"
definition vz :: "real list \<Rightarrow> nat \<Rightarrow> real" where "vz positions i = positions ! (i * 3 + 2)"

text \<open>
  \<^verbatim>\<open>computeAspectRatio\<close>; \<open>None\<close> is the result \<^verbatim>\<open>Infinity\<close>.
\<close>

definition computeAspectRatio ::
  "real \<Rightarrow> real \<Rightarrow> real \<Rightarrow> real \<Rightarrow> real \<Rightarrow> real \<Rightarrow> real \<Rightarrow> real \<Rightarrow> real \<Rightarrow> real option" where
  "computeAspectRatio v0x v0y v0z v1x v1y v1z v2x v2y v2z =
     (let e0 = sqrt ((v1x - v0x)\<^sup>2 + (v1y - v0y)\<^sup>2 + (v1z - v0z)\<^sup>2);
          e1 = sqrt ((v2x - v1x)\<^sup>2 + (v2y - v1y)\<^sup>2 + (v2z - v1z)\<^sup>2);
          e2 = sqrt ((v0x - v2x)\<^sup>2 + (v0y - v2y)\<^sup>2 + (v0z - v2z)\<^sup>2);
          maxEdge = max (max e0 e1) e2;
          s = (e0 + e1 + e2) / 2;
          areaSq = s * (s - e0) * (s - e1) * (s - e2)
      in if areaSq \<le> 0 then None
         else
           let area = sqrt areaSq;
               shortestAltitude = (2 * area) / maxEdge
           in if shortestAltitude < 1 / 10 ^ 10 then None
              else Some (maxEdge / shortestAltitude))"

subsection \<open>Degenerate triangles\<close>

text \<open>The sampling loop over the first \<open>min(triangleCount, 1000)\<close> triangles.\<close>

definition sampleStep :: "real list \<Rightarrow> nat list \<Rightarrow> nat \<Rightarrow> real \<times> nat \<Rightarrow> real \<times> nat" where
  "sampleStep positions indices t acc =
     (case acc of (totalEdgeLength, sampledEdges) \<Rightarrow>
        let i = t * 3;
            i0 = indices ! i; i1 = indices ! (i + 1); i2 = indices ! (i + 2);
            v0x = vx positions i0; v0y = vy positions i0; v0z = vz positions i0;
            v1x = vx positions i1; v1y = vy positions i1; v1z = vz positions i1;
            v2x = vx positions i2; v2y = vy positions i2; v2z = vz positions i2;
            e1Len = sqrt ((v1x - v0x)\<^sup>2 + (v1y - v0y)\<^sup>2 + (v1z - v0z)\<^sup>2);
            e2Len = sqrt ((v2x - v0x)\<^sup>2 + (v2y - v0y)\<^sup>2 + (v2z - v0z)\<^sup>2);
            e3Len = sqrt ((v2x - v1x)\<^sup>2 + (v2y - v1y)\<^sup>2 + (v2z - v1z)\<^sup>2)
        in (totalEdgeLength + (e1Len + e2Len + e3Len), sampledEdges + 3))"

definition avgEdgeLength :: "real list \<Rightarrow> nat list \<Rightarrow> real" where
  "avgEdgeLength positions indices =
     (let triangleCount = length indices div 3;
          sampleLimit = min triangleCount 1000
      in case fold (sampleStep positions indices) [0..<sampleLimit] (0, 0) of
           (totalEdgeLength, sampledEdges) \<Rightarrow>
             if sampledEdges > 0 then totalEdgeLength / real sampledEdges else 1)"

definition areaThresholdSq :: "real list \<Rightarrow> nat list \<Rightarrow> real" where
  "areaThresholdSq positions indices =
     (let expectedAreaSq = 0.1875 * avgEdgeLength positions indices * avgEdgeLength positions indices
      in expectedAreaSq * (1 / 10 ^ 8))"

text \<open>The squared area \<^verbatim>\<open>0.25 * (nx * nx + ny * ny + nz * nz)\<close> of the triangle at offset \<open>i\<close>.\<close>

definition triangleAreaSq :: "real list \<Rightarrow> nat list \<Rightarrow> nat \<Rightarrow> real" where
  "triangleAreaSq positions indices i =
     (let i0 = indices ! i; i1 = indices ! (i + 1); i2 = indices ! (i + 2);
          v0x = vx positions i0; v0y = vy positions i0; v0z = vz positions i0;
          v1x = vx positions i1; v1y = vy positions i1; v1z = vz positions i1;
          v2x = vx positions i2; v2y = vy positions i2; v2z = vz positions i2;
          e1x = v1x - v0x; e1y = v1y - v0y; e1z = v1z - v0z;
          e2x = v2x - v0x; e2y = v2y - v0y; e2z = v2z - v0z;
          nx = e1y * e2z - e1z * e2y;
          ny = e1z * e2x - e1x * e2z;
          nz = e1x * e2y - e1y * e2x
      in 0.25 * (nx * nx + ny * ny + nz * nz))"

text \<open>
  \<^verbatim>\<open>for (let i = 0; i < indices.length; i += 3)\<close> visits the offsets
  \<open>0, 3, 6, \<dots>\<close> below the length.
\<close>

definition offsets :: "nat list \<Rightarrow> nat list" where
  "offsets indices = map (\<lambda>t. t * 3) [0..<(length indices + 2) div 3]"

definition degenerateStep :: "real list \<Rightarrow> nat list \<Rightarrow> real \<Rightarrow> nat \<Rightarrow> nat \<Rightarrow> nat" where
  "degenerateStep positions indices threshold i degenerateCount =
     (if triangleAreaSq positions indices i < threshold then degenerateCount + 1 else degenerateCount)"

definition degenerateTriangleCount_of :: "real list \<Rightarrow> nat list \<Rightarrow> nat" where
  "degenerateTriangleCount_of positions indices =
     fold (degenerateStep positions indices (areaThresholdSq positions indices)) (offsets indices) 0"


subsection \<open>Edge-face map and edge classification\<close>

definition edgeFaceStep :: "nat list \<Rightarrow> nat \<Rightarrow> (nat \<times> nat list) list \<Rightarrow> (nat \<times> nat list) list" where
  "edgeFaceStep indices t edgeFaceMap =
     (let i = t * 3;
          i0 = indices ! i; i1 = indices ! (i + 1); i2 = indices ! (i + 2);
          e01 = numericEdgeKey i0 i1;
          e12 = numericEdgeKey i1 i2;
          e20 = numericEdgeKey i2 i0
      in Map_push3 edgeFaceMap e01 e12 e20 t)"

definition buildEdgeFaceMap :: "nat list \<Rightarrow> nat \<Rightarrow> (nat \<times> nat list) list" where
  "buildEdgeFaceMap indices triangleCount = fold (edgeFaceStep indices) [0..<triangleCount] []"

text \<open>The loop over \<^verbatim>\<open>edgeFaceMap.values()\<close>; the state is \<open>(boundaryEdgeCount, nonManifoldEdgeCount)\<close>.\<close>

definition classifyStep :: "nat \<times> nat list \<Rightarrow> nat \<times> nat \<Rightarrow> nat \<times> nat" where
  "classifyStep entry acc =
     (case (entry, acc) of ((key, faces), (boundaryEdgeCount, nonManifoldEdgeCount)) \<Rightarrow>
        let count = length faces
        in if count = 1 then (boundaryEdgeCount + 1, nonManifoldEdgeCount)
           else if count > 2 then (boundaryEdgeCount, nonManifoldEdgeCount + 1)
           else (boundaryEdgeCount, nonManifoldEdgeCount))"

definition classifyEdges :: "(nat \<times> nat list) list \<Rightarrow> nat \<times> nat" where
  "classifyEdges edgeFaceMap = fold classifyStep edgeFaceMap (0, 0)"

subsection \<open>Connected components: union-find over a \<^verbatim>\<open>Uint32Array\<close>\<close>

text \<open>
  The source indexes the typed array \<^verbatim>\<open>parent\<close> with whatever the index buffer
  holds. A read at an index past the end yields \<^verbatim>\<open>undefined\<close>, a write there is
  ignored, a write of \<^verbatim>\<open>undefined\<close> at a valid index stores \<open>0\<close> (\<^verbatim>\<open>ToUint32(NaN)\<close>),
  and \<^verbatim>\<open>parent[undefined]\<close> is an ordinary property of the array object. The
  model keeps all of this: a value is a number or \<^verbatim>\<open>undefined\<close>, and the state is
  the array together with the property named \<^verbatim>\<open>"undefined"\<close>.
\<close>

datatype jsval = Num nat | Undefined

record ufstate =
  parent :: "nat list"
  undefinedProp :: jsval

text \<open>\<^verbatim>\<open>new Uint32Array(vertexCount)\<close> followed by \<^verbatim>\<open>parent[i] = i\<close> for every \<open>i\<close>\<close>

definition ufInit :: "nat \<Rightarrow> ufstate" where
  "ufInit vertexCount =
     \<lparr>parent = map (\<lambda>i. i mod 2 ^ 32) [0..<vertexCount], undefinedProp = Undefined\<rparr>"

text \<open>\<^verbatim>\<open>parent[x]\<close>\<close>

definition ufRead :: "ufstate \<Rightarrow> jsval \<Rightarrow> jsval" where
  "ufRead st x =
     (case x of
        Num n \<Rightarrow> if n < length (parent st) then Num (parent st ! n) else Undefined
      | Undefined \<Rightarrow> undefinedProp st)"

definition toUint32 :: "jsval \<Rightarrow> nat" where
  "toUint32 v = (case v of Num n \<Rightarrow> n mod 2 ^ 32 | Undefined \<Rightarrow> 0)"

text \<open>\<^verbatim>\<open>parent[x] = v\<close>\<close>

definition ufWrite :: "ufstate \<Rightarrow> jsval \<Rightarrow> jsval \<Rightarrow> ufstate" where
  "ufWrite st x v =
     (case x of
        Num n \<Rightarrow> if n < length (parent st) then st\<lparr>parent := (parent st)[n := toUint32 v]\<rparr> else st
      | Undefined \<Rightarrow> st\<lparr>undefinedProp := v\<rparr>)"

text \<open>
  \<^verbatim>\<open>find\<close> is recursive along the parent chain. The first argument bounds the depth
  of the recursion: \<open>None\<close> is the \<^verbatim>\<open>RangeError\<close> of an exhausted call stack.
\<close>

fun find_uf :: "nat \<Rightarrow> ufstate \<Rightarrow> jsval \<Rightarrow> (ufstate \<times> jsval) option" where
  "find_uf 0 st x = None"
| "find_uf (Suc depth) st x =
     (if ufRead st x \<noteq> x
      then (case find_uf depth st (ufRead st x) of
              None \<Rightarrow> None
            | Some (st1, r) \<Rightarrow> let st2 = ufWrite st1 x r in Some (st2, ufRead st2 x))
      else Some (st, ufRead st x))"

definition union_uf :: "nat \<Rightarrow> jsval \<Rightarrow> jsval \<Rightarrow> ufstate \<Rightarrow> ufstate option" where
  "union_uf depth a b st =
     (case find_uf depth st a of
        None \<Rightarrow> None
      | Some (st1, rootA) \<Rightarrow>
          (case find_uf depth st1 b of
             None \<Rightarrow> None
           | Some (st2, rootB) \<Rightarrow>
               Some (if rootA \<noteq> rootB then ufWrite st2 rootA rootB else st2)))"

text \<open>The union loop over the triangles.\<close>

fun unionAll :: "nat \<Rightarrow> nat list \<Rightarrow> nat list \<Rightarrow> ufstate \<Rightarrow> ufstate option" where
  "unionAll depth indices [] st = Some st"
| "unionAll depth indices (i # rest) st =
     (let i0 = indices ! i; i1 = indices ! (i + 1); i2 = indices ! (i + 2)
      in case union_uf depth (Num i0) (Num i1) st of
           None \<Rightarrow> None
         | Some st1 \<Rightarrow>
             (case union_uf depth (Num i1) (Num i2) st1 of
                None \<Rightarrow> None
              | Some st2 \<Rightarrow> unionAll depth indices rest st2))"

definition usedStep :: "nat \<Rightarrow> nat \<Rightarrow> nat list \<Rightarrow> nat list" where
  "usedStep vertexCount idx used = (if idx < vertexCount then Set_add used idx else used)"

definition usedVertices :: "nat list \<Rightarrow> nat \<Rightarrow> nat list" where
  "usedVertices indices vertexCount = fold (usedStep vertexCount) indices []"

text \<open>The loop that collects \<^verbatim>\<open>find(v)\<close> for every used vertex.\<close>

fun componentRoots :: "nat \<Rightarrow> nat list \<Rightarrow> ufstate \<Rightarrow> jsval list \<Rightarrow> jsval list option" where
  "componentRoots depth [] st roots = Some roots"
| "componentRoots depth (v # vs) st roots =
     (case find_uf depth st (Num v) of
        None \<Rightarrow> None
      | Some (st1, r) \<Rightarrow> componentRoots depth vs st1 (Set_add roots r))"

definition connectedComponents_of :: "nat \<Rightarrow> nat list \<Rightarrow> nat \<Rightarrow> nat option" where
  "connectedComponents_of depth indices vertexCount =
     (case unionAll depth indices (offsets indices) (ufInit vertexCount) of
        None \<Rightarrow> None
      | Some st \<Rightarrow>
          (case componentRoots depth (usedVertices indices vertexCount) st [] of
             None \<Rightarrow> None
           | Some roots \<Rightarrow> Some (length roots)))"


subsection \<open>Non-manifold vertices\<close>

text \<open>Vertex to incident triangles, in the order of first appearance.\<close>

definition vertexToTrianglesStep :: "nat list \<Rightarrow> nat \<Rightarrow> (nat \<times> nat list) list \<Rightarrow> (nat \<times> nat list) list" where
  "vertexToTrianglesStep indices i m =
     (let triIdx = i div 3;
          i0 = indices ! i; i1 = indices ! (i + 1); i2 = indices ! (i + 2)
      in Map_push3 m i0 i1 i2 triIdx)"

definition vertexToTriangles :: "nat list \<Rightarrow> (nat \<times> nat list) list" where
  "vertexToTriangles indices = fold (vertexToTrianglesStep indices) (offsets indices) []"

text \<open>The link graph around \<open>v\<close>: one edge between the two other vertices of each incident triangle.\<close>

definition linkStep :: "nat list \<Rightarrow> nat \<Rightarrow> nat \<Rightarrow> (nat \<times> nat list) list \<Rightarrow> (nat \<times> nat list) list" where
  "linkStep indices v triIdx edgeGraph =
     (let i = triIdx * 3;
          i0 = indices ! i; i1 = indices ! (i + 1); i2 = indices ! (i + 2);
          others = filter (\<lambda>vi. vi \<noteq> v) [i0, i1, i2]
      in if length others \<noteq> 2 then edgeGraph
         else
           let v1 = others ! 0; v2 = others ! 1;
               g1 = Map_ensure edgeGraph v1;
               g2 = Map_ensure g1 v2;
               g3 = Map_add g2 v1 v2
           in Map_add g3 v2 v1)"

definition linkGraph :: "nat list \<Rightarrow> nat \<Rightarrow> nat list \<Rightarrow> (nat \<times> nat list) list" where
  "linkGraph indices v triangles = fold (linkStep indices v) triangles []"

text \<open>
  The breadth-first search. The source keeps the queue as an array with a read
  position; the model keeps the part of the queue that has not been read yet.
\<close>

definition bfsNodes :: "(nat \<times> nat list) list \<Rightarrow> nat list \<Rightarrow> nat set" where
  "bfsNodes g queue = set queue \<union> (\<Union>ns \<in> snd ` set g. set ns)"

function bfs :: "(nat \<times> nat list) list \<Rightarrow> nat list \<Rightarrow> nat list \<Rightarrow> nat list" where
  "bfs g [] visited = visited"
| "bfs g (current # queue) visited =
     (if current \<in> set visited then bfs g queue visited
      else
        let visited1 = visited @ [current];
            pushed = (case Map_get g current of
                        None \<Rightarrow> []
                      | Some neighbors \<Rightarrow> filter (\<lambda>neighbor. neighbor \<notin> set visited1) neighbors)
        in bfs g (queue @ pushed) visited1)"
  by pat_completeness auto


lemma Map_get_in: "Map_get g c = Some ns \<Longrightarrow> set ns \<subseteq> (\<Union>ns \<in> snd ` set g. set ns)"
  by (force simp: Map_get_def dest!: map_of_SomeD)

termination bfs
proof (relation "measures [\<lambda>(g, queue, visited). card (bfsNodes g queue - set visited),
                            \<lambda>(g, queue, visited). length queue]", goal_cases)
  case 1
  then show ?case by simp
next
  case (2 g current queue visited)
  have "bfsNodes g queue \<subseteq> bfsNodes g (current # queue)" by (auto simp: bfsNodes_def)
  then have "card (bfsNodes g queue - set visited) \<le> card (bfsNodes g (current # queue) - set visited)"
    by (intro card_mono) (auto simp: bfsNodes_def)
  then show ?case by auto
next
  case (3 g current queue visited x xa)
  have fin: "finite (bfsNodes g (current # queue) - set visited)" by (simp add: bfsNodes_def)
  have sub: "set xa \<subseteq> (\<Union>ns \<in> snd ` set g. set ns)"
    using 3 by (auto split: option.splits dest!: Map_get_in)
  have "bfsNodes g (queue @ xa) - set x \<subset> bfsNodes g (current # queue) - set visited"
    using 3 sub by (auto simp: bfsNodes_def)
  then have "card (bfsNodes g (queue @ xa) - set x) < card (bfsNodes g (current # queue) - set visited)"
    by (rule psubset_card_mono[OF fin])
  then show ?case by simp
qed

text \<open>
  The test applied to one entry \<open>(v, triangles)\<close> of the vertex map: the fans
  around \<open>v\<close> are disconnected. \<^verbatim>\<open>detectNonManifoldVertices\<close> and the pinch-point
  part of \<^verbatim>\<open>extractProblemGeometry\<close> contain the same statements.
\<close>

definition fansDisconnected :: "nat list \<Rightarrow> nat \<Rightarrow> nat list \<Rightarrow> bool" where
  "fansDisconnected indices v triangles =
     (if length triangles = 0 then False
      else
        let edgeGraph = linkGraph indices v triangles
        in if length edgeGraph = 0 then False
           else
             let startVertex = fst (edgeGraph ! 0);
                 visited = bfs edgeGraph [startVertex] []
             in length visited \<noteq> length edgeGraph)"

definition nonManifoldStep :: "nat list \<Rightarrow> nat \<times> nat list \<Rightarrow> nat \<Rightarrow> nat" where
  "nonManifoldStep indices entry nonManifoldCount =
     (case entry of (v, triangles) \<Rightarrow>
        if fansDisconnected indices v triangles then nonManifoldCount + 1 else nonManifoldCount)"

definition detectNonManifoldVertices :: "nat list \<Rightarrow> nat" where
  "detectNonManifoldVertices indices = fold (nonManifoldStep indices) (vertexToTriangles indices) 0"

subsection \<open>Duplicate vertices\<close>

text \<open>A grid cell; the source joins the three integers into a string key.\<close>

type_synonym cell = "int \<times> int \<times> int"

definition cellOf :: "real \<Rightarrow> real \<Rightarrow> real \<Rightarrow> real \<Rightarrow> cell" where
  "cellOf cellSize x y z = (\<lfloor>x / cellSize\<rfloor>, \<lfloor>y / cellSize\<rfloor>, \<lfloor>z / cellSize\<rfloor>)"

definition duplicateStep :: "real list \<Rightarrow> nat \<Rightarrow> (cell \<times> nat list) list \<times> nat \<Rightarrow> (cell \<times> nat list) list \<times> nat" where
  "duplicateStep positions i acc =
     (case acc of (grid, duplicateCount) \<Rightarrow>
        let tolerance = 1 / 10 ^ 6;
            cellSize = tolerance * 10;
            x = vx positions i; y = vy positions i; z = vz positions i;
            key = cellOf cellSize x y z
        in case Map_get grid key of
             Some cell \<Rightarrow>
               let isDuplicate =
                     (\<exists>j \<in> set cell.
                        (x - vx positions j)\<^sup>2 + (y - vy positions j)\<^sup>2 + (z - vz positions j)\<^sup>2
                          < tolerance * tolerance)
               in (Map_set grid key (cell @ [i]),
                   if isDuplicate then duplicateCount + 1 else duplicateCount)
           | None \<Rightarrow> (Map_set grid key [i], duplicateCount))"

definition detectDuplicateVertices :: "real list \<Rightarrow> nat" where
  "detectDuplicateVertices positions =
     snd (fold (duplicateStep positions) [0..<length positions div 3] ([], 0))"

subsection \<open>Triangle quality: edge lengths, areas, aspect ratios\<close>

definition triangleEdgeLengths :: "real list \<Rightarrow> nat list \<Rightarrow> nat \<Rightarrow> real list" where
  "triangleEdgeLengths positions indices t =
     (let i = t * 3;
          i0 = indices ! i; i1 = indices ! (i + 1); i2 = indices ! (i + 2);
          v0x = vx positions i0; v0y = vy positions i0; v0z = vz positions i0;
          v1x = vx positions i1; v1y = vy positions i1; v1z = vz positions i1;
          v2x = vx positions i2; v2y = vy positions i2; v2z = vz positions i2;
          e0 = sqrt ((v1x - v0x)\<^sup>2 + (v1y - v0y)\<^sup>2 + (v1z - v0z)\<^sup>2);
          e1 = sqrt ((v2x - v1x)\<^sup>2 + (v2y - v1y)\<^sup>2 + (v2z - v1z)\<^sup>2);
          e2 = sqrt ((v0x - v2x)\<^sup>2 + (v0y - v2y)\<^sup>2 + (v0z - v2z)\<^sup>2)
      in [e0, e1, e2])"

definition triangleArea :: "real list \<Rightarrow> nat list \<Rightarrow> nat \<Rightarrow> real" where
  "triangleArea positions indices t =
     (let i = t * 3;
          i0 = indices ! i; i1 = indices ! (i + 1); i2 = indices ! (i + 2);
          v0x = vx positions i0; v0y = vy positions i0; v0z = vz positions i0;
          v1x = vx positions i1; v1y = vy positions i1; v1z = vz positions i1;
          v2x = vx positions i2; v2y = vy positions i2; v2z = vz positions i2;
          ex1 = v1x - v0x; ey1 = v1y - v0y; ez1 = v1z - v0z;
          ex2 = v2x - v0x; ey2 = v2y - v0y; ez2 = v2z - v0z;
          nx = ey1 * ez2 - ez1 * ey2;
          ny = ez1 * ex2 - ex1 * ez2;
          nz = ex1 * ey2 - ey1 * ex2
      in 0.5 * sqrt (nx * nx + ny * ny + nz * nz))"

definition triangleAspectRatio :: "real list \<Rightarrow> nat list \<Rightarrow> nat \<Rightarrow> real option" where
  "triangleAspectRatio positions indices t =
     (let i = t * 3;
          i0 = indices ! i; i1 = indices ! (i + 1); i2 = indices ! (i + 2)
      in computeAspectRatio (vx positions i0) (vy positions i0) (vz positions i0)
           (vx positions i1) (vy positions i1) (vz positions i1)
           (vx positions i2) (vy positions i2) (vz positions i2))"

text \<open>
  The quality loop pushes three edge lengths and one area per triangle, and the
  aspect ratio when it is finite; the arrays it builds are these.
\<close>

definition edgeLengths :: "real list \<Rightarrow> nat list \<Rightarrow> real list" where
  "edgeLengths positions indices =
     concat (map (triangleEdgeLengths positions indices) [0..<length indices div 3])"

definition triangleAreas :: "real list \<Rightarrow> nat list \<Rightarrow> real list" where
  "triangleAreas positions indices =
     map (triangleArea positions indices) [0..<length indices div 3]"

definition aspectRatios :: "real list \<Rightarrow> nat list \<Rightarrow> real list" where
  "aspectRatios positions indices =
     concat (map (\<lambda>t. case triangleAspectRatio positions indices t of None \<Rightarrow> [] | Some ar \<Rightarrow> [ar])
                 [0..<length indices div 3])"

definition needleStep :: "real \<Rightarrow> nat \<Rightarrow> nat" where
  "needleStep ar needleCount = (if ar > 10 then needleCount + 1 else needleCount)"

definition needleTriangleCount_of :: "real list \<Rightarrow> nat list \<Rightarrow> nat" where
  "needleTriangleCount_of positions indices = fold needleStep (aspectRatios positions indices) 0"

definition medianArea :: "real list \<Rightarrow> real" where
  "medianArea areas =
     (let sortedAreas = sort areas
      in if length sortedAreas > 0 then sortedAreas ! (length sortedAreas div 2) else 0)"

definition tinyStep :: "real \<Rightarrow> real \<Rightarrow> nat \<Rightarrow> nat" where
  "tinyStep tinyThreshold area tinyCount =
     (if area < tinyThreshold \<and> area > 0 then tinyCount + 1 else tinyCount)"

definition tinyTriangleCount_of :: "real list \<Rightarrow> nat list \<Rightarrow> nat" where
  "tinyTriangleCount_of positions indices =
     (let areas = triangleAreas positions indices;
          tinyThreshold = medianArea areas * 0.01
      in fold (tinyStep tinyThreshold) areas 0)"

subsection \<open>Valence distribution\<close>

definition valenceStep :: "nat \<Rightarrow> nat \<Rightarrow> nat list \<Rightarrow> nat list" where
  "valenceStep vertexCount v vals =
     (if v < vertexCount then vals[v := (vals ! v + 1) mod 2 ^ 32] else vals)"

definition valences :: "nat list \<Rightarrow> nat \<Rightarrow> nat list" where
  "valences indices vertexCount = fold (valenceStep vertexCount) indices (replicate vertexCount 0)"

definition distributionStep :: "nat list \<Rightarrow> nat \<Rightarrow> (nat \<rightharpoonup> nat) \<Rightarrow> (nat \<rightharpoonup> nat)" where
  "distributionStep vals i distribution =
     (let val = vals ! i
      in if val > 0
         then distribution(val \<mapsto> (case distribution val of None \<Rightarrow> 0 | Some c \<Rightarrow> c) + 1)
         else distribution)"

definition computeValenceDistribution :: "nat list \<Rightarrow> nat \<Rightarrow> (nat \<rightharpoonup> nat)" where
  "computeValenceDistribution indices vertexCount =
     fold (distributionStep (valences indices vertexCount)) [0..<vertexCount] Map.empty"

subsection \<open>Dihedral angles\<close>

definition computeFaceNormal :: "real list \<Rightarrow> nat \<Rightarrow> nat \<Rightarrow> nat \<Rightarrow> real \<times> real \<times> real" where
  "computeFaceNormal positions i0 i1 i2 =
     (let v0x = vx positions i0; v0y = vy positions i0; v0z = vz positions i0;
          v1x = vx positions i1; v1y = vy positions i1; v1z = vz positions i1;
          v2x = vx positions i2; v2y = vy positions i2; v2z = vz positions i2;
          e1x = v1x - v0x; e1y = v1y - v0y; e1z = v1z - v0z;
          e2x = v2x - v0x; e2y = v2y - v0y; e2z = v2z - v0z
      in (e1y * e2z - e1z * e2y, e1z * e2x - e1x * e2z, e1x * e2y - e1y * e2x))"

definition faceNormals :: "real list \<Rightarrow> nat list \<Rightarrow> (real \<times> real \<times> real) list" where
  "faceNormals positions indices =
     map (\<lambda>t. computeFaceNormal positions (indices ! (t * 3)) (indices ! (t * 3 + 1)) (indices ! (t * 3 + 2)))
         [0..<length indices div 3]"

text \<open>The dihedral angle of one map entry, when the entry has two faces with usable normals.\<close>

definition dihedralAngleOf :: "(real \<times> real \<times> real) list \<Rightarrow> nat list \<Rightarrow> real option" where
  "dihedralAngleOf normals faces =
     (if length faces \<noteq> 2 then None
      else
        case (normals ! (faces ! 0), normals ! (faces ! 1)) of ((n1x, n1y, n1z), (n2x, n2y, n2z)) \<Rightarrow>
          let len1 = sqrt (n1x * n1x + n1y * n1y + n1z * n1z);
              len2 = sqrt (n2x * n2x + n2y * n2y + n2z * n2z)
          in if len1 < 1 / 10 ^ 10 \<or> len2 < 1 / 10 ^ 10 then None
             else
               let nx1 = n1x / len1; ny1 = n1y / len1; nz1 = n1z / len1;
                   nx2 = n2x / len2; ny2 = n2y / len2; nz2 = n2z / len2;
                   dot = nx1 * nx2 + ny1 * ny2 + nz1 * nz2;
                   clampedDot = max (-1) (min 1 dot);
                   angleBetweenNormals = arccos clampedDot * (180 / pi)
               in Some (180 - angleBetweenNormals))"

record DihedralResult =
  sharpEdgeCount_d :: nat
  coplanarEdgeCount_d :: nat
  dihedralAngleStats_d :: "DistributionStats option"

definition dihedralAngles :: "real list \<Rightarrow> nat list \<Rightarrow> (nat \<times> nat list) list \<Rightarrow> real list" where
  "dihedralAngles positions indices edgeFaceMap =
     concat (map (\<lambda>(key, faces). case dihedralAngleOf (faceNormals positions indices) faces of
                                    None \<Rightarrow> [] | Some a \<Rightarrow> [a])
                 edgeFaceMap)"

definition computeDihedralAngles :: "real list \<Rightarrow> nat list \<Rightarrow> (nat \<times> nat list) list \<Rightarrow> DihedralResult" where
  "computeDihedralAngles positions indices edgeFaceMap =
     (let angles = dihedralAngles positions indices edgeFaceMap
      in \<lparr>sharpEdgeCount_d = length (filter (\<lambda>a. a < 30) angles),
          coplanarEdgeCount_d = length (filter (\<lambda>a. a > 170) angles),
          dihedralAngleStats_d = computeStats angles\<rparr>)"


subsection \<open>Spatial hash grid\<close>

record TriBounds =
  minX :: real
  minY :: real
  minZ :: real
  maxX :: real
  maxY :: real
  maxZ :: real

text \<open>The cells visited by the three nested loops, in the order of the loops.\<close>

definition cellsBetween :: "real \<Rightarrow> TriBounds \<Rightarrow> cell list" where
  "cellsBetween cellSize b =
     (let minCX = \<lfloor>minX b / cellSize\<rfloor>; minCY = \<lfloor>minY b / cellSize\<rfloor>; minCZ = \<lfloor>minZ b / cellSize\<rfloor>;
          maxCX = \<lfloor>maxX b / cellSize\<rfloor>; maxCY = \<lfloor>maxY b / cellSize\<rfloor>; maxCZ = \<lfloor>maxZ b / cellSize\<rfloor>
      in concat (map (\<lambda>cx. concat (map (\<lambda>cy. map (\<lambda>cz. (cx, cy, cz)) [minCZ..maxCZ]) [minCY..maxCY]))
                     [minCX..maxCX]))"

text \<open>\<^verbatim>\<open>SpatialHashGrid.insert\<close>\<close>

definition gridInsertStep :: "nat \<Rightarrow> cell \<Rightarrow> (cell \<times> nat list) list \<Rightarrow> (cell \<times> nat list) list" where
  "gridInsertStep triIndex key grid = Map_append (Map_ensure grid key) key triIndex"

definition grid_insert :: "real \<Rightarrow> nat \<Rightarrow> TriBounds \<Rightarrow> (cell \<times> nat list) list \<Rightarrow> (cell \<times> nat list) list" where
  "grid_insert cellSize triIndex b grid = fold (gridInsertStep triIndex) (cellsBetween cellSize b) grid"

text \<open>\<^verbatim>\<open>SpatialHashGrid.query\<close>\<close>

definition gridQueryStep :: "(cell \<times> nat list) list \<Rightarrow> cell \<Rightarrow> nat list \<Rightarrow> nat list" where
  "gridQueryStep grid key result =
     (case Map_get grid key of None \<Rightarrow> result | Some tris \<Rightarrow> Set_addAll result tris)"

definition grid_query :: "real \<Rightarrow> (cell \<times> nat list) list \<Rightarrow> TriBounds \<Rightarrow> nat list" where
  "grid_query cellSize grid b = fold (gridQueryStep grid) (cellsBetween cellSize b) []"

definition triBoundsOf :: "real list \<Rightarrow> nat list \<Rightarrow> nat \<Rightarrow> TriBounds" where
  "triBoundsOf positions indices t =
     (let i0 = indices ! (t * 3); i1 = indices ! (t * 3 + 1); i2 = indices ! (t * 3 + 2);
          x0 = vx positions i0; y0 = vy positions i0; z0 = vz positions i0;
          x1 = vx positions i1; y1 = vy positions i1; z1 = vz positions i1;
          x2 = vx positions i2; y2 = vy positions i2; z2 = vz positions i2
      in \<lparr>minX = min (min x0 x1) x2, minY = min (min y0 y1) y2, minZ = min (min z0 z1) z2,
          maxX = max (max x0 x1) x2, maxY = max (max y0 y1) y2, maxZ = max (max z0 z1) z2\<rparr>)"

subsection \<open>Triangle-triangle intersection\<close>

definition computeTriangleInterval ::
  "real \<Rightarrow> real \<Rightarrow> real \<Rightarrow> real \<Rightarrow> real \<Rightarrow> real \<Rightarrow> (real \<times> real) option" where
  "computeTriangleInterval pa pb pc da db dc =
     (let p1 = (if (da > 0) \<noteq> (db > 0) \<and> \<bar>da - db\<bar> > 1 / 10 ^ 10
                then [pa + (da / (da - db)) * (pb - pa)] else []);
          p2 = (if (db > 0) \<noteq> (dc > 0) \<and> \<bar>db - dc\<bar> > 1 / 10 ^ 10
                then [pb + (db / (db - dc)) * (pc - pb)] else []);
          p3 = (if (dc > 0) \<noteq> (da > 0) \<and> \<bar>dc - da\<bar> > 1 / 10 ^ 10
                then [pc + (dc / (dc - da)) * (pa - pc)] else []);
          p4 = (if \<bar>da\<bar> < 1 / 10 ^ 8 then [pa] else []);
          p5 = (if \<bar>db\<bar> < 1 / 10 ^ 8 then [pb] else []);
          p6 = (if \<bar>dc\<bar> < 1 / 10 ^ 8 then [pc] else []);
          points = p1 @ p2 @ p3 @ p4 @ p5 @ p6
      in if length points < 2 then None
         else Some (Min (set points), Max (set points)))"

definition segmentsIntersect2D ::
  "real \<Rightarrow> real \<Rightarrow> real \<Rightarrow> real \<Rightarrow> real \<Rightarrow> real \<Rightarrow> real \<Rightarrow> real \<Rightarrow> bool" where
  "segmentsIntersect2D ax1 ay1 bx1 by1 ax2 ay2 bx2 by2 =
     (let d1x = bx1 - ax1; d1y = by1 - ay1;
          d2x = bx2 - ax2; d2y = by2 - ay2;
          cross = d1x * d2y - d1y * d2x
      in if \<bar>cross\<bar> < 1 / 10 ^ 10 then False
         else
           let dx = ax2 - ax1; dy = ay2 - ay1;
               t1 = (dx * d2y - dy * d2x) / cross;
               t2 = (dx * d1y - dy * d1x) / cross
           in t1 > 1 / 10 ^ 8 \<and> t1 < 1 - 1 / 10 ^ 8 \<and> t2 > 1 / 10 ^ 8 \<and> t2 < 1 - 1 / 10 ^ 8)"

definition pointInTriangle2D ::
  "real \<Rightarrow> real \<Rightarrow> real \<Rightarrow> real \<Rightarrow> real \<Rightarrow> real \<Rightarrow> real \<Rightarrow> real \<Rightarrow> bool" where
  "pointInTriangle2D px py ax ay bx by cx cy =
     (let v0x = cx - ax; v0y = cy - ay;
          v1x = bx - ax; v1y = by - ay;
          v2x = px - ax; v2y = py - ay;
          dot00 = v0x * v0x + v0y * v0y;
          dot01 = v0x * v1x + v0y * v1y;
          dot02 = v0x * v2x + v0y * v2y;
          dot11 = v1x * v1x + v1y * v1y;
          dot12 = v1x * v2x + v1y * v2y;
          denom = dot00 * dot11 - dot01 * dot01
      in if \<bar>denom\<bar> < 1 / 10 ^ 10 then False
         else
           let inv = 1 / denom;
               u = (dot11 * dot02 - dot01 * dot12) * inv;
               v = (dot00 * dot12 - dot01 * dot02) * inv
           in u \<ge> 0 \<and> v \<ge> 0 \<and> u + v < 1)"

text \<open>
  A triangle is passed as its three corners \<open>a\<close>, \<open>b\<close>, \<open>c\<close>, each a triple of
  coordinates; the source passes the nine numbers one by one.
\<close>

type_synonym point = "real \<times> real \<times> real"

definition coplanarTrianglesOverlap ::
  "point \<Rightarrow> point \<Rightarrow> point \<Rightarrow> point \<Rightarrow> point \<Rightarrow> point \<Rightarrow> point \<Rightarrow> bool" where
  "coplanarTrianglesOverlap a1 b1 c1 a2 b2 c2 n =
     (case (a1, b1, c1, a2, b2, c2, n) of
        ((ax1, ay1, az1), (bx1, by1, bz1), (cx1, cy1, cz1),
         (ax2, ay2, az2), (bx2, by2, bz2), (cx2, cy2, cz2), (nx, ny, nz)) \<Rightarrow>
        let absX = \<bar>nx\<bar>; absY = \<bar>ny\<bar>; absZ = \<bar>nz\<bar>;
            (t1, t2) =
              (if absZ \<ge> absX \<and> absZ \<ge> absY
               then ([(ax1, ay1), (bx1, by1), (cx1, cy1)], [(ax2, ay2), (bx2, by2), (cx2, cy2)])
               else if absY \<ge> absX
               then ([(ax1, az1), (bx1, bz1), (cx1, cz1)], [(ax2, az2), (bx2, bz2), (cx2, cz2)])
               else ([(ay1, az1), (by1, bz1), (cy1, cz1)], [(ay2, az2), (by2, bz2), (cy2, cz2)]))
        in if (\<exists>i \<in> set [0..<3]. \<exists>j \<in> set [0..<3].
                 segmentsIntersect2D
                   (fst (t1 ! i)) (snd (t1 ! i)) (fst (t1 ! ((i + 1) mod 3))) (snd (t1 ! ((i + 1) mod 3)))
                   (fst (t2 ! j)) (snd (t2 ! j)) (fst (t2 ! ((j + 1) mod 3))) (snd (t2 ! ((j + 1) mod 3))))
           then True
           else if pointInTriangle2D (fst (t1 ! 0)) (snd (t1 ! 0))
                     (fst (t2 ! 0)) (snd (t2 ! 0)) (fst (t2 ! 1)) (snd (t2 ! 1)) (fst (t2 ! 2)) (snd (t2 ! 2))
           then True
           else if pointInTriangle2D (fst (t2 ! 0)) (snd (t2 ! 0))
                     (fst (t1 ! 0)) (snd (t1 ! 0)) (fst (t1 ! 1)) (snd (t1 ! 1)) (fst (t1 ! 2)) (snd (t1 ! 2))
           then True
           else False)"

text \<open>
  The two plane tests that open both \<^verbatim>\<open>trianglesIntersect\<close> and
  \<^verbatim>\<open>trianglesIntersectSimple\<close>: the normal of the first triangle and the signed
  distances of the corners of the second from its plane.
\<close>

definition triNormal :: "point \<Rightarrow> point \<Rightarrow> point \<Rightarrow> point" where
  "triNormal a b c =
     (case (a, b, c) of ((ax, ay, az), (bx, by, bz), (cx, cy, cz)) \<Rightarrow>
        ((by - ay) * (cz - az) - (bz - az) * (cy - ay),
         (bz - az) * (cx - ax) - (bx - ax) * (cz - az),
         (bx - ax) * (cy - ay) - (by - ay) * (cx - ax)))"

definition signedDist :: "point \<Rightarrow> point \<Rightarrow> point \<Rightarrow> real" where
  "signedDist normal a p =
     (case (normal, a, p) of ((nx, ny, nz), (ax, ay, az), (px, py, pz)) \<Rightarrow>
        nx * px + ny * py + nz * pz - (nx * ax + ny * ay + nz * az))"

definition sameSide :: "real \<Rightarrow> real \<Rightarrow> real \<Rightarrow> bool" where
  "sameSide da db dc =
     ((da > 1 / 10 ^ 8 \<and> db > 1 / 10 ^ 8 \<and> dc > 1 / 10 ^ 8) \<or>
      (da < - (1 / 10 ^ 8) \<and> db < - (1 / 10 ^ 8) \<and> dc < - (1 / 10 ^ 8)))"

definition trianglesIntersect :: "point \<Rightarrow> point \<Rightarrow> point \<Rightarrow> point \<Rightarrow> point \<Rightarrow> point \<Rightarrow> bool" where
  "trianglesIntersect a1 b1 c1 a2 b2 c2 =
     (let normal1 = triNormal a1 b1 c1;
          normal2 = triNormal a2 b2 c2;
          dist2a = signedDist normal1 a1 a2;
          dist2b = signedDist normal1 a1 b2;
          dist2c = signedDist normal1 a1 c2
      in if sameSide dist2a dist2b dist2c then False
         else
           let dist1a = signedDist normal2 a2 a1;
               dist1b = signedDist normal2 a2 b1;
               dist1c = signedDist normal2 a2 c1
           in if sameSide dist1a dist1b dist1c then False
              else
                case (normal1, normal2) of ((normalX1, normalY1, normalZ1), (normalX2, normalY2, normalZ2)) \<Rightarrow>
                  let dirX = normalY1 * normalZ2 - normalZ1 * normalY2;
                      dirY = normalZ1 * normalX2 - normalX1 * normalZ2;
                      dirZ = normalX1 * normalY2 - normalY1 * normalX2;
                      dirLen = sqrt (dirX * dirX + dirY * dirY + dirZ * dirZ)
                  in if dirLen < 1 / 10 ^ 10
                     then coplanarTrianglesOverlap a1 b1 c1 a2 b2 c2 normal1
                     else
                       let absX = \<bar>dirX\<bar>; absY = \<bar>dirY\<bar>; absZ = \<bar>dirZ\<bar>;
                           proj = (if absX \<ge> absY \<and> absX \<ge> absZ then fst
                                   else if absY \<ge> absZ then (\<lambda>p. fst (snd p))
                                   else (\<lambda>p. snd (snd p)));
                           int1 = computeTriangleInterval (proj a1) (proj b1) (proj c1) dist1a dist1b dist1c;
                           int2 = computeTriangleInterval (proj a2) (proj b2) (proj c2) dist2a dist2b dist2c
                       in case (int1, int2) of
                            (Some (min1, max1), Some (min2, max2)) \<Rightarrow>
                              max1 \<ge> min2 - 1 / 10 ^ 8 \<and> max2 \<ge> min1 - 1 / 10 ^ 8
                          | _ \<Rightarrow> False)"

definition trianglesAdjacent :: "nat \<Rightarrow> nat \<Rightarrow> nat \<Rightarrow> nat \<Rightarrow> nat \<Rightarrow> nat \<Rightarrow> bool" where
  "trianglesAdjacent i0a i1a i2a i0b i1b i2b =
     (let setA = {i0a, i1a, i2a};
          shared = (if i0b \<in> setA then 1 else 0) + (if i1b \<in> setA then 1 else 0)
                   + (if i2b \<in> setA then (1::nat) else 0)
      in shared \<ge> 2)"

definition corner :: "real list \<Rightarrow> nat \<Rightarrow> point" where
  "corner positions i = (vx positions i, vy positions i, vz positions i)"


subsection \<open>Self-intersections\<close>

text \<open>\<^verbatim>\<open>boundingBox?.diagonal ?? 1\<close>\<close>

definition diagonalOr1 :: "BoundingBox option \<Rightarrow> real" where
  "diagonalOr1 boundingBox = (case boundingBox of None \<Rightarrow> 1 | Some bb \<Rightarrow> diagonal bb)"

definition selfIntersectionCellSize :: "nat list \<Rightarrow> BoundingBox option \<Rightarrow> real" where
  "selfIntersectionCellSize indices boundingBox =
     (let triangleCount = length indices div 3;
          diag = max (diagonalOr1 boundingBox) (1 / 10 ^ 6);
          avgEdgeLength = diag / sqrt (real triangleCount / 2)
      in max (avgEdgeLength * 2) (1 / 10 ^ 6))"

definition selfIntersectionGridStep ::
  "real list \<Rightarrow> nat list \<Rightarrow> real \<Rightarrow> nat \<Rightarrow> (cell \<times> nat list) list \<Rightarrow> (cell \<times> nat list) list" where
  "selfIntersectionGridStep positions indices cellSize t grid =
     grid_insert cellSize t (triBoundsOf positions indices t) grid"

definition selfIntersectionGrid :: "real list \<Rightarrow> nat list \<Rightarrow> real \<Rightarrow> (cell \<times> nat list) list" where
  "selfIntersectionGrid positions indices cellSize =
     fold (selfIntersectionGridStep positions indices cellSize) [0..<length indices div 3] []"

text \<open>The test applied to a candidate pair \<open>(t1, t2)\<close> in \<^verbatim>\<open>detectSelfIntersections\<close>.\<close>

definition pairIntersects :: "real list \<Rightarrow> nat list \<Rightarrow> nat \<Rightarrow> nat \<Rightarrow> bool" where
  "pairIntersects positions indices t1 t2 =
     (if t2 \<le> t1 then False
      else
        let i0a = indices ! (t1 * 3); i1a = indices ! (t1 * 3 + 1); i2a = indices ! (t1 * 3 + 2);
            i0b = indices ! (t2 * 3); i1b = indices ! (t2 * 3 + 1); i2b = indices ! (t2 * 3 + 2)
        in if trianglesAdjacent i0a i1a i2a i0b i1b i2b then False
           else trianglesIntersect
                  (corner positions i0a) (corner positions i1a) (corner positions i2a)
                  (corner positions i0b) (corner positions i1b) (corner positions i2b))"

definition pairCountStep :: "real list \<Rightarrow> nat list \<Rightarrow> nat \<Rightarrow> nat \<Rightarrow> nat \<Rightarrow> nat" where
  "pairCountStep positions indices t1 t2 intersectionCount =
     (if pairIntersects positions indices t1 t2 then intersectionCount + 1 else intersectionCount)"

definition selfIntersectionStep ::
  "real list \<Rightarrow> nat list \<Rightarrow> real \<Rightarrow> (cell \<times> nat list) list \<Rightarrow> nat \<Rightarrow> nat \<Rightarrow> nat" where
  "selfIntersectionStep positions indices cellSize grid t1 intersectionCount =
     (let candidates = grid_query cellSize grid (triBoundsOf positions indices t1)
      in fold (pairCountStep positions indices t1) candidates intersectionCount)"

definition detectSelfIntersections :: "real list \<Rightarrow> nat list \<Rightarrow> BoundingBox option \<Rightarrow> nat" where
  "detectSelfIntersections positions indices boundingBox =
     (let triangleCount = length indices div 3;
          cellSize = selfIntersectionCellSize indices boundingBox;
          grid = selfIntersectionGrid positions indices cellSize
      in fold (selfIntersectionStep positions indices cellSize grid) [0..<triangleCount] 0)"

subsection \<open>T-junctions\<close>

record Edge =
  v0 :: nat
  v1 :: nat
  p0 :: point
  p1 :: point

definition vertexTrianglesStep :: "nat list \<Rightarrow> nat \<Rightarrow> (nat \<times> nat list) list \<Rightarrow> (nat \<times> nat list) list" where
  "vertexTrianglesStep indices t m =
     Map_add3 m (indices ! (t * 3)) (indices ! (t * 3 + 1)) (indices ! (t * 3 + 2)) t"

definition vertexTriangles :: "nat list \<Rightarrow> (nat \<times> nat list) list" where
  "vertexTriangles indices = fold (vertexTrianglesStep indices) [0..<length indices div 3] []"

text \<open>The three vertex pairs of triangle \<open>t\<close>, in the order of the inner loop.\<close>

definition trianglePairs :: "nat list \<Rightarrow> nat \<Rightarrow> (nat \<times> nat) list" where
  "trianglePairs indices t =
     (let i0 = indices ! (t * 3); i1 = indices ! (t * 3 + 1); i2 = indices ! (t * 3 + 2)
      in [(i0, i1), (i1, i2), (i2, i0)])"

definition tjEdgeKey :: "nat \<Rightarrow> nat \<Rightarrow> nat \<Rightarrow> nat" where
  "tjEdgeKey vertexCount va vb = (if va < vb then va * vertexCount + vb else vb * vertexCount + va)"

definition mkEdge :: "real list \<Rightarrow> nat \<Rightarrow> nat \<Rightarrow> Edge" where
  "mkEdge positions va vb = \<lparr>v0 = va, v1 = vb, p0 = corner positions va, p1 = corner positions vb\<rparr>"

text \<open>
  The edge list with its grid. The state is \<open>(edges, edgeSet, edgeGrid)\<close>; an
  edge is filed under the cells of its two end points and of its mid point.
\<close>

definition edgePoints :: "Edge \<Rightarrow> point list" where
  "edgePoints e =
     (case (p0 e, p1 e) of ((x0, y0, z0), (x1, y1, z1)) \<Rightarrow>
        [(x0, y0, z0), (x1, y1, z1), ((x0 + x1) / 2, (y0 + y1) / 2, (z0 + z1) / 2)])"

definition fileEdgeStep :: "real \<Rightarrow> nat \<Rightarrow> point \<Rightarrow> (cell \<times> nat list) list \<Rightarrow> (cell \<times> nat list) list" where
  "fileEdgeStep cellSize edgeIdx p g =
     (case p of (px, py, pz) \<Rightarrow>
        let cellKey = cellOf cellSize px py pz;
            g1 = Map_ensure g cellKey;
            cell = the (Map_get g1 cellKey)
        in if edgeIdx \<notin> set cell then Map_set g1 cellKey (cell @ [edgeIdx]) else g1)"

definition fileEdge :: "real \<Rightarrow> nat \<Rightarrow> Edge \<Rightarrow> (cell \<times> nat list) list \<Rightarrow> (cell \<times> nat list) list" where
  "fileEdge cellSize edgeIdx e edgeGrid = fold (fileEdgeStep cellSize edgeIdx) (edgePoints e) edgeGrid"

definition tjEdgeStep ::
  "real list \<Rightarrow> real \<Rightarrow> nat \<times> nat \<Rightarrow> Edge list \<times> nat set \<times> (cell \<times> nat list) list
     \<Rightarrow> Edge list \<times> nat set \<times> (cell \<times> nat list) list" where
  "tjEdgeStep positions cellSize pair st =
     (case (pair, st) of ((va, vb), (edges, edgeSet, edgeGrid)) \<Rightarrow>
        let edgeKey = tjEdgeKey (length positions div 3) va vb
        in if edgeKey \<in> edgeSet then st
           else
             let edgeIdx = length edges;
                 e = mkEdge positions va vb
             in (edges @ [e], insert edgeKey edgeSet, fileEdge cellSize edgeIdx e edgeGrid))"

definition tjEdges ::
  "real list \<Rightarrow> nat list \<Rightarrow> real \<Rightarrow> Edge list \<times> nat set \<times> (cell \<times> nat list) list" where
  "tjEdges positions indices cellSize =
     fold (tjEdgeStep positions cellSize)
          (concat (map (trianglePairs indices) [0..<length indices div 3])) ([], {}, [])"

text \<open>
  The body of the loop over candidate edges, up to the connectivity test: the
  vertex \<open>v\<close> lies on the inside of the edge within the tolerance.
\<close>

definition onEdgeInterior :: "real list \<Rightarrow> real \<Rightarrow> nat \<Rightarrow> Edge \<Rightarrow> bool" where
  "onEdgeInterior positions toleranceSq v edge =
     (if v0 edge = v \<or> v1 edge = v then False
      else
        case (p0 edge, p1 edge) of ((x0, y0, z0), (x1, y1, z1)) \<Rightarrow>
          let ex = x1 - x0; ey = y1 - y0; ez = z1 - z0;
              edgeLenSq = ex * ex + ey * ey + ez * ez
          in if edgeLenSq < 1 / 10 ^ 20 then False
             else
               let pvx = vx positions v - x0; pvy = vy positions v - y0; pvz = vz positions v - z0;
                   t = (pvx * ex + pvy * ey + pvz * ez) / edgeLenSq
               in if t \<le> 0.01 \<or> t \<ge> 0.99 then False
                  else
                    let closestX = x0 + t * ex; closestY = y0 + t * ey; closestZ = z0 + t * ez;
                        dx = vx positions v - closestX;
                        dy = vy positions v - closestY;
                        dz = vz positions v - closestZ;
                        distSq = dx * dx + dy * dy + dz * dz
                    in distSq < toleranceSq)"

text \<open>\<open>adjacentTris\<close> is \<^verbatim>\<open>vertexTriangles.get(v)\<close>, possibly \<^verbatim>\<open>undefined\<close>.\<close>

definition isConnected :: "nat list \<Rightarrow> nat list option \<Rightarrow> Edge \<Rightarrow> bool" where
  "isConnected indices adjacentTris edge =
     (case adjacentTris of
        None \<Rightarrow> False
      | Some tris \<Rightarrow>
          (\<exists>triIdx \<in> set tris.
             let triVerts = {indices ! (triIdx * 3), indices ! (triIdx * 3 + 1), indices ! (triIdx * 3 + 2)}
             in v0 edge \<in> triVerts \<and> v1 edge \<in> triVerts))"

text \<open>
  The loop over the candidate edges of \<open>v\<close> stops at the first edge that passes
  both tests, so \<open>v\<close> is a T-junction when some candidate passes both.
\<close>

definition isTJunction :: "real list \<Rightarrow> nat list \<Rightarrow> real \<Rightarrow> (nat \<times> nat list) list \<Rightarrow> nat \<Rightarrow> Edge list \<Rightarrow> bool" where
  "isTJunction positions indices toleranceSq vertTris v candidates =
     (\<exists>edge \<in> set candidates.
        onEdgeInterior positions toleranceSq v edge \<and>
        \<not> isConnected indices (Map_get vertTris v) edge)"

definition neighborCells :: "cell \<Rightarrow> cell list" where
  "neighborCells c =
     (case c of (cx, cy, cz) \<Rightarrow>
        concat (map (\<lambda>dx. concat (map (\<lambda>dy. map (\<lambda>dz. (cx + dx, cy + dy, cz + dz)) [-1..1]) [-1..1])) [-1..1]))"

definition nearbyEdges :: "real \<Rightarrow> (cell \<times> nat list) list \<Rightarrow> real list \<Rightarrow> nat \<Rightarrow> nat list" where
  "nearbyEdges cellSize edgeGrid positions v =
     fold (gridQueryStep edgeGrid)
          (neighborCells (cellOf cellSize (vx positions v) (vy positions v) (vz positions v))) []"

definition tJunctionStep ::
  "real list \<Rightarrow> nat list \<Rightarrow> real \<Rightarrow> (nat \<times> nat list) list \<Rightarrow> real \<Rightarrow> Edge list
     \<Rightarrow> (cell \<times> nat list) list \<Rightarrow> nat \<Rightarrow> nat \<Rightarrow> nat" where
  "tJunctionStep positions indices toleranceSq vertTris cellSize edges edgeGrid v tJunctionCount =
     (let near = nearbyEdges cellSize edgeGrid positions v
      in if isTJunction positions indices toleranceSq vertTris v (map (nth edges) near)
         then tJunctionCount + 1 else tJunctionCount)"

definition detectTJunctions :: "real list \<Rightarrow> nat list \<Rightarrow> BoundingBox option \<Rightarrow> nat" where
  "detectTJunctions positions indices boundingBox =
     (let vertexCount = length positions div 3;
          diag = max (diagonalOr1 boundingBox) (1 / 10 ^ 6);
          tolerance = diag * (1 / 10 ^ 4);
          toleranceSq = tolerance * tolerance;
          vertTris = vertexTriangles indices;
          cellSize = max (tolerance * 10) (1 / 10 ^ 6)
      in case tjEdges positions indices cellSize of (edges, edgeSet, edgeGrid) \<Rightarrow>
           fold (tJunctionStep positions indices toleranceSq vertTris cellSize edges edgeGrid)
                [0..<vertexCount] 0)"


subsection \<open>Thin walls\<close>

definition vertexGridStep :: "real list \<Rightarrow> real \<Rightarrow> nat \<Rightarrow> (cell \<times> nat list) list \<Rightarrow> (cell \<times> nat list) list" where
  "vertexGridStep positions cellSize v g =
     (let key = cellOf cellSize (vx positions v) (vy positions v) (vz positions v)
      in Map_append (Map_ensure g key) key v)"

definition vertexGrid :: "real list \<Rightarrow> real \<Rightarrow> (cell \<times> nat list) list" where
  "vertexGrid positions cellSize = fold (vertexGridStep positions cellSize) [0..<length positions div 3] []"

definition neighborVerts :: "nat list \<Rightarrow> (nat \<times> nat list) list \<Rightarrow> nat \<Rightarrow> nat set" where
  "neighborVerts indices vertTris v =
     (let adjTris = (case Map_get vertTris v of None \<Rightarrow> [] | Some ts \<Rightarrow> ts)
      in (\<Union>t \<in> set adjTris. {indices ! (t * 3), indices ! (t * 3 + 1), indices ! (t * 3 + 2)}))"

text \<open>
  The search around \<open>v\<close> stops at the first vertex that is close and not a
  neighbour, so \<open>v\<close> counts when such a vertex exists in the 27 cells. (The set
  \<^verbatim>\<open>thinWallVertices\<close> never holds \<open>v\<close> before the iteration of \<open>v\<close>.)
\<close>

definition hasThinWall ::
  "real list \<Rightarrow> nat list \<Rightarrow> real \<Rightarrow> real \<Rightarrow> (cell \<times> nat list) list \<Rightarrow> (nat \<times> nat list) list \<Rightarrow> nat \<Rightarrow> bool" where
  "hasThinWall positions indices thresholdSq cellSize vGrid vertTris v =
     (let nbrs = neighborVerts indices vertTris v
      in \<exists>key \<in> set (neighborCells (cellOf cellSize (vx positions v) (vy positions v) (vz positions v))).
           case Map_get vGrid key of
             None \<Rightarrow> False
           | Some nearby \<Rightarrow>
               (\<exists>v2 \<in> set nearby.
                  \<not> (v2 = v \<or> v2 \<in> nbrs) \<and>
                  (let dx2 = vx positions v - vx positions v2;
                       dy2 = vy positions v - vy positions v2;
                       dz2 = vz positions v - vz positions v2;
                       distSq = dx2 * dx2 + dy2 * dy2 + dz2 * dz2
                   in distSq < thresholdSq \<and> distSq > 1 / 10 ^ 20)))"

definition thinWallStep ::
  "real list \<Rightarrow> nat list \<Rightarrow> real \<Rightarrow> real \<Rightarrow> (cell \<times> nat list) list \<Rightarrow> (nat \<times> nat list) list
     \<Rightarrow> nat \<Rightarrow> nat \<Rightarrow> nat" where
  "thinWallStep positions indices thresholdSq cellSize vGrid vertTris v thinWallCount =
     (if hasThinWall positions indices thresholdSq cellSize vGrid vertTris v
      then thinWallCount + 1 else thinWallCount)"

definition detectThinWalls :: "real list \<Rightarrow> nat list \<Rightarrow> BoundingBox option \<Rightarrow> real \<Rightarrow> nat \<times> real" where
  "detectThinWalls positions indices boundingBox thresholdFraction =
     (let vertexCount = length positions div 3;
          diag = max (diagonalOr1 boundingBox) (1 / 10 ^ 6);
          absoluteThreshold = diag * thresholdFraction;
          thresholdSq = absoluteThreshold * absoluteThreshold;
          cellSize = max (absoluteThreshold * 3) (1 / 10 ^ 6);
          vGrid = vertexGrid positions cellSize;
          vertTris = vertexTriangles indices
      in (fold (thinWallStep positions indices thresholdSq cellSize vGrid vertTris) [0..<vertexCount] 0,
          thresholdFraction))"

subsection \<open>Coincident faces\<close>

record TriData =
  centroid :: point
  normal :: point
  tri :: "nat \<times> nat \<times> nat"

definition triDataOf :: "real list \<Rightarrow> nat list \<Rightarrow> nat \<Rightarrow> TriData" where
  "triDataOf positions indices t =
     (let i0 = indices ! (t * 3); i1 = indices ! (t * 3 + 1); i2 = indices ! (t * 3 + 2);
          x0 = vx positions i0; y0 = vy positions i0; z0 = vz positions i0;
          x1 = vx positions i1; y1 = vy positions i1; z1 = vz positions i1;
          x2 = vx positions i2; y2 = vy positions i2; z2 = vz positions i2;
          e1x = x1 - x0; e1y = y1 - y0; e1z = z1 - z0;
          e2x = x2 - x0; e2y = y2 - y0; e2z = z2 - z0
      in \<lparr>centroid = ((x0 + x1 + x2) / 3, (y0 + y1 + y2) / 3, (z0 + z1 + z2) / 3),
          normal = (e1y * e2z - e1z * e2y, e1z * e2x - e1x * e2z, e1x * e2y - e1y * e2x),
          tri = (i0, i1, i2)\<rparr>)"

definition centroidGridStep :: "TriData list \<Rightarrow> real \<Rightarrow> nat \<Rightarrow> (cell \<times> nat list) list \<Rightarrow> (cell \<times> nat list) list" where
  "centroidGridStep triData cellSize t g =
     (case centroid (triData ! t) of (cx, cy, cz) \<Rightarrow>
        let key = cellOf cellSize cx cy cz
        in Map_append (Map_ensure g key) key t)"

definition centroidGrid :: "TriData list \<Rightarrow> real \<Rightarrow> (cell \<times> nat list) list" where
  "centroidGrid triData cellSize = fold (centroidGridStep triData cellSize) [0..<length triData] []"

text \<open>The chain of tests on a pair \<open>(t1, t2)\<close> taken from neighbouring cells.\<close>

definition facesCoincide :: "real list \<Rightarrow> real \<Rightarrow> real \<Rightarrow> TriData list \<Rightarrow> nat \<Rightarrow> nat \<Rightarrow> bool" where
  "facesCoincide positions tolerance cellSize triData t1 t2 =
     (if t2 \<le> t1 then False
      else
        let data1 = triData ! t1; data2 = triData ! t2
        in case (tri data1, tri data2, normal data1, normal data2, centroid data1, centroid data2) of
             ((a0, a1, a2), (b0, b1, b2), (nx1, ny1, nz1), (nx2, ny2, nz2), (cx1, cy1, cz1), (cx2, cy2, cz2)) \<Rightarrow>
             if a0 = b0 \<or> a0 = b1 \<or> a0 = b2 \<or> a1 = b0 \<or> a1 = b1 \<or> a1 = b2
                \<or> a2 = b0 \<or> a2 = b1 \<or> a2 = b2
             then False
             else
               let dot = nx1 * nx2 + ny1 * ny2 + nz1 * nz2;
                   len1 = sqrt (nx1 * nx1 + ny1 * ny1 + nz1 * nz1);
                   len2 = sqrt (nx2 * nx2 + ny2 * ny2 + nz2 * nz2)
               in if len1 < 1 / 10 ^ 10 \<or> len2 < 1 / 10 ^ 10 then False
                  else
                    let normalizedDot = \<bar>dot / (len1 * len2)\<bar>
                    in if normalizedDot < 0.999 then False
                       else
                         let cdx = cx1 - cx2; cdy = cy1 - cy2; cdz = cz1 - cz2;
                             centroidDist = sqrt (cdx * cdx + cdy * cdy + cdz * cdz)
                         in if centroidDist > cellSize then False
                            else
                              let d = nx1 * vx positions a0 + ny1 * vy positions a0 + nz1 * vz positions a0;
                                  planeDist = \<bar>nx1 * cx2 + ny1 * cy2 + nz1 * cz2 - d\<bar> / len1
                              in planeDist < tolerance)"

definition coincidentPairStep :: "real list \<Rightarrow> real \<Rightarrow> real \<Rightarrow> TriData list \<Rightarrow> nat \<Rightarrow> nat \<Rightarrow> nat \<Rightarrow> nat" where
  "coincidentPairStep positions tolerance cellSize triData t1 t2 coincidentCount =
     (if facesCoincide positions tolerance cellSize triData t1 t2
      then coincidentCount + 1 else coincidentCount)"

definition coincidentCellStep ::
  "real list \<Rightarrow> real \<Rightarrow> real \<Rightarrow> TriData list \<Rightarrow> (cell \<times> nat list) list \<Rightarrow> nat \<Rightarrow> cell \<Rightarrow> nat \<Rightarrow> nat" where
  "coincidentCellStep positions tolerance cellSize triData cGrid t1 key coincidentCount =
     (case Map_get cGrid key of
        None \<Rightarrow> coincidentCount
      | Some nearby \<Rightarrow> fold (coincidentPairStep positions tolerance cellSize triData t1) nearby coincidentCount)"

definition coincidentStep ::
  "real list \<Rightarrow> real \<Rightarrow> real \<Rightarrow> TriData list \<Rightarrow> (cell \<times> nat list) list \<Rightarrow> nat \<Rightarrow> nat \<Rightarrow> nat" where
  "coincidentStep positions tolerance cellSize triData cGrid t1 coincidentCount =
     (case centroid (triData ! t1) of (cx, cy, cz) \<Rightarrow>
        fold (coincidentCellStep positions tolerance cellSize triData cGrid t1)
             (neighborCells (cellOf cellSize cx cy cz)) coincidentCount)"

definition detectCoincidentFaces :: "real list \<Rightarrow> nat list \<Rightarrow> BoundingBox option \<Rightarrow> nat" where
  "detectCoincidentFaces positions indices boundingBox =
     (let triangleCount = length indices div 3;
          diag = max (diagonalOr1 boundingBox) (1 / 10 ^ 6);
          tolerance = diag * (1 / 10 ^ 5);
          triData = map (triDataOf positions indices) [0..<triangleCount];
          cellSize = max (diag / sqrt (real triangleCount / 10)) (1 / 10 ^ 6);
          cGrid = centroidGrid triData cellSize
      in fold (coincidentStep positions tolerance cellSize triData cGrid) [0..<triangleCount] 0)"


subsection \<open>The diagnostics record and \<^verbatim>\<open>computeMeshDiagnostics\<close>\<close>

record MeshDiagnostics =
  vertexCount :: int
  triangleCount :: int
  edgeCount :: int
  boundaryEdgeCount :: int
  nonManifoldEdgeCount :: int
  nonManifoldVertexCount :: int
  connectedComponents :: int
  eulerCharacteristic :: int
  degenerateTriangleCount :: int
  windingInconsistentEdgeCount :: int
  windingConsistencyPercent :: real
  windingCheckSkipped :: bool
  duplicateVertexCount :: int
  tinyTriangleCount :: int
  needleTriangleCount :: int
  edgeLengthStats :: "DistributionStats option"
  aspectRatioStats :: "DistributionStats option"
  valenceDistribution :: "(nat \<rightharpoonup> nat) option"
  boundingBox :: "BoundingBox option"
  isolatedVertexCount :: int
  sharpEdgeCount :: int
  coplanarEdgeCount :: int
  dihedralAngleStats :: "DistributionStats option"
  selfIntersectionCount :: int
  tJunctionCount :: int
  thinWallCount :: int
  thinWallThreshold :: real
  coincidentFaceCount :: int
  isWatertight :: bool
  isManifold :: bool
  hasNonManifoldVertices :: bool
  hasConsistentWinding :: bool

text \<open>
  The first argument is the depth available to the recursion of \<^verbatim>\<open>find\<close>; the
  result \<open>None\<close> is the \<^verbatim>\<open>RangeError\<close> that leaves \<^verbatim>\<open>computeMeshDiagnostics\<close>
  when that recursion does not end. Nothing else in the function can throw.
\<close>

definition computeMeshDiagnostics :: "nat \<Rightarrow> real list \<Rightarrow> nat list \<Rightarrow> MeshDiagnostics option" where
  "computeMeshDiagnostics depth positions indices =
     (let vertexCount = length positions div 3;
          triangleCount = length indices div 3
      in if triangleCount > MAX_SAFE_TRIANGLES
         then
           let partialBoundingBox = computeBoundingBox positions
           in Some \<lparr>vertexCount = int vertexCount,
                    triangleCount = int triangleCount,
                    edgeCount = -1,
                    boundaryEdgeCount = -1,
                    nonManifoldEdgeCount = -1,
                    nonManifoldVertexCount = -1,
                    connectedComponents = -1,
                    eulerCharacteristic = -1,
                    degenerateTriangleCount = -1,
                    windingInconsistentEdgeCount = -1,
                    windingConsistencyPercent = -1,
                    windingCheckSkipped = True,
                    duplicateVertexCount = -1,
                    tinyTriangleCount = -1,
                    needleTriangleCount = -1,
                    edgeLengthStats = None,
                    aspectRatioStats = None,
                    valenceDistribution = None,
                    boundingBox = Some partialBoundingBox,
                    isolatedVertexCount = -1,
                    sharpEdgeCount = -1,
                    coplanarEdgeCount = -1,
                    dihedralAngleStats = None,
                    selfIntersectionCount = -1,
                    tJunctionCount = -1,
                    thinWallCount = -1,
                    thinWallThreshold = 0.005,
                    coincidentFaceCount = -1,
                    isWatertight = False,
                    isManifold = False,
                    hasNonManifoldVertices = False,
                    hasConsistentWinding = False\<rparr>
         else
           let edgeFaceMap = buildEdgeFaceMap indices triangleCount;
               edgeCount = length edgeFaceMap;
               (boundaryEdgeCount, nonManifoldEdgeCount) = classifyEdges edgeFaceMap;
               degenerateTriangleCount = degenerateTriangleCount_of positions indices
           in case connectedComponents_of depth indices vertexCount of
                None \<Rightarrow> None
              | Some components \<Rightarrow>
                  let used = usedVertices indices vertexCount;
                      eulerCharacteristic = int (length used) - int edgeCount + int triangleCount;
                      nonManifoldVertexCount = detectNonManifoldVertices indices;
                      windingResult = detectWindingConsistency indices;
                      duplicateVertexCount = detectDuplicateVertices positions;
                      needleTriangleCount = needleTriangleCount_of positions indices;
                      tinyTriangleCount = tinyTriangleCount_of positions indices;
                      edgeLengthStats = computeStats (edgeLengths positions indices);
                      aspectRatioStats = computeStats (aspectRatios positions indices);
                      valenceDistribution = computeValenceDistribution indices vertexCount;
                      boundingBox = computeBoundingBox positions;
                      isolatedVertexCount = int vertexCount - int (length used);
                      dihedralResult = computeDihedralAngles positions indices edgeFaceMap;
                      selfIntersectionResult = detectSelfIntersections positions indices (Some boundingBox);
                      tJunctionResult = detectTJunctions positions indices (Some boundingBox);
                      thinWallResult = detectThinWalls positions indices (Some boundingBox) 0.005;
                      coincidentFaceResult = detectCoincidentFaces positions indices (Some boundingBox)
                  in Some \<lparr>vertexCount = int vertexCount,
                           triangleCount = int triangleCount,
                           edgeCount = int edgeCount,
                           boundaryEdgeCount = int boundaryEdgeCount,
                           nonManifoldEdgeCount = int nonManifoldEdgeCount,
                           nonManifoldVertexCount = int nonManifoldVertexCount,
                           connectedComponents = int components,
                           eulerCharacteristic = eulerCharacteristic,
                           degenerateTriangleCount = int degenerateTriangleCount,
                           windingInconsistentEdgeCount = int (inconsistentEdgeCount windingResult),
                           windingConsistencyPercent = consistencyPercent windingResult,
                           windingCheckSkipped = (case skipped windingResult of None \<Rightarrow> False | Some b \<Rightarrow> b),
                           duplicateVertexCount = int duplicateVertexCount,
                           tinyTriangleCount = int tinyTriangleCount,
                           needleTriangleCount = int needleTriangleCount,
                           edgeLengthStats = edgeLengthStats,
                           aspectRatioStats = aspectRatioStats,
                           valenceDistribution = Some valenceDistribution,
                           boundingBox = Some boundingBox,
                           isolatedVertexCount = isolatedVertexCount,
                           sharpEdgeCount = int (sharpEdgeCount_d dihedralResult),
                           coplanarEdgeCount = int (coplanarEdgeCount_d dihedralResult),
                           dihedralAngleStats = dihedralAngleStats_d dihedralResult,
                           selfIntersectionCount = int selfIntersectionResult,
                           tJunctionCount = int tJunctionResult,
                           thinWallCount = int (fst thinWallResult),
                           thinWallThreshold = snd thinWallResult,
                           coincidentFaceCount = int coincidentFaceResult,
                           isWatertight = (boundaryEdgeCount = 0),
                           isManifold = (nonManifoldEdgeCount = 0),
                           hasNonManifoldVertices = (nonManifoldVertexCount > 0),
                           hasConsistentWinding =
                             (if (case skipped windingResult of None \<Rightarrow> False | Some b \<Rightarrow> b) then False
                              else consistencyPercent windingResult \<ge> 99.5)\<rparr>)"


subsection \<open>Problem geometry for the overlays\<close>

record ProblemGeometry =
  boundaryEdges :: "real list"
  nonManifoldEdges :: "real list"
  nonManifoldVertices :: "real list"
  selfIntersectionCentroids :: "real list"
  tJunctionVertices :: "real list"

text \<open>The loop over the entries of the edge-face map; the state is the two coordinate arrays.\<close>

definition edgeOverlayStep :: "real list \<Rightarrow> nat \<times> nat list \<Rightarrow> real list \<times> real list \<Rightarrow> real list \<times> real list" where
  "edgeOverlayStep positions entry acc =
     (case (entry, acc) of ((edgeKey, faces), (boundaryEdgePositions, nonManifoldEdgePositions)) \<Rightarrow>
          let v0 = fst (decodeEdgeKey edgeKey); v1 = snd (decodeEdgeKey edgeKey);
              x0 = vx positions v0; y0 = vy positions v0; z0 = vz positions v0;
              x1 = vx positions v1; y1 = vy positions v1; z1 = vz positions v1
          in if length faces = 1
             then (boundaryEdgePositions @ [x0, y0, z0, x1, y1, z1], nonManifoldEdgePositions)
             else if length faces > 2
             then (boundaryEdgePositions, nonManifoldEdgePositions @ [x0, y0, z0, x1, y1, z1])
             else acc)"

definition pinchStep :: "real list \<Rightarrow> nat list \<Rightarrow> nat \<times> nat list \<Rightarrow> real list \<Rightarrow> real list" where
  "pinchStep positions indices entry nonManifoldVertexPositions =
     (case entry of (v, triangles) \<Rightarrow>
        if fansDisconnected indices v triangles
        then nonManifoldVertexPositions @ [vx positions v, vy positions v, vz positions v]
        else nonManifoldVertexPositions)"

definition pinchPoints :: "real list \<Rightarrow> nat list \<Rightarrow> real list" where
  "pinchPoints positions indices = fold (pinchStep positions indices) (vertexToTriangles indices) []"

definition trianglesIntersectSimple :: "real list \<Rightarrow> nat list \<Rightarrow> nat \<Rightarrow> nat \<Rightarrow> bool" where
  "trianglesIntersectSimple positions indices t1 t2 =
     (let i1 = t1 * 3; i2 = t2 * 3;
          a1 = corner positions (indices ! i1);
          b1 = corner positions (indices ! (i1 + 1));
          c1 = corner positions (indices ! (i1 + 2));
          a2 = corner positions (indices ! i2);
          b2 = corner positions (indices ! (i2 + 1));
          c2 = corner positions (indices ! (i2 + 2));
          normal1 = triNormal a1 b1 c1;
          dist2a = signedDist normal1 a1 a2;
          dist2b = signedDist normal1 a1 b2;
          dist2c = signedDist normal1 a1 c2
      in if sameSide dist2a dist2b dist2c then False
         else
           let normal2 = triNormal a2 b2 c2;
               dist1a = signedDist normal2 a2 a1;
               dist1b = signedDist normal2 a2 b1;
               dist1c = signedDist normal2 a2 c1
           in if sameSide dist1a dist1b dist1c then False
              else True)"

text \<open>
  The body of the innermost loop of \<^verbatim>\<open>findIntersectingTrianglePairs\<close>; the state
  is \<open>(pairs, checked)\<close>.
\<close>

definition pairStep ::
  "real list \<Rightarrow> nat list \<Rightarrow> nat \<Rightarrow> nat \<Rightarrow> (nat \<times> nat) list \<times> (nat \<times> nat) set
     \<Rightarrow> (nat \<times> nat) list \<times> (nat \<times> nat) set" where
  "pairStep positions indices t1 t2 st =
     (case st of (pairs, checked) \<Rightarrow>
        if t2 \<le> t1 then st
        else if (t1, t2) \<in> checked then st
        else
          let checked1 = insert (t1, t2) checked;
              i0a = indices ! (t1 * 3); i1a = indices ! (t1 * 3 + 1); i2a = indices ! (t1 * 3 + 2);
              i0b = indices ! (t2 * 3); i1b = indices ! (t2 * 3 + 1); i2b = indices ! (t2 * 3 + 2)
          in if trianglesAdjacent i0a i1a i2a i0b i1b i2b then (pairs, checked1)
             else if trianglesIntersectSimple positions indices t1 t2 then (pairs @ [(t1, t2)], checked1)
             else (pairs, checked1))"

definition pairsCellStep ::
  "real list \<Rightarrow> nat list \<Rightarrow> (cell \<times> nat list) list \<Rightarrow> nat \<Rightarrow> cell
     \<Rightarrow> (nat \<times> nat) list \<times> (nat \<times> nat) set \<Rightarrow> (nat \<times> nat) list \<times> (nat \<times> nat) set" where
  "pairsCellStep positions indices grid t1 key st =
     (case Map_get grid key of
        None \<Rightarrow> st
      | Some candidates \<Rightarrow> fold (pairStep positions indices t1) candidates st)"

definition pairsStep ::
  "real list \<Rightarrow> nat list \<Rightarrow> real \<Rightarrow> (cell \<times> nat list) list \<Rightarrow> nat
     \<Rightarrow> (nat \<times> nat) list \<times> (nat \<times> nat) set \<Rightarrow> (nat \<times> nat) list \<times> (nat \<times> nat) set" where
  "pairsStep positions indices cellSize grid t1 st =
     fold (pairsCellStep positions indices grid t1)
          (cellsBetween cellSize (triBoundsOf positions indices t1)) st"

definition findIntersectingTrianglePairs :: "real list \<Rightarrow> nat list \<Rightarrow> (nat \<times> nat) list" where
  "findIntersectingTrianglePairs positions indices =
     (let triangleCount = length indices div 3;
          cellSize = estimateCellSize positions triangleCount;
          grid = selfIntersectionGrid positions indices cellSize
      in fst (fold (pairsStep positions indices cellSize grid) [0..<triangleCount] ([], {})))"

text \<open>The centroid pushed for a pair: the six corners summed and divided by six.\<close>

definition pairCentroid :: "real list \<Rightarrow> nat list \<Rightarrow> nat \<times> nat \<Rightarrow> real list" where
  "pairCentroid positions indices pair =
     (case pair of (t1, t2) \<Rightarrow>
        let i1 = t1 * 3; i2 = t2 * 3
        in case (corner positions (indices ! i1), corner positions (indices ! (i1 + 1)),
                 corner positions (indices ! (i1 + 2)), corner positions (indices ! i2),
                 corner positions (indices ! (i2 + 1)), corner positions (indices ! (i2 + 2))) of
             ((ax1, ay1, az1), (bx1, by1, bz1), (cx1, cy1, cz1),
              (ax2, ay2, az2), (bx2, by2, bz2), (cx2, cy2, cz2)) \<Rightarrow>
             [(ax1 + bx1 + cx1 + ax2 + bx2 + cx2) / 6,
              (ay1 + by1 + cy1 + ay2 + by2 + cy2) / 6,
              (az1 + bz1 + cz1 + az2 + bz2 + cz2) / 6])"

text \<open>The edge list of \<^verbatim>\<open>findTJunctionVertices\<close>, which keeps no grid.\<close>

definition tjEdgeListStep :: "real list \<Rightarrow> nat \<times> nat \<Rightarrow> Edge list \<times> nat set \<Rightarrow> Edge list \<times> nat set" where
  "tjEdgeListStep positions pair st =
     (case (pair, st) of ((va, vb), (edges, edgeSet)) \<Rightarrow>
        let edgeKey = tjEdgeKey (length positions div 3) va vb
        in if edgeKey \<in> edgeSet then st
           else (edges @ [mkEdge positions va vb], insert edgeKey edgeSet))"

definition tjEdgeList :: "real list \<Rightarrow> nat list \<Rightarrow> Edge list" where
  "tjEdgeList positions indices =
     fst (fold (tjEdgeListStep positions)
               (concat (map (trianglePairs indices) [0..<length indices div 3])) ([], {}))"

definition findTJunctionVertices :: "real list \<Rightarrow> nat list \<Rightarrow> MeshDiagnostics \<Rightarrow> nat list" where
  "findTJunctionVertices positions indices diagnostics =
     (let vertexCount = length positions div 3;
          diag = diagonalOr1 (boundingBox diagnostics);
          tolerance = diag * (1 / 10 ^ 4);
          toleranceSq = tolerance * tolerance;
          vertTris = vertexTriangles indices;
          edges = tjEdgeList positions indices
      in filter (\<lambda>v. isTJunction positions indices toleranceSq vertTris v edges) [0..<vertexCount])"

definition extractProblemGeometry :: "real list \<Rightarrow> nat list \<Rightarrow> MeshDiagnostics \<Rightarrow> ProblemGeometry" where
  "extractProblemGeometry positions indices diagnostics =
     (let triangleCount = length indices div 3;
          edgeFaceMap = buildEdgeFaceMap indices triangleCount;
          (boundaryEdgePositions, nonManifoldEdgePositions) =
             fold (edgeOverlayStep positions) edgeFaceMap ([], []);
          nonManifoldVertexPositions =
             (if nonManifoldVertexCount diagnostics > 0 then pinchPoints positions indices else []);
          centroids =
             (if selfIntersectionCount diagnostics > 0
              then concat (map (pairCentroid positions indices) (findIntersectingTrianglePairs positions indices))
              else []);
          tJunctionVertexPositions =
             (if tJunctionCount diagnostics > 0
              then concat (map (\<lambda>v. [vx positions v, vy positions v, vz positions v])
                               (findTJunctionVertices positions indices diagnostics))
              else [])
      in \<lparr>boundaryEdges = boundaryEdgePositions,
          nonManifoldEdges = nonManifoldEdgePositions,
          nonManifoldVertices = nonManifoldVertexPositions,
          selfIntersectionCentroids = centroids,
          tJunctionVertices = tJunctionVertexPositions\<rparr>)"


section \<open>Notions used in the statements\<close>

text \<open>
  A valid input (data model): both arrays hold whole triples, every index names a
  vertex, and the vertex count is within the range of the numeric edge keys.
\<close>

definition validMesh :: "real list \<Rightarrow> nat list \<Rightarrow> bool" where
  "validMesh positions indices \<longleftrightarrow>
     length positions mod 3 = 0 \<and> length indices mod 3 = 0 \<and>
     (\<forall>v \<in> set indices. v < length positions div 3) \<and>
     length positions div 3 \<le> MAX_VERTEX_FOR_NUMERIC_KEY"















definition ufInv :: "(nat \<Rightarrow> nat) \<Rightarrow> nat \<Rightarrow> ufstate \<Rightarrow> bool" where
  "ufInv m B st \<longleftrightarrow>
     length (parent st) \<le> 2 ^ 32 \<and>
     (\<forall>x < length (parent st).
        parent st ! x < length (parent st) \<and> m x \<le> B \<and>
        (parent st ! x \<noteq> x \<longrightarrow> m (parent st ! x) < m x))"

text \<open>The perimeter of a triangle, and the concrete meshes of the examples.\<close>

definition perimeter :: "real list \<Rightarrow> nat list \<Rightarrow> nat \<Rightarrow> real" where
  "perimeter positions indices t = sum_list (triangleEdgeLengths positions indices t)"

text \<open>A right triangle with legs \<open>6e-5\<close> and \<open>8e-5\<close>.\<close>

definition sliverP :: "real list" where
  "sliverP = [0, 0, 0, 3 / 50000, 0, 0, 0, 1 / 12500, 0]"

definition sliverI :: "nat list" where
  "sliverI = [0, 1, 2]"

text \<open>Two right triangles with legs \<open>1, 2\<close> and \<open>10, 30\<close>: the areas are \<open>1\<close> and \<open>150\<close>.\<close>

definition pairP :: "real list" where
  "pairP = [0, 0, 0, 1, 0, 0, 0, 2, 0, 0, 0, 1, 10, 0, 1, 0, 30, 1]"

definition pairI :: "nat list" where
  "pairI = [0, 1, 2, 3, 4, 5]"

definition tjP :: "real list" where
  "tjP = [0, 0, 0, 4, 0, 0, 0, 3, 0, 2, 0, 0, 1, 0, 0]"

definition tjI :: "nat list" where
  "tjI = [0, 1, 2]"

definition tjE0 :: Edge where "tjE0 = \<lparr>v0 = 0, v1 = 1, p0 = (0, 0, 0), p1 = (4, 0, 0)\<rparr>"
definition tjE1 :: Edge where "tjE1 = \<lparr>v0 = 1, v1 = 2, p0 = (4, 0, 0), p1 = (0, 3, 0)\<rparr>"
definition tjE2 :: Edge where "tjE2 = \<lparr>v0 = 2, v1 = 0, p0 = (0, 3, 0), p1 = (0, 0, 0)\<rparr>"

definition tjGrid :: "(cell \<times> nat list) list" where
  "tjGrid = [((0, 0, 0), [0, 2]), ((800, 0, 0), [0, 1]), ((400, 0, 0), [0]), ((0, 600, 0), [1, 2]),
      ((400, 300, 0), [1]), ((0, 300, 0), [2])]"

text \<open>Three triangles without a common vertex: the second pierces the first, the third stays clear of both.\<close>

definition crossP :: "real list" where
  "crossP = [0, 0, 1, 2, 0, 1, 1, 2, 1,
             1, 1, 0, 1, 1, 2, 2, 3 / 2, 1,
             1, 5, 0, 1, 5, 3, 1, 6, 1]"

definition crossI :: "nat list" where
  "crossI = [0, 1, 2, 3, 4, 5, 6, 7, 8]"

text \<open>The cell size that both searches derive for this mesh.\<close>

definition crossCell :: real where
  "crossCell = max (7 / sqrt (3 / 2) * 2) (1 / 10 ^ 6)"

text \<open>The triangles filed in the grid cells that the bounds \<open>b\<close> overlap.\<close>

definition candidates :: "real \<Rightarrow> (cell \<times> nat list) list \<Rightarrow> TriBounds \<Rightarrow> nat set" where
  "candidates cellSize grid b =
     (\<Union>key \<in> set (cellsBetween cellSize b). case Map_get grid key of None \<Rightarrow> {} | Some tris \<Rightarrow> set tris)"

text \<open>What the overlay requires of a pair: ordered, not adjacent, accepted by the simplified test.\<close>

definition passesSimple :: "real list \<Rightarrow> nat list \<Rightarrow> nat \<times> nat \<Rightarrow> bool" where
  "passesSimple positions indices pair =
     (case pair of (t1, t2) \<Rightarrow>
        t1 < t2 \<and>
        \<not> trianglesAdjacent (indices ! (t1 * 3)) (indices ! (t1 * 3 + 1)) (indices ! (t1 * 3 + 2))
                            (indices ! (t2 * 3)) (indices ! (t2 * 3 + 1)) (indices ! (t2 * 3 + 2)) \<and>
        trianglesIntersectSimple positions indices t1 t2)"

text \<open>What the diagnostic pass requires of a pair: ordered, not adjacent, accepted by the full test.\<close>

definition passesMoller :: "real list \<Rightarrow> nat list \<Rightarrow> nat \<times> nat \<Rightarrow> bool" where
  "passesMoller positions indices pair = (case pair of (t1, t2) \<Rightarrow> pairIntersects positions indices t1 t2)"

text \<open>The state of the loops of the overlay after the pairs \<open>S\<close> have been visited.\<close>

definition pairsInv :: "real list \<Rightarrow> nat list \<Rightarrow> (nat \<times> nat) set \<Rightarrow> (nat \<times> nat) list \<times> (nat \<times> nat) set \<Rightarrow> bool" where
  "pairsInv positions indices S st =
     (snd st = {x \<in> S. fst x < snd x} \<and> distinct (fst st) \<and>
      set (fst st) = {x \<in> S. passesSimple positions indices x})"

text \<open>All vertex positions moved by the vector \<open>d\<close>.\<close>

definition translate :: "point \<Rightarrow> real list \<Rightarrow> real list" where
  "translate d positions =
     map (\<lambda>k. positions ! k + (if k mod 3 = 0 then fst d else if k mod 3 = 1 then fst (snd d) else snd (snd d)))
         [0..<length positions]"











section \<open>Association lists\<close>










section \<open>Winding consistency\<close>




















section \<open>Union-find\<close>

lemma find_uf_ok:
  assumes "ufInv m B st" "x < length (parent st)" "m x < depth"
  shows "\<exists>st' r. find_uf depth st (Num x) = Some (st', Num r) \<and>
           r < length (parent st) \<and> length (parent st') = length (parent st) \<and>
           parent st' ! r = r \<and> ufInv m B st' \<and> m r \<le> m x \<and>
           (\<forall>z < length (parent st). parent st ! z = z \<longrightarrow> parent st' ! z = z)"
  using assms
proof (induction depth arbitrary: x st)
  case 0
  then show ?case by simp
next
  case (Suc d)
  let ?V = "length (parent st)"
  let ?y = "parent st ! x"
  have rd: "ufRead st (Num x) = Num ?y" using Suc.prems by (simp add: ufRead_def)
  show ?case
  proof (cases "?y = x")
    case True
    then show ?thesis using Suc.prems rd by simp
  next
    case False
    have yV: "?y < ?V" and my: "m ?y < m x"
      using Suc.prems False by (auto simp: ufInv_def)
    then have "m ?y < d" using Suc.prems by simp
    from Suc.IH[OF Suc.prems(1) yV this]
    obtain st1 r where f: "find_uf d st (Num ?y) = Some (st1, Num r)"
      and rV: "r < ?V" and len: "length (parent st1) = ?V"
      and root: "parent st1 ! r = r" and inv1: "ufInv m B st1" and mr: "m r \<le> m ?y"
      and keep: "\<forall>z < ?V. parent st ! z = z \<longrightarrow> parent st1 ! z = z"
      by blast
    define st2 where "st2 = ufWrite st1 (Num x) (Num r)"
    have V32: "?V \<le> 2 ^ 32" using Suc.prems by (simp add: ufInv_def)
    have r32: "r mod 4294967296 = r" using rV V32 by simp
    have st2: "st2 = st1\<lparr>parent := (parent st1)[x := r]\<rparr>"
      using Suc.prems(2) len by (simp add: st2_def ufWrite_def toUint32_def r32)
    have rx: "r \<noteq> x" using mr my by auto
    have rd2: "ufRead st2 (Num x) = Num r"
      using Suc.prems(2) len by (simp add: st2 ufRead_def)
    have res: "find_uf (Suc d) st (Num x) = Some (st2, Num r)"
      using False rd f rd2 by (simp add: st2_def Let_def)
    have inv2: "ufInv m B st2"
      unfolding ufInv_def
    proof (intro conjI allI impI)
      show "length (parent st2) \<le> 2 ^ 32" using V32 len by (simp add: st2)
    next
      fix z assume z: "z < length (parent st2)"
      then have zV: "z < length (parent st1)" by (simp add: st2)
      show "parent st2 ! z < length (parent st2)"
        using inv1 zV rV len by (cases "z = x") (auto simp: st2 ufInv_def)
      show "m z \<le> B" using inv1 zV by (auto simp: ufInv_def)
      assume ne: "parent st2 ! z \<noteq> z"
      show "m (parent st2 ! z) < m z"
      proof (cases "z = x")
        case True
        then show ?thesis using zV mr my by (simp add: st2)
      next
        case False
        then show ?thesis using inv1 zV ne by (auto simp: st2 ufInv_def)
      qed
    qed
    have "parent st2 ! r = r" using root rx by (simp add: st2)
    moreover have "\<forall>z < ?V. parent st ! z = z \<longrightarrow> parent st2 ! z = z"
    proof (intro allI impI)
      fix z assume z: "z < ?V" "parent st ! z = z"
      then have "z \<noteq> x" using False by auto
      then show "parent st2 ! z = z" using keep z by (simp add: st2)
    qed
    moreover have "length (parent st2) = ?V" using len by (simp add: st2)
    moreover have "m r \<le> m x" using mr my by simp
    ultimately show ?thesis using res rV inv2 by blast
  qed
qed


lemma union_uf_ok:
  assumes inv: "ufInv m B st" and a: "a < length (parent st)" and b: "b < length (parent st)"
    and d: "B < depth"
  shows "\<exists>st' m'. union_uf depth (Num a) (Num b) st = Some st' \<and>
           length (parent st') = length (parent st) \<and> ufInv m' (Suc B) st'"
proof -
  let ?V = "length (parent st)"
  have ma: "m a < depth" using inv a d by (auto simp: ufInv_def intro: le_less_trans)
  from find_uf_ok[OF inv a ma]
  obtain st1 ra where f1: "find_uf depth st (Num a) = Some (st1, Num ra)"
    and raV: "ra < ?V" and len1: "length (parent st1) = ?V"
    and root1: "parent st1 ! ra = ra" and inv1: "ufInv m B st1"
    by blast
  have b1: "b < length (parent st1)" using b len1 by simp
  have mb: "m b < depth" using inv b d by (auto simp: ufInv_def intro: le_less_trans)
  from find_uf_ok[OF inv1 b1 mb]
  obtain st2 rb where f2: "find_uf depth st1 (Num b) = Some (st2, Num rb)"
    and rbV: "rb < ?V" and len2: "length (parent st2) = ?V"
    and root2: "parent st2 ! rb = rb" and inv2: "ufInv m B st2"
    and keep: "\<forall>z < length (parent st1). parent st1 ! z = z \<longrightarrow> parent st2 ! z = z"
    using len1 by metis
  have rootA: "parent st2 ! ra = ra" using keep raV len1 root1 by simp
  have V32: "?V \<le> 2 ^ 32" using inv by (simp add: ufInv_def)
  show ?thesis
  proof (cases "ra = rb")
    case True
    have "union_uf depth (Num a) (Num b) st = Some st2"
      using f1 f2 True by (simp add: union_uf_def)
    moreover have "ufInv m (Suc B) st2"
      using inv2 by (auto simp: ufInv_def intro: le_SucI)
    ultimately show ?thesis using len2 by blast
  next
    case False
    define st3 where "st3 = ufWrite st2 (Num ra) (Num rb)"
    define m' where "m' z = (if z = rb then 0 else Suc (m z))" for z
    have rb32: "rb mod 4294967296 = rb" using rbV V32 by simp
    have st3: "st3 = st2\<lparr>parent := (parent st2)[ra := rb]\<rparr>"
      using raV len2 by (simp add: st3_def ufWrite_def toUint32_def rb32)
    have res: "union_uf depth (Num a) (Num b) st = Some st3"
      using f1 f2 False by (simp add: union_uf_def st3_def)
    have inv3: "ufInv m' (Suc B) st3"
      unfolding ufInv_def
    proof (intro conjI allI impI)
      show "length (parent st3) \<le> 2 ^ 32" using V32 len2 by (simp add: st3)
    next
      fix z assume "z < length (parent st3)"
      then have zV: "z < length (parent st2)" by (simp add: st3)
      show "parent st3 ! z < length (parent st3)"
        using inv2 zV rbV len2 by (cases "z = ra") (auto simp: st3 ufInv_def)
      show "m' z \<le> Suc B" using inv2 zV by (auto simp: ufInv_def m'_def)
      assume ne: "parent st3 ! z \<noteq> z"
      show "m' (parent st3 ! z) < m' z"
      proof (cases "z = ra")
        case True
        then show ?thesis using zV False by (simp add: st3 m'_def)
      next
        case zra: False
        then have p: "parent st3 ! z = parent st2 ! z" by (simp add: st3)
        then have nroot: "parent st2 ! z \<noteq> z" using ne by simp
        then have "z \<noteq> rb" using root2 by auto
        moreover have "m (parent st2 ! z) < m z" using inv2 zV nroot by (auto simp: ufInv_def)
        ultimately show ?thesis by (simp add: p m'_def)
      qed
    qed
    have "length (parent st3) = ?V" using len2 by (simp add: st3)
    then show ?thesis using res inv3 by blast
  qed
qed

lemma ufInv_mono: "ufInv m B st \<Longrightarrow> B \<le> B' \<Longrightarrow> ufInv m B' st"
  by (auto simp: ufInv_def intro: order_trans)

lemma unionAll_ok:
  assumes "ufInv m B st"
    and "\<forall>i \<in> set offs. indices ! i < length (parent st) \<and> indices ! (i + 1) < length (parent st)
           \<and> indices ! (i + 2) < length (parent st)"
    and "B + 2 * length offs < depth"
  shows "\<exists>st' m'. unionAll depth indices offs st = Some st' \<and>
           length (parent st') = length (parent st) \<and> ufInv m' (B + 2 * length offs) st'"
  using assms
proof (induction offs arbitrary: m B st)
  case Nil
  then show ?case by auto
next
  case (Cons i rest)
  let ?V = "length (parent st)"
  have i0: "indices ! i < ?V" and i1: "indices ! (i + 1) < ?V" and i2: "indices ! (i + 2) < ?V"
    using Cons.prems(2) by auto
  have d0: "B < depth" using Cons.prems(3) by simp
  from union_uf_ok[OF Cons.prems(1) i0 i1 d0]
  obtain st1 m1 where u1: "union_uf depth (Num (indices ! i)) (Num (indices ! (i + 1))) st = Some st1"
    and len1: "length (parent st1) = ?V" and inv1: "ufInv m1 (Suc B) st1" by blast
  have d1: "Suc B < depth" using Cons.prems(3) by simp
  from union_uf_ok[OF inv1 _ _ d1, of "indices ! (i + 1)" "indices ! (i + 2)"] i1 i2 len1
  obtain st2 m2 where u2: "union_uf depth (Num (indices ! (i + 1))) (Num (indices ! (i + 2))) st1 = Some st2"
    and len2: "length (parent st2) = ?V" and inv2: "ufInv m2 (Suc (Suc B)) st2" by auto
  have rest: "\<forall>i \<in> set rest. indices ! i < length (parent st2) \<and> indices ! (i + 1) < length (parent st2)
           \<and> indices ! (i + 2) < length (parent st2)"
    using Cons.prems(2) len2 by simp
  have d2: "Suc (Suc B) + 2 * length rest < depth" using Cons.prems(3) by simp
  from Cons.IH[OF inv2 rest d2]
  obtain st' m' where r: "unionAll depth indices rest st2 = Some st'"
    and len': "length (parent st') = length (parent st2)"
    and inv': "ufInv m' (Suc (Suc B) + 2 * length rest) st'" by blast
  have "unionAll depth indices (i # rest) st = Some st'"
    using u1 u2 r by (simp add: Let_def)
  moreover have "ufInv m' (B + 2 * length (i # rest)) st'" using inv' by simp
  ultimately show ?case using len' len2 by auto
qed

lemma componentRoots_ok:
  assumes "ufInv m B st" "\<forall>v \<in> set vs. v < length (parent st)" "B < depth"
  shows "\<exists>roots'. componentRoots depth vs st roots = Some roots'"
  using assms
proof (induction vs arbitrary: st roots)
  case Nil
  then show ?case by simp
next
  case (Cons v vs)
  have v: "v < length (parent st)" using Cons.prems(2) by simp
  have mv: "m v < depth" using Cons.prems v by (auto simp: ufInv_def intro: le_less_trans)
  from find_uf_ok[OF Cons.prems(1) v mv]
  obtain st1 r where f: "find_uf depth st (Num v) = Some (st1, Num r)"
    and len: "length (parent st1) = length (parent st)" and inv1: "ufInv m B st1" by blast
  have "\<forall>v \<in> set vs. v < length (parent st1)" using Cons.prems(2) len by simp
  from Cons.IH[OF inv1 this Cons.prems(3)] f show ?case by simp
qed

lemma offsets_in_range:
  assumes "length indices mod 3 = 0" "i \<in> set (offsets indices)"
  shows "i + 2 < length indices"
proof -
  from assms(2) obtain t where t: "t < (length indices + 2) div 3" "i = t * 3"
    by (auto simp: offsets_def)
  from assms(1) have "(length indices + 2) div 3 = length indices div 3" by presburger
  with t have "t < length indices div 3" by simp
  then show ?thesis using t(2) by auto
qed

lemma usedVertices_set: "set (usedVertices indices V) = {v \<in> set indices. v < V}"
proof -
  have "set (fold (usedStep V) xs acc) = set acc \<union> {v \<in> set xs. v < V}" for xs acc
    by (induction xs arbitrary: acc) (auto simp: Set_add_def usedStep_def)
  then show ?thesis by (simp add: usedVertices_def)
qed

lemma connectedComponents_of_ok:
  assumes len: "length indices mod 3 = 0"
    and rng: "\<forall>v \<in> set indices. v < V"
    and V32: "V \<le> 2 ^ 32"
    and d: "2 * (length indices div 3) < depth"
  shows "\<exists>n. connectedComponents_of depth indices V = Some n"
proof -
  let ?st0 = "ufInit V"
  have lenp: "length (parent ?st0) = V" by (simp add: ufInit_def)
  have inv0: "ufInv (\<lambda>x. 0) 0 ?st0"
    using V32 by (auto simp: ufInv_def ufInit_def)
  have offs: "\<forall>i \<in> set (offsets indices). indices ! i < length (parent ?st0)
           \<and> indices ! (i + 1) < length (parent ?st0) \<and> indices ! (i + 2) < length (parent ?st0)"
  proof
    fix i assume "i \<in> set (offsets indices)"
    from offsets_in_range[OF len this] have "i + 2 < length indices" .
    then have "indices ! i \<in> set indices" "indices ! (i + 1) \<in> set indices" "indices ! (i + 2) \<in> set indices"
      by simp_all
    then show "indices ! i < length (parent ?st0)
           \<and> indices ! (i + 1) < length (parent ?st0) \<and> indices ! (i + 2) < length (parent ?st0)"
      using rng lenp by simp
  qed
  have lo: "length (offsets indices) = length indices div 3"
    using len by (simp add: offsets_def) presburger
  have d0: "0 + 2 * length (offsets indices) < depth" using d lo by simp
  from unionAll_ok[OF inv0 offs d0]
  obtain st' m' where u: "unionAll depth indices (offsets indices) ?st0 = Some st'"
    and len': "length (parent st') = V" and inv': "ufInv m' (2 * length (offsets indices)) st'"
    using lenp by auto
  have used: "\<forall>v \<in> set (usedVertices indices V). v < length (parent st')"
    using len' by (simp add: usedVertices_set)
  have "2 * length (offsets indices) < depth" using d lo by simp
  from componentRoots_ok[OF inv' used this, of "[]"] u
  show ?thesis by (auto simp: connectedComponents_of_def)
qed


section \<open>The capped and the uncapped result\<close>



lemma validMesh_components:
  assumes "validMesh positions indices" "2 * (length indices div 3) < depth"
  shows "\<exists>n. connectedComponents_of depth indices (length positions div 3) = Some n"
proof -
  have "length positions div 3 \<le> 2 ^ 32"
    using assms(1) by (simp add: validMesh_def MAX_VERTEX_FOR_NUMERIC_KEY_def)
  then show ?thesis
    using assms by (intro connectedComponents_of_ok) (auto simp: validMesh_def)
qed

section \<open>Claims\<close>

text \<open>
  Claim C1. For every input whose triangle count exceeds 5,592,405 the analysis
  returns a diagnostics record, whatever depth is available to the recursion of
  \<^verbatim>\<open>find\<close> (no pass runs, so nothing can throw): the vertex and triangle counts are
  the true ones, the bounding box is the computed one, every other count and the
  winding percentage are \<open>-1\<close>, the winding check is marked as skipped, the stat
  blocks are absent and the four derived booleans are false.
\<close>

theorem C1_capacity_limited_result:
  assumes "length indices div 3 > 5592405"
  shows "computeMeshDiagnostics depth positions indices =
    Some \<lparr>vertexCount = int (length positions div 3),
          triangleCount = int (length indices div 3),
          edgeCount = -1, boundaryEdgeCount = -1, nonManifoldEdgeCount = -1,
          nonManifoldVertexCount = -1, connectedComponents = -1, eulerCharacteristic = -1,
          degenerateTriangleCount = -1, windingInconsistentEdgeCount = -1,
          windingConsistencyPercent = -1, windingCheckSkipped = True,
          duplicateVertexCount = -1, tinyTriangleCount = -1, needleTriangleCount = -1,
          edgeLengthStats = None, aspectRatioStats = None, valenceDistribution = None,
          boundingBox = Some (computeBoundingBox positions),
          isolatedVertexCount = -1, sharpEdgeCount = -1, coplanarEdgeCount = -1,
          dihedralAngleStats = None, selfIntersectionCount = -1, tJunctionCount = -1,
          thinWallCount = -1, thinWallThreshold = 0.005, coincidentFaceCount = -1,
          isWatertight = False, isManifold = False, hasNonManifoldVertices = False,
          hasConsistentWinding = False\<rparr>"
  using assms
  by (simp add: computeMeshDiagnostics_def MAX_SAFE_TRIANGLES_def MAP_SIZE_LIMIT_def Let_def)

text \<open>An index array of 5,592,406 triangles over an empty position array.\<close>

theorem C1_capacity_limited_result_witness:
  "length (replicate 16777218 (0::nat)) div 3 > 5592405 \<and>
   computeMeshDiagnostics 0 [] (replicate 16777218 0) =
    Some \<lparr>vertexCount = 0, triangleCount = 5592406,
          edgeCount = -1, boundaryEdgeCount = -1, nonManifoldEdgeCount = -1,
          nonManifoldVertexCount = -1, connectedComponents = -1, eulerCharacteristic = -1,
          degenerateTriangleCount = -1, windingInconsistentEdgeCount = -1,
          windingConsistencyPercent = -1, windingCheckSkipped = True,
          duplicateVertexCount = -1, tinyTriangleCount = -1, needleTriangleCount = -1,
          edgeLengthStats = None, aspectRatioStats = None, valenceDistribution = None,
          boundingBox = Some \<lparr>bbMin = (0, 0, 0), bbMax = (0, 0, 0), bbSize = (0, 0, 0), diagonal = 0\<rparr>,
          isolatedVertexCount = -1, sharpEdgeCount = -1, coplanarEdgeCount = -1,
          dihedralAngleStats = None, selfIntersectionCount = -1, tJunctionCount = -1,
          thinWallCount = -1, thinWallThreshold = 0.005, coincidentFaceCount = -1,
          isWatertight = False, isManifold = False, hasNonManifoldVertices = False,
          hasConsistentWinding = False\<rparr>"
  using C1_capacity_limited_result[of "replicate 16777218 0" 0 "[]"]
  by (simp add: computeBoundingBox_def)












lemma computeMeshDiagnostics_uncapped:
  assumes "length indices div 3 \<le> MAX_SAFE_TRIANGLES"
    and "connectedComponents_of depth indices (length positions div 3) = Some n"
  shows "computeMeshDiagnostics depth positions indices =
    Some \<lparr>vertexCount = int (length positions div 3),
          triangleCount = int (length indices div 3),
          edgeCount = int (length (buildEdgeFaceMap indices (length indices div 3))),
          boundaryEdgeCount = int (fst (classifyEdges (buildEdgeFaceMap indices (length indices div 3)))),
          nonManifoldEdgeCount = int (snd (classifyEdges (buildEdgeFaceMap indices (length indices div 3)))),
          nonManifoldVertexCount = int (detectNonManifoldVertices indices),
          connectedComponents = int n,
          eulerCharacteristic =
            int (length (usedVertices indices (length positions div 3)))
            - int (length (buildEdgeFaceMap indices (length indices div 3)))
            + int (length indices div 3),
          degenerateTriangleCount = int (degenerateTriangleCount_of positions indices),
          windingInconsistentEdgeCount = int (inconsistentEdgeCount (detectWindingConsistency indices)),
          windingConsistencyPercent = consistencyPercent (detectWindingConsistency indices),
          windingCheckSkipped =
            (case skipped (detectWindingConsistency indices) of None \<Rightarrow> False | Some b \<Rightarrow> b),
          duplicateVertexCount = int (detectDuplicateVertices positions),
          tinyTriangleCount = int (tinyTriangleCount_of positions indices),
          needleTriangleCount = int (needleTriangleCount_of positions indices),
          edgeLengthStats = computeStats (edgeLengths positions indices),
          aspectRatioStats = computeStats (aspectRatios positions indices),
          valenceDistribution = Some (computeValenceDistribution indices (length positions div 3)),
          boundingBox = Some (computeBoundingBox positions),
          isolatedVertexCount =
            int (length positions div 3) - int (length (usedVertices indices (length positions div 3))),
          sharpEdgeCount = int (sharpEdgeCount_d (computeDihedralAngles positions indices
                                  (buildEdgeFaceMap indices (length indices div 3)))),
          coplanarEdgeCount = int (coplanarEdgeCount_d (computeDihedralAngles positions indices
                                  (buildEdgeFaceMap indices (length indices div 3)))),
          dihedralAngleStats = dihedralAngleStats_d (computeDihedralAngles positions indices
                                  (buildEdgeFaceMap indices (length indices div 3))),
          selfIntersectionCount =
            int (detectSelfIntersections positions indices (Some (computeBoundingBox positions))),
          tJunctionCount = int (detectTJunctions positions indices (Some (computeBoundingBox positions))),
          thinWallCount =
            int (fst (detectThinWalls positions indices (Some (computeBoundingBox positions)) 0.005)),
          thinWallThreshold =
            snd (detectThinWalls positions indices (Some (computeBoundingBox positions)) 0.005),
          coincidentFaceCount =
            int (detectCoincidentFaces positions indices (Some (computeBoundingBox positions))),
          isWatertight = (fst (classifyEdges (buildEdgeFaceMap indices (length indices div 3))) = 0),
          isManifold = (snd (classifyEdges (buildEdgeFaceMap indices (length indices div 3))) = 0),
          hasNonManifoldVertices = (detectNonManifoldVertices indices > 0),
          hasConsistentWinding =
            (if (case skipped (detectWindingConsistency indices) of None \<Rightarrow> False | Some b \<Rightarrow> b)
             then False
             else consistencyPercent (detectWindingConsistency indices) \<ge> 99.5)\<rparr>"
  using assms
  by (simp add: computeMeshDiagnostics_def Let_def split: prod.splits)





section \<open>An out-of-range index\<close>


lemma find_uf_cycle:
  "find_uf depth \<lparr>parent = [1, 0, 2], undefinedProp = u\<rparr> (Num 0) = None \<and>
   find_uf depth \<lparr>parent = [1, 0, 2], undefinedProp = u\<rparr> (Num 1) = None"
  by (induction depth) (simp_all add: ufRead_def)

lemma outOfRange_unionAll:
  "unionAll (Suc (Suc depth)) [0, 1, 5] [0] (ufInit 3) = Some \<lparr>parent = [1, 0, 2], undefinedProp = Undefined\<rparr>"
  by (simp add: ufInit_def union_uf_def ufRead_def ufWrite_def toUint32_def Let_def upt_conv_Cons)

lemma outOfRange_components: "connectedComponents_of depth [0, 1, 5] 3 = None"
proof (cases depth)
  case 0
  then show ?thesis
    by (simp add: connectedComponents_of_def offsets_def union_uf_def)
next
  case (Suc d)
  show ?thesis
  proof (cases d)
    case 0
    then show ?thesis using Suc
      by (simp add: connectedComponents_of_def offsets_def union_uf_def ufInit_def ufRead_def
          ufWrite_def toUint32_def Let_def upt_conv_Cons)
  next
    case (Suc e)
    have used: "usedVertices [0, 1, 5] 3 = [0, 1]"
      by (simp add: usedVertices_def usedStep_def Set_add_def)
    have offs: "offsets [0, 1, 5::nat] = [0]" by (simp add: offsets_def)
    show ?thesis
      unfolding connectedComponents_of_def offs \<open>depth = Suc d\<close> Suc outOfRange_unionAll used
      using find_uf_cycle[of "Suc (Suc e)" Undefined] by simp
  qed
qed

lemma computeMeshDiagnostics_throws:
  assumes "length indices div 3 \<le> MAX_SAFE_TRIANGLES"
    and "connectedComponents_of depth indices (length positions div 3) = None"
  shows "computeMeshDiagnostics depth positions indices = None"
  using assms by (simp add: computeMeshDiagnostics_def Let_def split: prod.splits)

text \<open>
  Claim C10 says that an input with an out-of-range vertex index is analysed to
  the end. The union-find is the one place without the \<^verbatim>\<open>i < vertexCount\<close> guard:
  \<^verbatim>\<open>find\<close> of an out-of-range index returns \<^verbatim>\<open>undefined\<close>, and
  \<^verbatim>\<open>parent[rootA] = undefined\<close> stores \<open>0\<close>. With three vertices and the single
  triangle \<open>(0, 1, 5)\<close> this closes the cycle \<open>0 \<rightarrow> 1 \<rightarrow> 0\<close> in \<^verbatim>\<open>parent\<close>, and the
  \<^verbatim>\<open>find\<close> of the component count recurses without end: whatever depth the call
  stack allows, \<^verbatim>\<open>computeMeshDiagnostics\<close> does not return.
\<close>

theorem C10_out_of_range_index_never_returns:
  "computeMeshDiagnostics depth [0, 0, 0, 1, 0, 0, 0, 1, 0] [0, 1, 5] = None"
proof (rule computeMeshDiagnostics_throws)
  show "length [0, 1, 5::nat] div 3 \<le> MAX_SAFE_TRIANGLES"
    by (simp add: MAX_SAFE_TRIANGLES_def MAP_SIZE_LIMIT_def)
  have "length [0, 0, 0, 1, 0, 0, 0, 1, 0::real] div 3 = 3" by simp
  then show "connectedComponents_of depth [0, 1, 5]
               (length [0, 0, 0, 1, 0, 0, 0, 1, 0::real] div 3) = None"
    by (simp only: outOfRange_components)
qed

section \<open>Degenerate and tiny triangles\<close>

lemma fold_count:
  "fold (\<lambda>x n. if P x then n + 1 else n) xs k = k + length (filter P xs)"
  by (induction xs arbitrary: k) auto

lemma offsets_whole: "length indices mod 3 = 0 \<Longrightarrow> offsets indices = map (\<lambda>t. t * 3) [0..<length indices div 3]"
proof -
  assume "length indices mod 3 = 0"
  then have "(length indices + 2) div 3 = length indices div 3" by presburger
  then show ?thesis by (simp add: offsets_def)
qed

lemma triangleAreaSq_eq: "triangleAreaSq positions indices (t * 3) = (triangleArea positions indices t)\<^sup>2"
proof -
  have "(0.5 * sqrt x)\<^sup>2 = 0.25 * x" if "0 \<le> x" for x :: real
    using that by (simp add: power2_eq_square)
  moreover have "0 \<le> a * a + b * b + c * c" for a b c :: real by simp
  ultimately show ?thesis
    by (simp add: triangleAreaSq_def triangleArea_def Let_def)
qed

lemma sampleStep_eq:
  "sampleStep positions indices t (a, k) = (a + perimeter positions indices t, k + 3)"
  by (simp add: sampleStep_def perimeter_def triangleEdgeLengths_def Let_def power2_commute)

lemma fold_sampleStep:
  "fold (sampleStep positions indices) [0..<n] (a, k) =
     (a + (\<Sum>t < n. perimeter positions indices t), k + 3 * n)"
  by (induction n) (simp_all add: sampleStep_eq)

lemma avgEdgeLength_eq:
  "avgEdgeLength positions indices =
     (if length indices div 3 = 0 then 1
      else (\<Sum>t < min (length indices div 3) 1000. perimeter positions indices t)
           / real (3 * min (length indices div 3) 1000))"
  by (simp add: avgEdgeLength_def Let_def fold_sampleStep)

lemma degenerateTriangleCount_of_eq:
  assumes "length indices mod 3 = 0"
  shows "degenerateTriangleCount_of positions indices =
     length (filter (\<lambda>t. (triangleArea positions indices t)\<^sup>2
                            < 1 / 10 ^ 8 * (0.1875 * (avgEdgeLength positions indices)\<^sup>2))
                    [0..<length indices div 3])"
proof -
  have step: "degenerateStep positions indices thr =
      (\<lambda>i n. if triangleAreaSq positions indices i < thr then n + 1 else n)" for thr
    by (intro ext) (simp add: degenerateStep_def)
  show ?thesis
    by (simp add: degenerateTriangleCount_of_def step fold_count offsets_whole[OF assms]
      filter_map comp_def triangleAreaSq_eq areaThresholdSq_def Let_def power2_eq_square
      mult.commute mult.left_commute)
qed


lemmas vdefs = vx_def vy_def vz_def



lemma sliver_sqrt1: "sqrt ((3 / 50000)\<^sup>2 + (1 / 12500)\<^sup>2) = 1 / 10000"
  by (rule real_sqrt_unique) (simp_all add: power2_eq_square)

lemma sliver_sqrt2: "sqrt (9 / 390625000000000000) = 3 / 625000000"
  by (rule real_sqrt_unique) (simp_all add: power2_eq_square)

lemma sliver_edges:
  "triangleEdgeLengths sliverP sliverI 0 = [3 / 50000, 1 / 10000, 1 / 12500]"
  by (simp add: sliverP_def sliverI_def triangleEdgeLengths_def Let_def vdefs sliver_sqrt1)

lemma sliver_area: "triangleArea sliverP sliverI 0 = 3 / 1250000000"
  by (simp add: sliverP_def sliverI_def triangleArea_def Let_def vdefs sliver_sqrt2)

lemma sliver_len: "length sliverI = 3"
  by (simp add: sliverI_def)

lemma sliver_avg: "avgEdgeLength sliverP sliverI = 1 / 12500"
  unfolding avgEdgeLength_eq perimeter_def sliver_len
  by (simp add: sliver_edges lessThan_Suc)

lemma sliver_degenerate: "degenerateTriangleCount_of sliverP sliverI = 1"
proof -
  have "length sliverI mod 3 = 0" by (simp add: sliver_len)
  from degenerateTriangleCount_of_eq[OF this, of sliverP]
  show ?thesis
    unfolding sliver_avg sliver_len by (simp add: sliver_area power2_eq_square)
qed

text \<open>
  Claim C4, as stated, fails: the test of the source is \<open>A\<^sup>2 < threshold\<close>, not
  \<open>4 A\<^sup>2 < threshold\<close>. The right triangle with legs \<open>6e-5\<close> and \<open>8e-5\<close> has
  \<open>A\<^sup>2 = 5.76e-18\<close> and the threshold is \<open>1.2e-17\<close>: the source counts it as
  degenerate, and \<open>4 A\<^sup>2 = 2.304e-17\<close> is not below the threshold.
\<close>

theorem C4_counterexample:
  "degenerateTriangleCount_of [0, 0, 0, 3 / 50000, 0, 0, 0, 1 / 12500, 0] [0, 1, 2] = 1 \<and>
   \<not> 4 * (triangleArea [0, 0, 0, 3 / 50000, 0, 0, 0, 1 / 12500, 0] [0, 1, 2] 0)\<^sup>2
       < 1 / 10 ^ 8 * (0.1875 * (avgEdgeLength [0, 0, 0, 3 / 50000, 0, 0, 0, 1 / 12500, 0] [0, 1, 2])\<^sup>2)"
  unfolding sliverP_def[symmetric] sliverI_def[symmetric] sliver_avg sliver_area sliver_degenerate
  by (simp add: power2_eq_square)


lemma tinyTriangleCount_of_eq:
  "tinyTriangleCount_of positions indices =
     length (filter (\<lambda>a. 0 < a \<and> a < 0.01 * medianArea (triangleAreas positions indices))
                    (triangleAreas positions indices))"
proof -
  have step: "tinyStep thr = (\<lambda>a n. if a < thr \<and> a > 0 then n + 1 else n)" for thr
    by (intro ext) (simp add: tinyStep_def)
  show ?thesis
    by (simp add: tinyTriangleCount_of_def Let_def step fold_count conj_commute mult.commute)
qed

lemma medianArea_nonempty:
  "areas \<noteq> [] \<Longrightarrow> medianArea areas = sort areas ! (length areas div 2)"
  by (cases areas) (simp_all add: medianArea_def Let_def)

lemma median_odd:
  "odd (length values) \<Longrightarrow> median (the (computeStats values)) = sort values ! (length values div 2)"
  by (auto simp: computeStats_def Let_def elim: oddE)

lemma pair_sqrt: "sqrt 90000 = 300"
  by (rule real_sqrt_unique) simp_all

lemma pair_areas: "triangleAreas pairP pairI = [1, 150]"
  by (simp add: triangleAreas_def pairP_def pairI_def triangleArea_def Let_def vdefs upt_conv_Cons pair_sqrt)

lemma pair_tiny: "tinyTriangleCount_of pairP pairI = 1"
  unfolding tinyTriangleCount_of_eq pair_areas
  by (simp add: medianArea_def)

lemma pair_median: "median (the (computeStats [1, 150])) = 151 / 2"
  by (simp add: computeStats_def Let_def)

text \<open>
  Claim C9, as stated, fails when the number of triangles is even: the source then
  takes the upper of the two middle areas, while the median of \<^verbatim>\<open>computeStats\<close>
  is their mean. With areas \<open>1\<close> and \<open>150\<close> the source compares with \<open>1.5\<close> and
  counts the first triangle; one percent of the median \<open>75.5\<close> is \<open>0.755\<close>, below
  both areas.
\<close>

theorem C9_counterexample:
  "tinyTriangleCount_of [0, 0, 0, 1, 0, 0, 0, 2, 0, 0, 0, 1, 10, 0, 1, 0, 30, 1] [0, 1, 2, 3, 4, 5] = 1 \<and>
   length (filter
     (\<lambda>a. 0 < a \<and> a < 0.01 * median (the (computeStats
        (triangleAreas [0, 0, 0, 1, 0, 0, 0, 2, 0, 0, 0, 1, 10, 0, 1, 0, 30, 1] [0, 1, 2, 3, 4, 5]))))
     (triangleAreas [0, 0, 0, 1, 0, 0, 0, 2, 0, 0, 0, 1, 10, 0, 1, 0, 30, 1] [0, 1, 2, 3, 4, 5])) = 0"
  unfolding pairP_def[symmetric] pairI_def[symmetric] pair_tiny pair_areas pair_median
  by simp


text \<open>
  Claim C4, amended. For every valid input under the capacity cap the analysis
  returns a record whose \<^verbatim>\<open>degenerateTriangleCount\<close> is the number of triangles
  whose area \<open>A\<close> satisfies \<open>A\<^sup>2 < 10\<^sup>-\<^sup>8 \<cdot> 0.1875 \<cdot> l\<^sup>2\<close>, where \<open>l\<close> is the
  average of the edge lengths of the first \<open>min(T, 1000)\<close> triangles (and \<open>1\<close>
  when there is no triangle).
\<close>

theorem C4_degenerate_count:
  assumes "validMesh positions indices"
    and "length indices div 3 \<le> MAX_SAFE_TRIANGLES"
    and "2 * (length indices div 3) < depth"
  shows "\<exists>d. computeMeshDiagnostics depth positions indices = Some d \<and>
           degenerateTriangleCount d =
             int (length (filter
               (\<lambda>t. (triangleArea positions indices t)\<^sup>2
                      < 1 / 10 ^ 8 * (0.1875 * (avgEdgeLength positions indices)\<^sup>2))
               [0..<length indices div 3])) \<and>
           avgEdgeLength positions indices =
             (if length indices div 3 = 0 then 1
              else (\<Sum>t < min (length indices div 3) 1000.
                      sum_list (triangleEdgeLengths positions indices t))
                   / real (3 * min (length indices div 3) 1000))"
proof -
  from validMesh_components[OF assms(1,3)]
  obtain n where n: "connectedComponents_of depth indices (length positions div 3) = Some n" ..
  have len: "length indices mod 3 = 0" using assms(1) by (simp add: validMesh_def)
  show ?thesis
    unfolding computeMeshDiagnostics_uncapped[OF assms(2) n]
    using degenerateTriangleCount_of_eq[OF len, of positions]
      avgEdgeLength_eq[of positions indices, unfolded perimeter_def]
    by simp
qed

lemma sliver_valid: "validMesh sliverP sliverI"
  by (simp add: validMesh_def sliverP_def sliverI_def MAX_VERTEX_FOR_NUMERIC_KEY_def)

text \<open>The triangle of the counterexample: its average edge length is \<open>8e-5\<close> and it is counted.\<close>

theorem C4_degenerate_count_witness:
  "validMesh [0, 0, 0, 3 / 50000, 0, 0, 0, 1 / 12500, 0] [0, 1, 2] \<and>
   length [0, 1, 2::nat] div 3 \<le> MAX_SAFE_TRIANGLES \<and>
   2 * (length [0, 1, 2::nat] div 3) < (3::nat) \<and>
   (\<exists>d. computeMeshDiagnostics 3 [0, 0, 0, 3 / 50000, 0, 0, 0, 1 / 12500, 0] [0, 1, 2] = Some d \<and>
        degenerateTriangleCount d = 1) \<and>
   avgEdgeLength [0, 0, 0, 3 / 50000, 0, 0, 0, 1 / 12500, 0] [0, 1, 2] = 1 / 12500"
proof -
  have h2: "length sliverI div 3 \<le> MAX_SAFE_TRIANGLES"
    by (simp add: sliver_len MAX_SAFE_TRIANGLES_def MAP_SIZE_LIMIT_def)
  have h3: "2 * (length sliverI div 3) < (3::nat)" by (simp add: sliver_len)
  from C4_degenerate_count[OF sliver_valid h2 h3]
  obtain d where d: "computeMeshDiagnostics 3 sliverP sliverI = Some d"
    and c: "degenerateTriangleCount d =
             int (length (filter
               (\<lambda>t. (triangleArea sliverP sliverI t)\<^sup>2
                      < 1 / 10 ^ 8 * (0.1875 * (avgEdgeLength sliverP sliverI)\<^sup>2))
               [0..<length sliverI div 3]))" by blast
  have "degenerateTriangleCount d = 1"
    unfolding c sliver_avg sliver_len by (simp add: sliver_area power2_eq_square)
  with d sliver_valid h2 h3 sliver_avg show ?thesis
    unfolding sliverP_def[symmetric] sliverI_def[symmetric] by blast
qed

text \<open>
  Claim C9, amended. For every valid input under the capacity cap with at least
  one triangle the analysis returns a record whose \<^verbatim>\<open>tinyTriangleCount\<close> is the
  number of triangles whose area is strictly positive and strictly less than
  \<open>0.01\<close> times the area at position \<open>\<lfloor>T / 2\<rfloor>\<close> of the ascending areas. That
  area is the median when \<open>T\<close> is odd.
\<close>

theorem C9_tiny_count:
  assumes "validMesh positions indices"
    and "length indices div 3 \<le> MAX_SAFE_TRIANGLES"
    and "2 * (length indices div 3) < depth"
    and "0 < length indices div 3"
  shows "\<exists>d. computeMeshDiagnostics depth positions indices = Some d \<and>
           tinyTriangleCount d =
             int (length (filter
               (\<lambda>a. 0 < a \<and>
                     a < 0.01 * (sort (triangleAreas positions indices) ! (length indices div 3 div 2)))
               (triangleAreas positions indices))) \<and>
           (odd (length indices div 3) \<longrightarrow>
              sort (triangleAreas positions indices) ! (length indices div 3 div 2)
                = median (the (computeStats (triangleAreas positions indices))))"
proof -
  from validMesh_components[OF assms(1,3)]
  obtain n where n: "connectedComponents_of depth indices (length positions div 3) = Some n" ..
  have len: "length (triangleAreas positions indices) = length indices div 3"
    by (simp add: triangleAreas_def)
  then have ne: "triangleAreas positions indices \<noteq> []" using assms(4) by auto
  show ?thesis
    unfolding computeMeshDiagnostics_uncapped[OF assms(2) n]
    using median_odd[of "triangleAreas positions indices"]
    by (simp add: tinyTriangleCount_of_eq medianArea_nonempty[OF ne] len)
qed

lemma pair_valid: "validMesh pairP pairI"
  by (simp add: validMesh_def pairP_def pairI_def MAX_VERTEX_FOR_NUMERIC_KEY_def)

lemma pair_len: "length pairI div 3 = 2"
  by (simp add: pairI_def)

text \<open>
  Two instances. The two-triangle mesh has areas \<open>1\<close> and \<open>150\<close>: the position
  \<open>\<lfloor>2 / 2\<rfloor> = 1\<close> of the ascending areas holds \<open>150\<close>, the threshold is \<open>1.5\<close>
  and the first triangle is counted. The single triangle has an odd count: its
  area is the median, and it is not tiny.
\<close>

theorem C9_tiny_count_witness:
  "validMesh [0, 0, 0, 1, 0, 0, 0, 2, 0, 0, 0, 1, 10, 0, 1, 0, 30, 1] [0, 1, 2, 3, 4, 5] \<and>
   length [0, 1, 2, 3, 4, 5::nat] div 3 \<le> MAX_SAFE_TRIANGLES \<and>
   2 * (length [0, 1, 2, 3, 4, 5::nat] div 3) < (5::nat) \<and>
   0 < length [0, 1, 2, 3, 4, 5::nat] div 3 \<and>
   triangleAreas [0, 0, 0, 1, 0, 0, 0, 2, 0, 0, 0, 1, 10, 0, 1, 0, 30, 1] [0, 1, 2, 3, 4, 5] = [1, 150] \<and>
   sort (triangleAreas [0, 0, 0, 1, 0, 0, 0, 2, 0, 0, 0, 1, 10, 0, 1, 0, 30, 1] [0, 1, 2, 3, 4, 5])
     ! (length [0, 1, 2, 3, 4, 5::nat] div 3 div 2) = 150 \<and>
   (\<exists>d. computeMeshDiagnostics 5 [0, 0, 0, 1, 0, 0, 0, 2, 0, 0, 0, 1, 10, 0, 1, 0, 30, 1] [0, 1, 2, 3, 4, 5]
          = Some d \<and>
        tinyTriangleCount d = 1) \<and>
   validMesh [0, 0, 0, 3 / 50000, 0, 0, 0, 1 / 12500, 0] [0, 1, 2] \<and>
   2 * (length [0, 1, 2::nat] div 3) < (3::nat) \<and>
   odd (length [0, 1, 2::nat] div 3) \<and>
   (\<exists>d. computeMeshDiagnostics 3 [0, 0, 0, 3 / 50000, 0, 0, 0, 1 / 12500, 0] [0, 1, 2] = Some d \<and>
        tinyTriangleCount d = 0) \<and>
   median (the (computeStats (triangleAreas [0, 0, 0, 3 / 50000, 0, 0, 0, 1 / 12500, 0] [0, 1, 2])))
     = 3 / 1250000000"
proof -
  have p2: "length pairI div 3 \<le> MAX_SAFE_TRIANGLES"
    by (simp add: pair_len MAX_SAFE_TRIANGLES_def MAP_SIZE_LIMIT_def)
  have p3: "2 * (length pairI div 3) < (5::nat)" by (simp add: pair_len)
  have p4: "0 < length pairI div 3" by (simp add: pair_len)
  from C9_tiny_count[OF pair_valid p2 p3 p4]
  obtain e where e: "computeMeshDiagnostics 5 pairP pairI = Some e"
    and ce: "tinyTriangleCount e =
             int (length (filter
               (\<lambda>a. 0 < a \<and>
                     a < 0.01 * (sort (triangleAreas pairP pairI) ! (length pairI div 3 div 2)))
               (triangleAreas pairP pairI)))" by blast
  have upper: "sort (triangleAreas pairP pairI) ! (length pairI div 3 div 2) = 150"
    unfolding pair_areas pair_len by simp
  have "tinyTriangleCount e = 1"
    unfolding ce upper unfolding pair_areas by simp
  with e have pairPart: "\<exists>d. computeMeshDiagnostics 5 pairP pairI = Some d \<and> tinyTriangleCount d = 1"
    by blast
  have h2: "length sliverI div 3 \<le> MAX_SAFE_TRIANGLES"
    by (simp add: sliver_len MAX_SAFE_TRIANGLES_def MAP_SIZE_LIMIT_def)
  have h3: "2 * (length sliverI div 3) < (3::nat)" by (simp add: sliver_len)
  have h4: "0 < length sliverI div 3" by (simp add: sliver_len)
  have h5: "odd (length sliverI div 3)" by (simp add: sliver_len)
  have areas: "triangleAreas sliverP sliverI = [3 / 1250000000]"
    by (simp add: triangleAreas_def sliver_len sliver_area)
  from C9_tiny_count[OF sliver_valid h2 h3 h4] h5
  obtain d where d: "computeMeshDiagnostics 3 sliverP sliverI = Some d"
    and c: "tinyTriangleCount d =
             int (length (filter
               (\<lambda>a. 0 < a \<and>
                     a < 0.01 * (sort (triangleAreas sliverP sliverI) ! (length sliverI div 3 div 2)))
               (triangleAreas sliverP sliverI)))"
    and m: "sort (triangleAreas sliverP sliverI) ! (length sliverI div 3 div 2)
                = median (the (computeStats (triangleAreas sliverP sliverI)))" by blast
  have "tinyTriangleCount d = 0"
    unfolding c areas sliver_len by simp
  moreover have "sort (triangleAreas sliverP sliverI) ! (length sliverI div 3 div 2) = 3 / 1250000000"
    unfolding areas sliver_len by simp
  then have "median (the (computeStats (triangleAreas sliverP sliverI))) = 3 / 1250000000"
    using m by simp
  ultimately have sliverPart:
    "(\<exists>d. computeMeshDiagnostics 3 sliverP sliverI = Some d \<and> tinyTriangleCount d = 0) \<and>
     median (the (computeStats (triangleAreas sliverP sliverI))) = 3 / 1250000000"
    using d by blast
  have "validMesh pairP pairI \<and>
   length pairI div 3 \<le> MAX_SAFE_TRIANGLES \<and>
   2 * (length pairI div 3) < (5::nat) \<and>
   0 < length pairI div 3 \<and>
   triangleAreas pairP pairI = [1, 150] \<and>
   sort (triangleAreas pairP pairI) ! (length pairI div 3 div 2) = 150 \<and>
   (\<exists>d. computeMeshDiagnostics 5 pairP pairI = Some d \<and> tinyTriangleCount d = 1) \<and>
   validMesh sliverP sliverI \<and>
   2 * (length sliverI div 3) < (3::nat) \<and>
   odd (length sliverI div 3) \<and>
   (\<exists>d. computeMeshDiagnostics 3 sliverP sliverI = Some d \<and> tinyTriangleCount d = 0) \<and>
   median (the (computeStats (triangleAreas sliverP sliverI))) = 3 / 1250000000"
    using pairPart sliverPart pair_valid p2 p3 p4 pair_areas upper sliver_valid h3 h5
    by (intro conjI) (erule conjunct1 conjunct2 | assumption)+
  thus ?thesis
    unfolding sliverP_def sliverI_def pairP_def pairI_def .
qed


section \<open>Overlay arrays and counts\<close>

lemmas mapdefs = Map_ensure_def Map_has_def Map_get_def Map_append_def Map_add_def Set_add_def

text \<open>
  The mesh \<open>tjP\<close>, \<open>tjI\<close>: a triangle with corners \<open>(0,0,0)\<close>, \<open>(4,0,0)\<close>, \<open>(0,3,0)\<close>
  and two further vertices on its first edge, the mid point \<open>(2,0,0)\<close> and the
  point \<open>(1,0,0)\<close>. The diagonal of the bounding box is \<open>5\<close>, the tolerance
  \<open>0.0005\<close> and the grid cell \<open>0.005\<close> wide.
\<close>

lemma tj_lenP: "length tjP div 3 = 5" by (simp add: tjP_def)
lemma tj_lenI: "length tjI div 3 = 1" by (simp add: tjI_def)

lemma tj_bounds:
  "fold (boundsStep tjP) [0..<5] ((None, None, None), (None, None, None))
     = ((Some 0, Some 0, Some 0), (Some 4, Some 3, Some 0))"
  by (simp add: upt_conv_Cons boundsStep_def[unfolded Let_def] lowerTo_def raiseTo_def vdefs tjP_def)

lemma tj_sqrt: "sqrt 25 = 5"
  by (rule real_sqrt_unique) simp_all

lemma tj_bbox_diagonal: "diagonal (computeBoundingBox tjP) = 5"
  unfolding computeBoundingBox_def Let_def tj_lenP tj_bounds
  by (simp add: tj_sqrt)

lemma tj_vertexTriangles: "vertexTriangles tjI = [(0, [0]), (1, [0]), (2, [0])]"
  by (simp add: vertexTriangles_def tj_lenI vertexTrianglesStep_def Map_add3_def mapdefs tjI_def)

lemma tj_pairs: "concat (map (trianglePairs tjI) [0..<length tjI div 3]) = [(0, 1), (1, 2), (2, 0)]"
  by (simp add: tj_lenI trianglePairs_def tjI_def)

lemma tj_mkEdge:
  "mkEdge tjP 0 (Suc 0) = tjE0" "mkEdge tjP (Suc 0) 2 = tjE1" "mkEdge tjP 2 0 = tjE2"
  by (simp_all add: mkEdge_def corner_def vdefs tjP_def tjE0_def tjE1_def tjE2_def)

lemma tj_edgeList: "tjEdgeList tjP tjI = [tjE0, tjE1, tjE2]"
  unfolding tjEdgeList_def tj_pairs
  by (simp add: tjEdgeListStep_def tj_lenP tjEdgeKey_def tj_mkEdge)

lemma tj_fileEdge0:
  "fileEdge (1 / 200) 0 tjE0 [] = [((0, 0, 0), [0]), ((800, 0, 0), [0]), ((400, 0, 0), [0])]"
  by (simp add: fileEdge_def edgePoints_def tjE0_def fileEdgeStep_def cellOf_def mapdefs)

lemma tj_fileEdge1:
  "fileEdge (1 / 200) (Suc 0) tjE1 [((0, 0, 0), [0]), ((800, 0, 0), [0]), ((400, 0, 0), [0])] =
     [((0, 0, 0), [0]), ((800, 0, 0), [0, 1]), ((400, 0, 0), [0]), ((0, 600, 0), [1]), ((400, 300, 0), [1])]"
  by (simp add: fileEdge_def edgePoints_def tjE1_def fileEdgeStep_def cellOf_def mapdefs)

lemma tj_fileEdge2:
  "fileEdge (1 / 200) (Suc (Suc 0)) tjE2
     [((0, 0, 0), [0]), ((800, 0, 0), [0, Suc 0]), ((400, 0, 0), [0]), ((0, 600, 0), [Suc 0]),
      ((400, 300, 0), [Suc 0])] = tjGrid"
  by (simp add: fileEdge_def edgePoints_def tjE2_def fileEdgeStep_def cellOf_def mapdefs tjGrid_def)

lemma tj_edges:
  "fst (tjEdges tjP tjI (1 / 200)) = [tjE0, tjE1, tjE2] \<and>
   snd (snd (tjEdges tjP tjI (1 / 200))) = tjGrid"
  unfolding tjEdges_def tj_pairs
  by (simp add: tjEdgeStep_def tj_lenP tjEdgeKey_def tj_mkEdge tj_fileEdge0 tj_fileEdge1 tj_fileEdge2)

lemma upto3: "[-1..1] = [-1, 0, 1::int]"
  by (simp add: upto.simps)

lemma tj_cells:
  "cellOf (1 / 200) (vx tjP 0) (vy tjP 0) (vz tjP 0) = (0, 0, 0)"
  "cellOf (1 / 200) (vx tjP (Suc 0)) (vy tjP (Suc 0)) (vz tjP (Suc 0)) = (800, 0, 0)"
  "cellOf (1 / 200) (vx tjP 2) (vy tjP 2) (vz tjP 2) = (0, 600, 0)"
  "cellOf (1 / 200) (vx tjP 3) (vy tjP 3) (vz tjP 3) = (400, 0, 0)"
  "cellOf (1 / 200) (vx tjP 4) (vy tjP 4) (vz tjP 4) = (200, 0, 0)"
  by (simp_all add: cellOf_def vdefs tjP_def)

lemma tj_near:
  "nearbyEdges (1 / 200) tjGrid tjP 0 = [0, 2]"
  "nearbyEdges (1 / 200) tjGrid tjP (Suc 0) = [0, 1]"
  "nearbyEdges (1 / 200) tjGrid tjP 2 = [1, 2]"
  "nearbyEdges (1 / 200) tjGrid tjP 3 = [0]"
  "nearbyEdges (1 / 200) tjGrid tjP 4 = []"
  unfolding nearbyEdges_def tj_cells
  by (simp_all add: neighborCells_def upto3 gridQueryStep_def tjGrid_def Map_get_def Set_add_def)


lemma tj_interior:
  "onEdgeInterior tjP (1 / 4000000) 3 tjE0"
  "onEdgeInterior tjP (1 / 4000000) 4 tjE0"
  by (simp_all add: onEdgeInterior_def tjE0_def vdefs tjP_def Let_def)

lemma tj_junction3: "isTJunction tjP tjI (1 / 4000000) (vertexTriangles tjI) 3 [tjE0]"
  by (simp add: isTJunction_def tj_interior tj_vertexTriangles Map_get_def isConnected_def)

lemma tj_not0:
  "\<not> isTJunction tjP tjI (1 / 4000000) (vertexTriangles tjI) 0 [tjE0, tjE2]"
  "\<not> isTJunction tjP tjI (1 / 4000000) (vertexTriangles tjI) (Suc 0) [tjE0, tjE1]"
  "\<not> isTJunction tjP tjI (1 / 4000000) (vertexTriangles tjI) 2 [tjE1, tjE2]"
  by (simp_all add: isTJunction_def onEdgeInterior_def tjE0_def tjE1_def tjE2_def)

lemma tj_empty: "\<not> isTJunction positions indices tol vt v []"
  by (simp add: isTJunction_def)

lemma tj_count: "detectTJunctions tjP tjI (Some (computeBoundingBox tjP)) = 1"
proof -
  have cs: "max (max (diagonalOr1 (Some (computeBoundingBox tjP))) (1 / 10 ^ 6) * (1 / 10 ^ 4) * 10) (1 / 10 ^ 6)
            = 1 / 200"
    by (simp add: diagonalOr1_def tj_bbox_diagonal)
  have tol: "max (diagonalOr1 (Some (computeBoundingBox tjP))) (1 / 10 ^ 6) * (1 / 10 ^ 4)
             * (max (diagonalOr1 (Some (computeBoundingBox tjP))) (1 / 10 ^ 6) * (1 / 10 ^ 4)) = 1 / 4000000"
    by (simp add: diagonalOr1_def tj_bbox_diagonal)
  obtain es ks g where e: "tjEdges tjP tjI (1 / 200) = (es, ks, g)"
    by (cases "tjEdges tjP tjI (1 / 200)")
  with tj_edges have es: "es = [tjE0, tjE1, tjE2]" and g: "g = tjGrid" by simp_all
  have r: "[0..<5] = [0, 1, 2, 3, 4]" by (simp add: upt_conv_Cons)
  show ?thesis
    unfolding detectTJunctions_def Let_def cs tol tj_lenP e prod.case es g r
    by (simp add: tJunctionStep_def tj_near tj_junction3 tj_not0 tj_empty)
qed


lemma tj_all0:
  "\<not> isTJunction tjP tjI (1 / 4000000) (vertexTriangles tjI) 0 [tjE0, tjE1, tjE2]"
  "\<not> isTJunction tjP tjI (1 / 4000000) (vertexTriangles tjI) (Suc 0) [tjE0, tjE1, tjE2]"
  "\<not> isTJunction tjP tjI (1 / 4000000) (vertexTriangles tjI) 2 [tjE0, tjE1, tjE2]"
  by (simp_all add: isTJunction_def onEdgeInterior_def tjE0_def tjE1_def tjE2_def vdefs tjP_def Let_def)

lemma tj_all3:
  "isTJunction tjP tjI (1 / 4000000) (vertexTriangles tjI) 3 [tjE0, tjE1, tjE2]"
  "isTJunction tjP tjI (1 / 4000000) (vertexTriangles tjI) 4 [tjE0, tjE1, tjE2]"
  by (simp_all add: isTJunction_def tj_interior tj_vertexTriangles Map_get_def isConnected_def)

lemma tj_overlay:
  assumes "boundingBox d = Some (computeBoundingBox tjP)"
  shows "findTJunctionVertices tjP tjI d = [3, 4]"
proof -
  have tol: "diagonalOr1 (boundingBox d) * (1 / 10 ^ 4) * (diagonalOr1 (boundingBox d) * (1 / 10 ^ 4))
             = 1 / 4000000"
    by (simp add: assms diagonalOr1_def tj_bbox_diagonal)
  have r: "[0..<5] = [0, 1, 2, 3, 4]" by (simp add: upt_conv_Cons)
  show ?thesis
    unfolding findTJunctionVertices_def Let_def tol tj_lenP tj_edgeList r
    by (simp add: tj_all0 tj_all3)
qed

lemma tj_valid: "validMesh tjP tjI"
  by (simp add: validMesh_def tjP_def tjI_def MAX_VERTEX_FOR_NUMERIC_KEY_def)

text \<open>
  Claim C3 holds for the boundary edges, the non-manifold edges and the pinch
  points (lemma \<open>overlay_edges_and_pinch_points_match\<close> below), and fails for the
  T-junctions. \<^verbatim>\<open>detectTJunctions\<close> looks for candidate edges in a grid in which an
  edge is filed under its two end points and its mid point only, while
  \<^verbatim>\<open>findTJunctionVertices\<close> tests every edge. In the mesh above the vertex
  \<open>(2,0,0)\<close> is found by both, the vertex \<open>(1,0,0)\<close> only by the overlay: the
  count is \<open>1\<close> and the overlay array has six entries. The mesh is a valid
  input (lemma \<open>tj_valid\<close>).
\<close>

theorem C3_tjunction_overlay_exceeds_count:
  "\<exists>d. computeMeshDiagnostics 3 [0, 0, 0, 4, 0, 0, 0, 3, 0, 2, 0, 0, 1, 0, 0] [0, 1, 2] = Some d \<and>
       tJunctionCount d = 1 \<and>
       tJunctionVertices (extractProblemGeometry [0, 0, 0, 4, 0, 0, 0, 3, 0, 2, 0, 0, 1, 0, 0] [0, 1, 2] d)
         = [2, 0, 0, 1, 0, 0]"
proof -
  have cap: "length tjI div 3 \<le> MAX_SAFE_TRIANGLES"
    by (simp add: tj_lenI MAX_SAFE_TRIANGLES_def MAP_SIZE_LIMIT_def)
  have "2 * (length tjI div 3) < (3::nat)" by (simp add: tj_lenI)
  from validMesh_components[OF tj_valid this]
  obtain n where n: "connectedComponents_of 3 tjI (length tjP div 3) = Some n" ..
  define d where "d = the (computeMeshDiagnostics 3 tjP tjI)"
  have d: "computeMeshDiagnostics 3 tjP tjI = Some d"
    unfolding d_def computeMeshDiagnostics_uncapped[OF cap n] by simp
  have bb: "boundingBox d = Some (computeBoundingBox tjP)"
    unfolding d_def computeMeshDiagnostics_uncapped[OF cap n] by simp
  have tc: "tJunctionCount d = 1"
    unfolding d_def computeMeshDiagnostics_uncapped[OF cap n] by (simp add: tj_count)
  have "tJunctionVertices (extractProblemGeometry tjP tjI d) = [2, 0, 0, 1, 0, 0]"
    unfolding extractProblemGeometry_def Let_def tc tj_overlay[OF bb]
    by (simp add: vdefs tjP_def split: prod.splits)
  with d tc show ?thesis
    unfolding tjP_def[symmetric] tjI_def[symmetric] by blast
qed


text \<open>The three equalities of claim C3 that hold on every input the analysis returns on.\<close>

lemma fold_classifyStep:
  "fold classifyStep m (b, n) =
     (b + length (filter (\<lambda>e. length (snd e) = 1) m), n + length (filter (\<lambda>e. length (snd e) > 2) m))"
proof (induction m arbitrary: b n)
  case Nil
  then show ?case by simp
next
  case (Cons e m)
  obtain k fs where e: "e = (k, fs)" by (cases e)
  have "classifyStep e (b, n) =
      (if length fs = 1 then (Suc b, n) else if length fs > 2 then (b, Suc n) else (b, n))"
    by (simp add: e classifyStep_def Let_def)
  then show ?case by (simp add: Cons.IH e)
qed

lemma fold_edgeOverlayStep:
  "length (fst (fold (edgeOverlayStep positions) m (bs, ns)))
     = length bs + 6 * length (filter (\<lambda>e. length (snd e) = 1) m) \<and>
   length (snd (fold (edgeOverlayStep positions) m (bs, ns)))
     = length ns + 6 * length (filter (\<lambda>e. length (snd e) > 2) m)"
proof (induction m arbitrary: bs ns)
  case Nil
  then show ?case by simp
next
  case (Cons e m)
  obtain k fs where e: "e = (k, fs)" by (cases e)
  obtain bs' ns' where st: "edgeOverlayStep positions e (bs, ns) = (bs', ns')"
    by (cases "edgeOverlayStep positions e (bs, ns)")
  then have l: "length bs' = length bs + (if length fs = 1 then 6 else 0)"
    "length ns' = length ns + (if length fs > 2 then 6 else 0)"
    by (auto simp: e edgeOverlayStep_def Let_def split: if_splits)
  show ?case using Cons.IH[of bs' ns'] by (auto simp: st[unfolded e] l e)
qed

lemma fold_nonManifoldStep:
  "fold (nonManifoldStep indices) m n =
     n + length (filter (\<lambda>e. fansDisconnected indices (fst e) (snd e)) m)"
  by (induction m arbitrary: n) (auto simp: nonManifoldStep_def)

lemma fold_pinchStep:
  "length (fold (pinchStep positions indices) m acc) =
     length acc + 3 * length (filter (\<lambda>e. fansDisconnected indices (fst e) (snd e)) m)"
  by (induction m arbitrary: acc) (auto simp: pinchStep_def)

lemma pinchPoints_length:
  "length (pinchPoints positions indices) = 3 * detectNonManifoldVertices indices"
  by (simp add: pinchPoints_def detectNonManifoldVertices_def fold_pinchStep fold_nonManifoldStep)

lemma overlay_edges_and_pinch_points_match:
  assumes "length indices div 3 \<le> MAX_SAFE_TRIANGLES"
    and "computeMeshDiagnostics depth positions indices = Some d"
  shows "int (length (boundaryEdges (extractProblemGeometry positions indices d))) = 6 * boundaryEdgeCount d"
    and "int (length (nonManifoldEdges (extractProblemGeometry positions indices d))) = 6 * nonManifoldEdgeCount d"
    and "int (length (nonManifoldVertices (extractProblemGeometry positions indices d))) = 3 * nonManifoldVertexCount d"
proof -
  from assms obtain n where n: "connectedComponents_of depth indices (length positions div 3) = Some n"
    by (cases "connectedComponents_of depth indices (length positions div 3)")
       (simp_all add: computeMeshDiagnostics_throws)
  note u = computeMeshDiagnostics_uncapped[OF assms(1) n]
  from assms(2) have d: "boundaryEdgeCount d = int (fst (classifyEdges (buildEdgeFaceMap indices (length indices div 3))))"
    "nonManifoldEdgeCount d = int (snd (classifyEdges (buildEdgeFaceMap indices (length indices div 3))))"
    "nonManifoldVertexCount d = int (detectNonManifoldVertices indices)"
    unfolding u by auto
  obtain bs ns where f: "fold (edgeOverlayStep positions) (buildEdgeFaceMap indices (length indices div 3)) ([], [])
      = (bs, ns)" by (cases "fold (edgeOverlayStep positions) (buildEdgeFaceMap indices (length indices div 3)) ([], [])")
  from fold_edgeOverlayStep[of positions "buildEdgeFaceMap indices (length indices div 3)" "[]" "[]"] f
  have l: "length bs = 6 * fst (classifyEdges (buildEdgeFaceMap indices (length indices div 3)))"
    "length ns = 6 * snd (classifyEdges (buildEdgeFaceMap indices (length indices div 3)))"
    by (simp_all add: classifyEdges_def fold_classifyStep)
  show "int (length (boundaryEdges (extractProblemGeometry positions indices d))) = 6 * boundaryEdgeCount d"
    by (simp add: extractProblemGeometry_def Let_def f l d)
  show "int (length (nonManifoldEdges (extractProblemGeometry positions indices d))) = 6 * nonManifoldEdgeCount d"
    by (simp add: extractProblemGeometry_def Let_def f l d)
  show "int (length (nonManifoldVertices (extractProblemGeometry positions indices d))) = 3 * nonManifoldVertexCount d"
    by (simp add: extractProblemGeometry_def Let_def f d pinchPoints_length)
qed

section \<open>The two self-intersection searches\<close>

subsection \<open>The narrow phases\<close>

lemma moller_imp_simple:
  "trianglesIntersect (corner p (i ! (t1 * 3))) (corner p (i ! (t1 * 3 + 1))) (corner p (i ! (t1 * 3 + 2)))
                      (corner p (i ! (t2 * 3))) (corner p (i ! (t2 * 3 + 1))) (corner p (i ! (t2 * 3 + 2)))
   \<Longrightarrow> trianglesIntersectSimple p i t1 t2"
  by (simp add: trianglesIntersect_def trianglesIntersectSimple_def Let_def split: if_splits)

lemma passesMoller_imp_passesSimple:
  "passesMoller p i x \<Longrightarrow> passesSimple p i x"
  by (cases x) (auto simp: passesMoller_def passesSimple_def pairIntersects_def Let_def
      intro: moller_imp_simple split: if_splits)

subsection \<open>The diagnostic pass\<close>

lemma Set_addAll_set: "set (Set_addAll r xs) = set r \<union> set xs"
  by (induction r xs rule: Set_addAll.induct) (auto simp: Set_add_def)

lemma Set_addAll_distinct: "distinct r \<Longrightarrow> distinct (Set_addAll r xs)"
  by (induction r xs rule: Set_addAll.induct) (auto simp: Set_add_def)

lemma fold_gridQueryStep:
  "set (fold (gridQueryStep grid) ks r) =
     set r \<union> (\<Union>key \<in> set ks. case Map_get grid key of None \<Rightarrow> {} | Some tris \<Rightarrow> set tris)"
  by (induction ks arbitrary: r) (auto simp: gridQueryStep_def Set_addAll_set split: option.splits)

lemma fold_gridQueryStep_distinct:
  "distinct r \<Longrightarrow> distinct (fold (gridQueryStep grid) ks r)"
  by (induction ks arbitrary: r) (auto simp: gridQueryStep_def Set_addAll_distinct split: option.splits)

lemma grid_query_set: "set (grid_query c grid b) = candidates c grid b"
  by (simp add: grid_query_def candidates_def fold_gridQueryStep)

lemma grid_query_distinct: "distinct (grid_query c grid b)"
  by (simp add: grid_query_def fold_gridQueryStep_distinct)

lemma fold_pairCountStep:
  "fold (pairCountStep p i t1) cs n = n + length (filter (pairIntersects p i t1) cs)"
  by (induction cs arbitrary: n) (auto simp: pairCountStep_def)

lemma selfIntersectionStep_card:
  "selfIntersectionStep p i c grid t1 n
     = n + card {t2 \<in> candidates c grid (triBoundsOf p i t1). pairIntersects p i t1 t2}"
proof -
  have "length (filter (pairIntersects p i t1) (grid_query c grid (triBoundsOf p i t1)))
          = card ({t2. pairIntersects p i t1 t2} \<inter> set (grid_query c grid (triBoundsOf p i t1)))"
    by (rule distinct_length_filter) (rule grid_query_distinct)
  moreover have "{t2. pairIntersects p i t1 t2} \<inter> set (grid_query c grid (triBoundsOf p i t1))
          = {t2 \<in> candidates c grid (triBoundsOf p i t1). pairIntersects p i t1 t2}"
    by (auto simp: grid_query_set)
  ultimately show ?thesis
    by (simp add: selfIntersectionStep_def fold_pairCountStep)
qed

lemma finite_candidates: "finite (candidates c grid b)"
  by (auto simp: candidates_def split: option.splits)

lemma fold_selfIntersectionStep:
  "fold (selfIntersectionStep p i c grid) ts n
     = n + (\<Sum>t1 \<leftarrow> ts. card {t2 \<in> candidates c grid (triBoundsOf p i t1). pairIntersects p i t1 t2})"
  by (induction ts arbitrary: n) (simp_all add: selfIntersectionStep_card)

lemma count_as_pairs:
  "(\<Sum>t1 \<leftarrow> [0..<T]. card {t2 \<in> C t1. P t1 t2})
     = card {x. fst x < T \<and> snd x \<in> C (fst x) \<and> P (fst x) (snd x)}"
  if "\<And>t. finite (C t)"
proof (induction T)
  case 0
  show ?case by simp
next
  case (Suc T)
  let ?A = "{x. fst x < T \<and> snd x \<in> C (fst x) \<and> P (fst x) (snd x)}"
  let ?B = "(\<lambda>t2. (T, t2)) ` {t2 \<in> C T. P T t2}"
  have split: "{x. fst x < Suc T \<and> snd x \<in> C (fst x) \<and> P (fst x) (snd x)} = ?A \<union> ?B"
    by (auto simp: less_Suc_eq)
  have finA: "finite ?A"
  proof (rule finite_subset)
    show "?A \<subseteq> (\<Union>t \<in> {..<T}. (\<lambda>t2. (t, t2)) ` C t)" by force
    show "finite (\<Union>t \<in> {..<T}. (\<lambda>t2. (t, t2)) ` C t)" using that by simp
  qed
  have finB: "finite ?B" using that by simp
  have disj: "?A \<inter> ?B = {}" by auto
  have cB: "card ?B = card {t2 \<in> C T. P T t2}"
    by (rule card_image) (simp add: inj_on_def)
  show ?case
    unfolding split card_Un_disjoint[OF finA finB disj] cB
    using Suc.IH by simp
qed

lemma detectSelfIntersections_card:
  "detectSelfIntersections p i bb =
     card {x. fst x < length i div 3 \<and>
              snd x \<in> candidates (selfIntersectionCellSize i bb)
                        (selfIntersectionGrid p i (selfIntersectionCellSize i bb)) (triBoundsOf p i (fst x)) \<and>
              passesMoller p i x}"
proof -
  have "{x. fst x < length i div 3 \<and>
              snd x \<in> candidates (selfIntersectionCellSize i bb)
                        (selfIntersectionGrid p i (selfIntersectionCellSize i bb)) (triBoundsOf p i (fst x)) \<and>
              passesMoller p i x}
      = {x. fst x < length i div 3 \<and>
              snd x \<in> candidates (selfIntersectionCellSize i bb)
                        (selfIntersectionGrid p i (selfIntersectionCellSize i bb)) (triBoundsOf p i (fst x)) \<and>
              pairIntersects p i (fst x) (snd x)}"
    by (auto simp: passesMoller_def)
  thus ?thesis
    by (simp add: detectSelfIntersections_def Let_def fold_selfIntersectionStep
        count_as_pairs[OF finite_candidates])
qed

subsection \<open>The overlay's search\<close>

lemma pairStep_eq:
  "pairStep p i t1 t2 (pairs, checked) =
     (if t2 \<le> t1 \<or> (t1, t2) \<in> checked then (pairs, checked)
      else (if passesSimple p i (t1, t2) then pairs @ [(t1, t2)] else pairs, insert (t1, t2) checked))"
  by (simp add: pairStep_def passesSimple_def Let_def)

lemma pairStep_inv:
  assumes "pairsInv p i S st"
  shows "pairsInv p i (insert (t1, t2) S) (pairStep p i t1 t2 st)"
proof (cases st)
  case (Pair pairs checked)
  with assms have c: "checked = {x \<in> S. fst x < snd x}" and d: "distinct pairs"
    and s: "set pairs = {x \<in> S. passesSimple p i x}"
    by (simp_all add: pairsInv_def)
  show ?thesis
  proof (cases "t2 \<le> t1")
    case True
    hence np: "\<not> passesSimple p i (t1, t2)" by (simp add: passesSimple_def)
    have 1: "{x \<in> insert (t1, t2) S. fst x < snd x} = {x \<in> S. fst x < snd x}"
      using True by auto
    have 2: "{x \<in> insert (t1, t2) S. passesSimple p i x} = {x \<in> S. passesSimple p i x}"
      using np by auto
    show ?thesis
      unfolding Pair pairStep_eq pairsInv_def 1 2 using True c d s by simp
  next
    case False
    show ?thesis
    proof (cases "(t1, t2) \<in> checked")
      case True
      hence "insert (t1, t2) S = S" using c by auto
      then show ?thesis using Pair assms True False
        by (simp add: pairStep_eq)
    next
      case nc: False
      hence notin: "(t1, t2) \<notin> S" using c False by auto
      hence notin': "(t1, t2) \<notin> set pairs" using s by auto
      have 1: "{x \<in> insert (t1, t2) S. fst x < snd x} = insert (t1, t2) {x \<in> S. fst x < snd x}"
        using False by auto
      show ?thesis
      proof (cases "passesSimple p i (t1, t2)")
        case True
        have 2: "{x \<in> insert (t1, t2) S. passesSimple p i x} = insert (t1, t2) {x \<in> S. passesSimple p i x}"
          using True by auto
        show ?thesis
          unfolding Pair pairStep_eq pairsInv_def 1 2 using True False nc c d s notin' by simp
      next
        case np: False
        have 2: "{x \<in> insert (t1, t2) S. passesSimple p i x} = {x \<in> S. passesSimple p i x}"
          using np by auto
        show ?thesis
          unfolding Pair pairStep_eq pairsInv_def 1 2 using np False nc c d s by simp
      qed
    qed
  qed
qed

lemma fold_pairStep_inv:
  "pairsInv p i S st \<Longrightarrow> pairsInv p i (S \<union> {t1} \<times> set cs) (fold (pairStep p i t1) cs st)"
proof (induction cs arbitrary: S st)
  case Nil
  then show ?case by simp
next
  case (Cons c cs)
  have "pairsInv p i (insert (t1, c) S \<union> {t1} \<times> set cs) (fold (pairStep p i t1) cs (pairStep p i t1 c st))"
    by (rule Cons.IH) (rule pairStep_inv[OF Cons.prems])
  moreover have "insert (t1, c) S \<union> {t1} \<times> set cs = S \<union> {t1} \<times> set (c # cs)" by auto
  ultimately show ?case by simp
qed

lemma fold_pairsCellStep_inv:
  "pairsInv p i S st \<Longrightarrow>
   pairsInv p i (S \<union> {t1} \<times> (\<Union>key \<in> set ks. case Map_get grid key of None \<Rightarrow> {} | Some tris \<Rightarrow> set tris))
     (fold (pairsCellStep p i grid t1) ks st)"
proof (induction ks arbitrary: S st)
  case Nil
  then show ?case by simp
next
  case (Cons k ks)
  let ?K = "case Map_get grid k of None \<Rightarrow> {} | Some tris \<Rightarrow> set tris"
  have "pairsInv p i (S \<union> {t1} \<times> ?K) (pairsCellStep p i grid t1 k st)"
    using Cons.prems fold_pairStep_inv[of p i S st t1]
    by (auto simp: pairsCellStep_def split: option.splits)
  from Cons.IH[OF this]
  have "pairsInv p i ((S \<union> {t1} \<times> ?K) \<union> {t1} \<times> (\<Union>key \<in> set ks. case Map_get grid key of None \<Rightarrow> {} | Some tris \<Rightarrow> set tris))
     (fold (pairsCellStep p i grid t1) ks (pairsCellStep p i grid t1 k st))" .
  moreover have "(S \<union> {t1} \<times> ?K) \<union> {t1} \<times> (\<Union>key \<in> set ks. case Map_get grid key of None \<Rightarrow> {} | Some tris \<Rightarrow> set tris)
     = S \<union> {t1} \<times> (\<Union>key \<in> set (k # ks). case Map_get grid key of None \<Rightarrow> {} | Some tris \<Rightarrow> set tris)"
    by auto
  ultimately show ?case by simp
qed

lemma pairsStep_inv:
  "pairsInv p i S st \<Longrightarrow>
   pairsInv p i (S \<union> {t1} \<times> candidates c grid (triBoundsOf p i t1)) (pairsStep p i c grid t1 st)"
  unfolding pairsStep_def candidates_def by (rule fold_pairsCellStep_inv)

lemma fold_pairsStep_inv:
  "pairsInv p i S st \<Longrightarrow>
   pairsInv p i (S \<union> (\<Union>t1 \<in> set ts. {t1} \<times> candidates c grid (triBoundsOf p i t1)))
     (fold (pairsStep p i c grid) ts st)"
proof (induction ts arbitrary: S st)
  case Nil
  then show ?case by simp
next
  case (Cons t ts)
  from Cons.IH[OF pairsStep_inv[OF Cons.prems]]
  have "pairsInv p i ((S \<union> {t} \<times> candidates c grid (triBoundsOf p i t)) \<union>
          (\<Union>t1 \<in> set ts. {t1} \<times> candidates c grid (triBoundsOf p i t1)))
     (fold (pairsStep p i c grid) ts (pairsStep p i c grid t st))" .
  moreover have "(S \<union> {t} \<times> candidates c grid (triBoundsOf p i t)) \<union>
          (\<Union>t1 \<in> set ts. {t1} \<times> candidates c grid (triBoundsOf p i t1))
      = S \<union> (\<Union>t1 \<in> set (t # ts). {t1} \<times> candidates c grid (triBoundsOf p i t1))"
    by auto
  ultimately show ?case by simp
qed

lemma findIntersectingTrianglePairs_spec:
  "distinct (findIntersectingTrianglePairs p i) \<and>
   set (findIntersectingTrianglePairs p i) =
     {x. fst x < length i div 3 \<and>
         snd x \<in> candidates (estimateCellSize p (length i div 3))
                   (selfIntersectionGrid p i (estimateCellSize p (length i div 3))) (triBoundsOf p i (fst x)) \<and>
         passesSimple p i x}"
proof -
  have "pairsInv p i {} ([], {})" by (simp add: pairsInv_def)
  from fold_pairsStep_inv[OF this, where ts = "[0..<length i div 3]"
      and c = "estimateCellSize p (length i div 3)"
      and grid = "selfIntersectionGrid p i (estimateCellSize p (length i div 3))"]
  show ?thesis
    by (auto simp: pairsInv_def findIntersectingTrianglePairs_def Let_def)
qed

subsection \<open>The cell sizes\<close>

lemma cellSizes_agree:
  assumes "0 < length p div 3" "1 / 10 ^ 6 \<le> diagonal (computeBoundingBox p)"
  shows "estimateCellSize p (length i div 3) = selfIntersectionCellSize i (Some (computeBoundingBox p))"
proof -
  obtain lo hi where f: "fold (boundsStep p) [0..<length p div 3] ((None, None, None), (None, None, None)) = (lo, hi)"
    by (cases "fold (boundsStep p) [0..<length p div 3] ((None, None, None), (None, None, None))")
  obtain a b c where lo: "lo = (a, b, c)" by (cases lo)
  obtain d e g where hi: "hi = (d, e, g)" by (cases hi)
  let ?diag = "sqrt ((the d - the a) * (the d - the a) + (the e - the b) * (the e - the b)
                     + (the g - the c) * (the g - the c))"
  have diag: "diagonal (computeBoundingBox p) = ?diag"
    using assms(1) by (simp add: computeBoundingBox_def Let_def f lo hi)
  have est: "estimateCellSize p (length i div 3)
               = max (?diag / sqrt (real (length i div 3) / 2) * 2) (1 / 10 ^ 6)"
    using assms(1) by (simp add: estimateCellSize_def Let_def f lo hi)
  have m: "max (diagonal (computeBoundingBox p)) (1 / 10 ^ 6) = diagonal (computeBoundingBox p)"
    using assms(2) by (rule max_absorb1)
  have "selfIntersectionCellSize i (Some (computeBoundingBox p))
          = max (diagonal (computeBoundingBox p) / sqrt (real (length i div 3) / 2) * 2) (1 / 10 ^ 6)"
    unfolding selfIntersectionCellSize_def Let_def diagonalOr1_def option.case m ..
  thus ?thesis unfolding est diag by simp
qed

lemma selfIntersections_are_overlay_pairs:
  assumes "0 < length p div 3" "1 / 10 ^ 6 \<le> diagonal (computeBoundingBox p)"
  shows "detectSelfIntersections p i (Some (computeBoundingBox p))
           = length (filter (passesMoller p i) (findIntersectingTrianglePairs p i))"
proof -
  let ?c = "selfIntersectionCellSize i (Some (computeBoundingBox p))"
  have cs: "estimateCellSize p (length i div 3) = ?c" by (rule cellSizes_agree[OF assms])
  have "set (filter (passesMoller p i) (findIntersectingTrianglePairs p i))
          = {x. fst x < length i div 3 \<and>
                snd x \<in> candidates ?c (selfIntersectionGrid p i ?c) (triBoundsOf p i (fst x)) \<and>
                passesMoller p i x}"
    using findIntersectingTrianglePairs_spec[of p i] passesMoller_imp_passesSimple[of p i]
    unfolding cs by auto
  moreover have "distinct (filter (passesMoller p i) (findIntersectingTrianglePairs p i))"
    using findIntersectingTrianglePairs_spec[of p i] by simp
  ultimately show ?thesis
    unfolding detectSelfIntersections_card
    by (metis distinct_card)
qed


subsection \<open>Three triangles\<close>

text \<open>
  The mesh \<open>crossP\<close>, \<open>crossI\<close> has three triangles without a common vertex.
  Triangle 0 lies in the plane \<open>z = 1\<close>; triangle 1 pierces it; triangle 2 lies
  in the plane \<open>x = 1\<close>, which cuts triangle 0 along \<open>0 \<le> y \<le> 2\<close>, while triangle 2
  itself meets the plane \<open>z = 1\<close> only along \<open>5 \<le> y \<le> 6\<close>. The bounding box measures
  \<open>2 \<times> 6 \<times> 3\<close>, its diagonal is \<open>7\<close>, and one grid cell holds the whole mesh.
\<close>

lemma cross_lenP: "length crossP div 3 = 9" by (simp add: crossP_def)
lemma cross_lenI: "length crossI div 3 = 3" by (simp add: crossI_def)

lemma upt9: "[0..<9] = [0, 1, 2, 3, 4, 5, 6, 7, 8]"
  by (simp add: upt_conv_Cons)

lemma upt3: "[0..<3] = [0, 1, 2]"
  by (simp add: upt_conv_Cons)

lemma cross_bounds:
  "fold (boundsStep crossP) [0..<9] ((None, None, None), (None, None, None))
     = ((Some 0, Some 0, Some 0), (Some 2, Some 6, Some 3))"
  unfolding upt9
  by (simp add: boundsStep_def[unfolded Let_def] lowerTo_def raiseTo_def crossP_def)

lemma sqrt49: "sqrt 49 = 7"
  by (rule real_sqrt_unique) simp_all

lemma cross_diagonal: "diagonal (computeBoundingBox crossP) = 7"
  unfolding computeBoundingBox_def Let_def cross_lenP cross_bounds
  by (simp add: sqrt49)

lemma cross_cellSize:
  "selfIntersectionCellSize crossI (Some (computeBoundingBox crossP)) = crossCell"
  unfolding selfIntersectionCellSize_def Let_def diagonalOr1_def option.case cross_diagonal cross_lenI
  by (simp add: crossCell_def)

lemma cross_estimate: "estimateCellSize crossP 3 = crossCell"
  unfolding estimateCellSize_def Let_def cross_lenP cross_bounds
  by (simp add: sqrt49 crossCell_def)

lemma crossCell_gt: "6 < crossCell"
proof -
  have "sqrt (3 / 2) \<le> sqrt 4" by (rule real_sqrt_le_mono) simp
  also have "sqrt 4 = 2" by (rule real_sqrt_unique) simp_all
  finally have le: "sqrt (3 / 2) \<le> 2" .
  have pos: "0 < sqrt (3 / 2)" by simp
  have "7 / 2 \<le> 7 / sqrt (3 / 2)"
    using le pos by (intro divide_left_mono) simp_all
  hence "6 < 7 / sqrt (3 / 2) * 2" by linarith
  thus ?thesis unfolding crossCell_def by (simp add: less_max_iff_disj)
qed

lemma floor_in_cell: "0 \<le> x \<Longrightarrow> x < c \<Longrightarrow> \<lfloor>x / c\<rfloor> = 0" for x c :: real
proof -
  assume a: "0 \<le> x" "x < c"
  hence "0 \<le> x / c" "x / c < 1" by simp_all
  thus ?thesis by linarith
qed

lemma cellsBetween_one_cell:
  assumes "0 \<le> minX b" "minX b < c" "0 \<le> minY b" "minY b < c" "0 \<le> minZ b" "minZ b < c"
    and "0 \<le> maxX b" "maxX b < c" "0 \<le> maxY b" "maxY b < c" "0 \<le> maxZ b" "maxZ b < c"
  shows "cellsBetween c b = [(0, 0, 0)]"
  unfolding cellsBetween_def Let_def
    floor_in_cell[OF assms(1,2)] floor_in_cell[OF assms(3,4)] floor_in_cell[OF assms(5,6)]
    floor_in_cell[OF assms(7,8)] floor_in_cell[OF assms(9,10)] floor_in_cell[OF assms(11,12)]
  by (simp add: upto.simps)

lemma cross_triBounds:
  "triBoundsOf crossP crossI 0 = \<lparr>minX = 0, minY = 0, minZ = 1, maxX = 2, maxY = 2, maxZ = 1\<rparr>"
  "triBoundsOf crossP crossI (Suc 0) = \<lparr>minX = 1, minY = 1, minZ = 0, maxX = 2, maxY = 3 / 2, maxZ = 2\<rparr>"
  "triBoundsOf crossP crossI 2 = \<lparr>minX = 1, minY = 5, minZ = 0, maxX = 1, maxY = 6, maxZ = 3\<rparr>"
  by (simp_all add: triBoundsOf_def[unfolded Let_def] vdefs crossP_def crossI_def)

lemma cross_cells:
  "cellsBetween crossCell (triBoundsOf crossP crossI 0) = [(0, 0, 0)]"
  "cellsBetween crossCell (triBoundsOf crossP crossI (Suc 0)) = [(0, 0, 0)]"
  "cellsBetween crossCell (triBoundsOf crossP crossI 2) = [(0, 0, 0)]"
  using crossCell_gt
  by (intro cellsBetween_one_cell; simp add: cross_triBounds)+

lemma cross_grid: "selfIntersectionGrid crossP crossI crossCell = [((0, 0, 0), [0, 1, 2])]"
  unfolding selfIntersectionGrid_def cross_lenI upt3
  by (simp add: selfIntersectionGridStep_def grid_insert_def cross_cells gridInsertStep_def mapdefs)

lemma cross_query:
  "grid_query crossCell [((0, 0, 0), [0, Suc 0, 2])] (triBoundsOf crossP crossI 0) = [0, Suc 0, 2]"
  "grid_query crossCell [((0, 0, 0), [0, Suc 0, 2])] (triBoundsOf crossP crossI (Suc 0)) = [0, Suc 0, 2]"
  "grid_query crossCell [((0, 0, 0), [0, Suc 0, 2])] (triBoundsOf crossP crossI 2) = [0, Suc 0, 2]"
  by (simp_all add: grid_query_def cross_cells gridQueryStep_def Map_get_def Set_add_def)

lemma cross_corners:
  "corner crossP 0 = (0, 0, 1)" "corner crossP (Suc 0) = (2, 0, 1)" "corner crossP 2 = (1, 2, 1)"
  "corner crossP 3 = (1, 1, 0)" "corner crossP 4 = (1, 1, 2)" "corner crossP 5 = (2, 3 / 2, 1)"
  "corner crossP 6 = (1, 5, 0)" "corner crossP 7 = (1, 5, 3)" "corner crossP 8 = (1, 6, 1)"
  by (simp_all add: corner_def vdefs crossP_def)

lemma sqrt_not_tiny: "1 \<le> x \<Longrightarrow> \<not> sqrt x * 10000000000 < 1"
proof -
  assume "1 \<le> x"
  hence "1 \<le> sqrt x" by simp
  hence "1 \<le> sqrt x * 10000000000" by linarith
  thus ?thesis by linarith
qed

lemma cross_moller01:
  "trianglesIntersect (0, 0, 1) (2, 0, 1) (1, 2, 1) (1, 1, 0) (1, 1, 2) (2, 3 / 2, 1)"
  by (simp add: trianglesIntersect_def triNormal_def signedDist_def sameSide_def Let_def
      computeTriangleInterval_def sqrt_not_tiny)

lemma cross_moller02:
  "\<not> trianglesIntersect (0, 0, 1) (2, 0, 1) (1, 2, 1) (1, 5, 0) (1, 5, 3) (1, 6, 1)"
  by (simp add: trianglesIntersect_def triNormal_def signedDist_def sameSide_def Let_def
      computeTriangleInterval_def sqrt_not_tiny)

lemma cross_moller12:
  "\<not> trianglesIntersect (1, 1, 0) (1, 1, 2) (2, 3 / 2, 1) (1, 5, 0) (1, 5, 3) (1, 6, 1)"
  by (simp add: trianglesIntersect_def triNormal_def signedDist_def sameSide_def Let_def)

lemma cross_pairIntersects:
  "pairIntersects crossP crossI 0 (Suc 0)"
  "\<not> pairIntersects crossP crossI 0 2"
  "\<not> pairIntersects crossP crossI (Suc 0) 2"
  by (simp_all add: pairIntersects_def[unfolded Let_def] crossI_def trianglesAdjacent_def
      cross_corners cross_moller01 cross_moller02 cross_moller12)

lemma cross_pairIntersects_back: "t2 \<le> t1 \<Longrightarrow> \<not> pairIntersects crossP crossI t1 t2"
  by (simp add: pairIntersects_def)

lemma cross_count: "detectSelfIntersections crossP crossI (Some (computeBoundingBox crossP)) = 1"
  unfolding detectSelfIntersections_def Let_def cross_cellSize cross_grid cross_lenI upt3
  by (simp add: selfIntersectionStep_def cross_query pairCountStep_def cross_pairIntersects
      cross_pairIntersects_back)

lemma cross_simple:
  "trianglesIntersectSimple crossP crossI 0 (Suc 0)"
  "trianglesIntersectSimple crossP crossI 0 2"
  "\<not> trianglesIntersectSimple crossP crossI (Suc 0) 2"
  unfolding trianglesIntersectSimple_def Let_def
  by (simp_all add: crossI_def cross_corners triNormal_def signedDist_def sameSide_def)

lemma cross_passesSimple:
  "passesSimple crossP crossI (0, Suc 0)"
  "passesSimple crossP crossI (0, 2)"
  "\<not> passesSimple crossP crossI (Suc 0, 2)"
  using cross_simple
  by (simp_all add: passesSimple_def crossI_def trianglesAdjacent_def)

lemma cross_pairs: "findIntersectingTrianglePairs crossP crossI = [(0, 1), (0, 2)]"
  unfolding findIntersectingTrianglePairs_def Let_def cross_lenI cross_estimate cross_grid upt3
  by (simp add: pairsStep_def cross_cells pairsCellStep_def Map_get_def pairStep_eq cross_passesSimple)

lemma cross_centroids:
  "concat (map (pairCentroid crossP crossI) [(0, 1), (0, 2)]) = [7 / 6, 11 / 12, 1, 1, 3, 7 / 6]"
  by (simp add: pairCentroid_def[unfolded Let_def] crossI_def cross_corners)

lemma cross_valid: "validMesh crossP crossI"
  by (simp add: validMesh_def crossP_def crossI_def MAX_VERTEX_FOR_NUMERIC_KEY_def)

lemma cross_uncapped: "length crossI div 3 \<le> MAX_SAFE_TRIANGLES"
  by (simp add: cross_lenI MAX_SAFE_TRIANGLES_def MAP_SIZE_LIMIT_def)

text \<open>
  Claim C5, as stated, fails: on this mesh the diagnostic pass counts one
  intersecting pair, \<open>(0, 1)\<close>, and the overlay lists two, \<open>(0, 1)\<close> and \<open>(0, 2)\<close>,
  and emits two centroids. Triangle 2 straddles the plane of triangle 0 and
  conversely, which is all the simplified test of the overlay asks; the intervals
  that the full test compares are disjoint.
\<close>

theorem C5_counterexample:
  "validMesh crossP crossI \<and>
   (\<exists>d. computeMeshDiagnostics 7 crossP crossI = Some d \<and>
        selfIntersectionCount d = 1 \<and>
        findIntersectingTrianglePairs crossP crossI = [(0, 1), (0, 2)] \<and>
        selfIntersectionCentroids (extractProblemGeometry crossP crossI d)
          = [7 / 6, 11 / 12, 1, 1, 3, 7 / 6])"
proof -
  have "2 * (length crossI div 3) < (7::nat)" by (simp add: cross_lenI)
  from validMesh_components[OF cross_valid this]
  obtain n where n: "connectedComponents_of 7 crossI (length crossP div 3) = Some n" by blast
  let ?d = "the (computeMeshDiagnostics 7 crossP crossI)"
  have d: "computeMeshDiagnostics 7 crossP crossI = Some ?d"
    unfolding computeMeshDiagnostics_uncapped[OF cross_uncapped n] by simp
  have c: "selfIntersectionCount ?d = 1"
    unfolding computeMeshDiagnostics_uncapped[OF cross_uncapped n] by (simp add: cross_count)
  have "selfIntersectionCentroids (extractProblemGeometry crossP crossI ?d)
          = [7 / 6, 11 / 12, 1, 1, 3, 7 / 6]"
    unfolding extractProblemGeometry_def Let_def c cross_pairs cross_centroids
    by (simp split: prod.splits)
  with d c cross_pairs cross_valid show ?thesis by blast
qed

text \<open>
  Claim C5, as the code has it. For a mesh with at least one vertex and a
  bounding-box diagonal of at least \<open>10\<^sup>-\<^sup>6\<close> the overlay's search uses the cell size
  and the grid of the diagnostic pass, and replaces the Moeller test by its two
  opening plane tests. So the pairs counted by \<^verbatim>\<open>selfIntersectionCount\<close> are
  exactly those pairs of the overlay's list that also pass the full test: the
  count never exceeds the length of the list, may be smaller, and whenever it is
  positive the overlay holds one centroid of three coordinates for every pair of
  the list, each pair being listed once.
\<close>

theorem C5_overlay_pairs_contain_counted_pairs:
  assumes "computeMeshDiagnostics depth positions indices = Some d"
    and "length indices div 3 \<le> MAX_SAFE_TRIANGLES"
    and "0 < length positions div 3"
    and "1 / 10 ^ 6 \<le> diagonal (computeBoundingBox positions)"
  shows "selfIntersectionCount d
           = int (length (filter (passesMoller positions indices)
                                 (findIntersectingTrianglePairs positions indices))) \<and>
         selfIntersectionCount d \<le> int (length (findIntersectingTrianglePairs positions indices)) \<and>
         distinct (findIntersectingTrianglePairs positions indices) \<and>
         list_all (passesSimple positions indices) (findIntersectingTrianglePairs positions indices) \<and>
         (if selfIntersectionCount d > 0
          then selfIntersectionCentroids (extractProblemGeometry positions indices d)
                 = concat (map (pairCentroid positions indices)
                               (findIntersectingTrianglePairs positions indices)) \<and>
               length (selfIntersectionCentroids (extractProblemGeometry positions indices d))
                 = 3 * length (findIntersectingTrianglePairs positions indices)
          else selfIntersectionCentroids (extractProblemGeometry positions indices d) = [])"
proof -
  from assms(1,2) obtain n where
    n: "connectedComponents_of depth indices (length positions div 3) = Some n"
    by (auto simp: computeMeshDiagnostics_def Let_def split: option.splits prod.splits)
  have c: "selfIntersectionCount d
             = int (detectSelfIntersections positions indices (Some (computeBoundingBox positions)))"
    using assms(1) unfolding computeMeshDiagnostics_uncapped[OF assms(2) n] by auto
  have 1: "selfIntersectionCount d
           = int (length (filter (passesMoller positions indices)
                                 (findIntersectingTrianglePairs positions indices)))"
    unfolding c selfIntersections_are_overlay_pairs[OF assms(3,4)] ..
  have 2: "selfIntersectionCount d \<le> int (length (findIntersectingTrianglePairs positions indices))"
    unfolding 1 by simp
  have 3: "distinct (findIntersectingTrianglePairs positions indices)"
    using findIntersectingTrianglePairs_spec[of positions indices] by simp
  have 4: "list_all (passesSimple positions indices) (findIntersectingTrianglePairs positions indices)"
    using findIntersectingTrianglePairs_spec[of positions indices] by (simp add: list_all_iff)
  have len: "length (concat (map (pairCentroid positions indices) ps)) = 3 * length ps" for ps
    by (induction ps) (simp_all add: pairCentroid_def Let_def split: prod.splits)
  have 5: "selfIntersectionCentroids (extractProblemGeometry positions indices d)
             = (if selfIntersectionCount d > 0
                then concat (map (pairCentroid positions indices)
                               (findIntersectingTrianglePairs positions indices))
                else [])"
    by (simp add: extractProblemGeometry_def Let_def split: prod.splits)
  show ?thesis
    using 1 2 3 4 by (simp add: 5 len)
qed

theorem C5_overlay_pairs_contain_counted_pairs_witness:
  "\<exists>d. computeMeshDiagnostics 7 crossP crossI = Some d \<and>
       length crossI div 3 \<le> MAX_SAFE_TRIANGLES \<and>
       0 < length crossP div 3 \<and>
       1 / 10 ^ 6 \<le> diagonal (computeBoundingBox crossP) \<and>
       selfIntersectionCount d
           = int (length (filter (passesMoller crossP crossI) (findIntersectingTrianglePairs crossP crossI))) \<and>
       selfIntersectionCount d \<le> int (length (findIntersectingTrianglePairs crossP crossI)) \<and>
       distinct (findIntersectingTrianglePairs crossP crossI) \<and>
       list_all (passesSimple crossP crossI) (findIntersectingTrianglePairs crossP crossI) \<and>
       (if selfIntersectionCount d > 0
        then selfIntersectionCentroids (extractProblemGeometry crossP crossI d)
               = concat (map (pairCentroid crossP crossI) (findIntersectingTrianglePairs crossP crossI)) \<and>
             length (selfIntersectionCentroids (extractProblemGeometry crossP crossI d))
               = 3 * length (findIntersectingTrianglePairs crossP crossI)
        else selfIntersectionCentroids (extractProblemGeometry crossP crossI d) = [])"
proof -
  have "2 * (length crossI div 3) < (7::nat)" by (simp add: cross_lenI)
  from validMesh_components[OF cross_valid this]
  obtain n where n: "connectedComponents_of 7 crossI (length crossP div 3) = Some n" by blast
  obtain d where d: "computeMeshDiagnostics 7 crossP crossI = Some d"
    unfolding computeMeshDiagnostics_uncapped[OF cross_uncapped n] by simp
  have h3: "0 < length crossP div 3" by (simp add: cross_lenP)
  have h4: "1 / 10 ^ 6 \<le> diagonal (computeBoundingBox crossP)" by (simp add: cross_diagonal)
  from C5_overlay_pairs_contain_counted_pairs[OF d cross_uncapped h3 h4] d cross_uncapped h3 h4
  show ?thesis by blast
qed

section \<open>Translating the mesh\<close>

subsection \<open>Positions enter these passes through differences\<close>

lemma translate_length: "length (translate d p) = length p"
  by (simp add: translate_def)










subsection \<open>The passes that keep no grid\<close>










lemma thinWallThreshold_fixed: "snd (detectThinWalls p I bb f) = f"
  by (simp add: detectThinWalls_def Let_def)

lemma validMesh_translate: "validMesh p I \<Longrightarrow> validMesh (translate d p) I"
  by (simp add: validMesh_def translate_length)


subsection \<open>The bounding box\<close>








subsection \<open>Grids\<close>










subsection \<open>Thin walls\<close>







subsection \<open>Coincident faces\<close>












subsection \<open>Values of a \<^verbatim>\<open>Float32Array\<close>\<close>




subsection \<open>Duplicate vertices move with the grid\<close>













subsection \<open>A pair of triangles enters a common cell\<close>

















subsection \<open>A vertex leaves the cells around the mid point of its edge\<close>


























subsection \<open>What a translation changes and what it keeps\<close>




end
